theory Spec2Isabelle
  imports Complex_Main
begin

section \<open>Tensors\<close>

text \<open>
  The program is a Transformer written over a tensor library. A tensor is modelled by
  its shape and its element at every index (a list of naturals, one per axis), with
  real numbers standing for the floating-point elements: the model is exact arithmetic,
  and nothing below speaks of rounding, infinities produced by overflow or NaN. An index
  outside the shape is never read by any operation applied to a well-shaped argument.

  Every exception the library or the interpreter raises is a value of \<open>error\<close>.
\<close>

datatype error = IndexError | ValueError | RuntimeError | TypeError | UnboundLocalError

datatype 'a tensor = Tensor (shape: "nat list") (elem: "nat list \<Rightarrow> 'a")

definition and_then :: "error + 'a \<Rightarrow> ('a \<Rightarrow> error + 'b) \<Rightarrow> error + 'b" where
  "and_then m f = (case m of Inl e \<Rightarrow> Inl e | Inr v \<Rightarrow> f v)"

definition dim :: "'a tensor \<Rightarrow> nat" where
  "dim x = length (shape x)"

definition map_tensor :: "('a \<Rightarrow> 'b) \<Rightarrow> 'a tensor \<Rightarrow> 'b tensor" where
  "map_tensor f x = Tensor (shape x) (\<lambda>idx. f (elem x idx))"

text \<open>Python's axis numbers: \<open>-r .. r - 1\<close> for a tensor of \<open>r\<close> axes, negative ones
  counted from the end; anything else raises.\<close>

definition wrap_dim :: "nat \<Rightarrow> int \<Rightarrow> error + nat" where
  "wrap_dim r d =
     (if - int r \<le> d \<and> d < int r then Inr (nat (if d < 0 then d + int r else d))
      else Inl IndexError)"

text \<open>Modelled from the spec: \<open>maxsize\<close> is a method the batching library adds to
  tensors (it is not in the file under study); on a dense tensor the size of an axis,
  \<open>maxsize()\<close> the whole shape ("a tensor with trailing dimensions (sequence length T,
  feature width D)").\<close>

definition maxsize :: "'a tensor \<Rightarrow> int \<Rightarrow> error + nat" where
  "maxsize x d = and_then (wrap_dim (dim x) d) (\<lambda>k. Inr (shape x ! k))"

definition maxsize_all :: "'a tensor \<Rightarrow> nat list" where
  "maxsize_all x = shape x"

text \<open>\<open>torch.arange(0, n)\<close> and \<open>torch.arange(0, n, 2)\<close>.\<close>

definition arange :: "nat \<Rightarrow> real tensor" where
  "arange n = Tensor [n] (\<lambda>idx. real (hd idx))"

definition arange2 :: "nat \<Rightarrow> real tensor" where
  "arange2 n = Tensor [(n + 1) div 2] (\<lambda>idx. real (2 * hd idx))"

text \<open>\<open>x.unsqueeze(d)\<close>: a new axis of size one at position \<open>d\<close>, where \<open>d\<close> ranges
  over \<open>-(r+1) .. r\<close>.\<close>

definition unsqueeze :: "int \<Rightarrow> 'a tensor \<Rightarrow> error + 'a tensor" where
  "unsqueeze d x =
     and_then (wrap_dim (Suc (dim x)) d)
       (\<lambda>k. Inr (Tensor (take k (shape x) @ [1] @ drop k (shape x))
                    (\<lambda>idx. elem x (take k idx @ drop (Suc k) idx))))"

subsection \<open>Broadcasting\<close>

text \<open>Shapes are aligned at their last axis; two sizes are compatible when they are
  equal or one of them is one. \<open>broadcast_rev\<close> works on the reversed shapes.\<close>

fun broadcast_rev :: "nat list \<Rightarrow> nat list \<Rightarrow> nat list option" where
  "broadcast_rev [] ys = Some ys"
| "broadcast_rev (x # xs) [] = Some (x # xs)"
| "broadcast_rev (x # xs) (y # ys) =
     (if x = y \<or> y = 1 then map_option ((#) x) (broadcast_rev xs ys)
      else if x = 1 then map_option ((#) y) (broadcast_rev xs ys)
      else None)"

definition broadcast_shapes :: "nat list \<Rightarrow> nat list \<Rightarrow> nat list option" where
  "broadcast_shapes s t = map_option rev (broadcast_rev (rev s) (rev t))"

text \<open>The index at which a tensor of shape \<open>s\<close> is read for the index \<open>idx\<close> of the
  broadcast result: the trailing components, with every axis of size one read at 0.\<close>

definition bindex :: "nat list \<Rightarrow> nat list \<Rightarrow> nat list" where
  "bindex s idx =
     map2 (\<lambda>d i. if d = 1 then 0 else i) s (drop (length idx - length s) idx)"

definition broadcast_op ::
  "('a \<Rightarrow> 'b \<Rightarrow> 'c) \<Rightarrow> 'a tensor \<Rightarrow> 'b tensor \<Rightarrow> error + 'c tensor" where
  "broadcast_op f x y =
     (case broadcast_shapes (shape x) (shape y) of
        None \<Rightarrow> Inl RuntimeError
      | Some s \<Rightarrow> Inr (Tensor s (\<lambda>idx. f (elem x (bindex (shape x) idx))
                                        (elem y (bindex (shape y) idx)))))"

definition add :: "real tensor \<Rightarrow> real tensor \<Rightarrow> error + real tensor" where
  "add = broadcast_op (+)"

definition sub :: "real tensor \<Rightarrow> real tensor \<Rightarrow> error + real tensor" where
  "sub = broadcast_op (-)"

definition mul :: "real tensor \<Rightarrow> real tensor \<Rightarrow> error + real tensor" where
  "mul = broadcast_op (*)"

definition divide_tensor :: "real tensor \<Rightarrow> real tensor \<Rightarrow> error + real tensor" where
  "divide_tensor = broadcast_op (/)"

text \<open>\<open>x += y\<close> writes into \<open>x\<close>: the broadcast result must have the shape of \<open>x\<close>.\<close>

definition iadd :: "real tensor \<Rightarrow> real tensor \<Rightarrow> error + real tensor" where
  "iadd x y =
     and_then (add x y) (\<lambda>z. if shape z = shape x then Inr z else Inl RuntimeError)"

text \<open>\<open>x.expand(sizes)\<close>: the target has at least as many axes as \<open>x\<close>, and every axis
  of \<open>x\<close> has the target's size or size one.\<close>

definition expand :: "nat list \<Rightarrow> 'a tensor \<Rightarrow> error + 'a tensor" where
  "expand tgt x =
     (if length (shape x) \<le> length tgt \<and>
         list_all2 (\<lambda>d t. d = t \<or> d = 1) (shape x) (drop (length tgt - length (shape x)) tgt)
      then Inr (Tensor tgt (\<lambda>idx. elem x (bindex (shape x) idx)))
      else Inl RuntimeError)"

subsection \<open>Matrix product\<close>

text \<open>\<open>a @ b\<close> is \<open>torch.matmul\<close>: the last two axes are multiplied as matrices and the
  axes before them broadcast; an operand with one axis is a row (left) or a column
  (right) whose added axis is removed from the result; an operand with no axis raises.
  \<open>bmm\<close> is the product of two operands of at least two axes.\<close>

definition bmm :: "real tensor \<Rightarrow> real tensor \<Rightarrow> error + real tensor" where
  "bmm a b =
     (let ba = butlast (butlast (shape a)); bb = butlast (butlast (shape b));
          m = last (butlast (shape a)); k = last (shape a);
          k' = last (butlast (shape b)); n = last (shape b)
      in if k \<noteq> k' then Inl RuntimeError
         else (case broadcast_shapes ba bb of
                 None \<Rightarrow> Inl RuntimeError
               | Some bs \<Rightarrow>
                   Inr (Tensor (bs @ [m, n])
                     (\<lambda>idx. let bi = take (length bs) idx;
                                i = idx ! length bs; j = idx ! Suc (length bs)
                            in \<Sum>l<k. elem a (bindex ba bi @ [i, l]) * elem b (bindex bb bi @ [l, j])))))"

definition matmul :: "real tensor \<Rightarrow> real tensor \<Rightarrow> error + real tensor" where
  "matmul a b =
     (if dim a = 0 \<or> dim b = 0 then Inl RuntimeError
      else
        let a2 = (if dim a = 1 then Tensor (1 # shape a) (\<lambda>idx. elem a (tl idx)) else a);
            b2 = (if dim b = 1 then Tensor (shape b @ [1]) (\<lambda>idx. elem b (butlast idx)) else b)
        in and_then (bmm a2 b2)
             (\<lambda>c. let r = length (shape c);
                      c1 = (if dim b = 1
                            then Tensor (butlast (shape c)) (\<lambda>idx. elem c (idx @ [0])) else c);
                      c2 = (if dim a = 1
                            then Tensor (take (r - 2) (shape c) @ drop (r - 1) (shape c1))
                                   (\<lambda>idx. elem c1 (take (r - 2) idx @ [0] @ drop (r - 2) idx))
                            else c1)
                  in Inr c2))"

section \<open>Positional encodings\<close>

text \<open>\<open>torch.stack((a, b), -1)\<close> for two tensors: equal shapes, a new last axis of size 2.\<close>

definition stack2 :: "'a tensor \<Rightarrow> 'a tensor \<Rightarrow> error + 'a tensor" where
  "stack2 a b =
     (if shape a = shape b
      then Inr (Tensor (shape a @ [2])
                 (\<lambda>idx. if last idx = 0 then elem a (butlast idx) else elem b (butlast idx)))
      else Inl RuntimeError)"

text \<open>\<open>e.contiguous().view(*e.size()[:-2], -1)\<close>: the last two axes become one, read in
  row-major order. The size written \<open>-1\<close> is inferred from the number of elements, which
  the library refuses when the sizes before it multiply to zero.\<close>

definition view_merge_last2 :: "'a tensor \<Rightarrow> error + 'a tensor" where
  "view_merge_last2 e =
     (let r = length (shape e); lead = take (r - 2) (shape e);
          c = shape e ! (r - 2); w = shape e ! (r - 1)
      in if r < 2 then Inl IndexError
         else if prod_list lead = 0 then Inl RuntimeError
         else Inr (Tensor (lead @ [c * w])
                    (\<lambda>idx. elem e (butlast idx @ [last idx div w, last idx mod w]))))"

definition positional_encodings_like ::
  "real tensor \<Rightarrow> real tensor option \<Rightarrow> error + real tensor" where
  "positional_encodings_like x t =
     and_then (maxsize x (-2)) (\<lambda>T.
     and_then (maxsize x (-1)) (\<lambda>D.
       let positions = (case t of None \<Rightarrow> arange T | Some t' \<Rightarrow> t');
           channels = map_tensor (\<lambda>c. c / real D) (arange2 D);
           channels = map_tensor (\<lambda>c. 1 / (10000 powr c)) channels
       in
       and_then (unsqueeze (-1) positions) (\<lambda>pcol.
       and_then (unsqueeze 0 channels) (\<lambda>crow.
       and_then (matmul pcol crow) (\<lambda>encodings.
       and_then (stack2 (map_tensor sin encodings) (map_tensor cos encodings)) (\<lambda>encodings.
       and_then (view_merge_last2 encodings) (\<lambda>encodings.
         if dim encodings = 2
         then and_then (unsqueeze 0 encodings) (\<lambda>e. expand (maxsize_all x) e)
         else Inr encodings)))))))"


section \<open>Parameters and random draws\<close>

text \<open>
  A freshly constructed \<open>nn.Linear\<close> holds randomly initialised parameters, and a
  \<open>nn.Dropout\<close> in training mode draws a fresh mask at every call. Both sources of
  randomness are made explicit: \<open>params\<close> gives the initial value of every parameter
  element and \<open>draws\<close> says of every element whether Dropout keeps it in the forward
  pass under study. Both are addressed by the position of the module in the module tree
  (the list of child numbers leading to it), so that distinct modules read distinct
  values; \<open>child k\<close> hands the part of the supply below child \<open>k\<close> to that child.
\<close>

type_synonym params = "nat list \<Rightarrow> nat list \<Rightarrow> real"

type_synonym draws = "nat list \<Rightarrow> nat list \<Rightarrow> bool"

definition child :: "nat \<Rightarrow> (nat list \<Rightarrow> 'a) \<Rightarrow> nat list \<Rightarrow> 'a" where
  "child k f = (\<lambda>path. f (k # path))"

section \<open>Dropout, Linear, LayerNorm\<close>

record Dropout =
  drop_p :: real
  drop_training :: bool

text \<open>\<open>nn.Dropout(p)\<close> refuses a probability outside \<open>[0, 1]\<close>; a new module is in
  training mode.\<close>

definition Dropout_init :: "real \<Rightarrow> error + Dropout" where
  "Dropout_init p =
     (if p < 0 \<or> 1 < p then Inl ValueError
      else Inr \<lparr>drop_p = p, drop_training = True\<rparr>)"

text \<open>In training mode a kept element is scaled by \<open>1 / (1 - p)\<close> and a dropped one is
  zero (every element is dropped when \<open>p = 1\<close>); in evaluation mode, and for \<open>p = 0\<close>,
  the input is returned.\<close>

definition Dropout_forward :: "Dropout \<Rightarrow> draws \<Rightarrow> real tensor \<Rightarrow> real tensor" where
  "Dropout_forward d rnd x =
     (if drop_training d \<and> 0 < drop_p d
      then Tensor (shape x)
             (\<lambda>idx. if drop_p d < 1 \<and> rnd [] idx then elem x idx / (1 - drop_p d) else 0)
      else x)"

record Linear =
  in_features :: nat
  out_features :: nat
  weight :: "real tensor"
  bias :: "real tensor"

text \<open>\<open>nn.Linear(n_in, n_out)\<close>: a weight of shape \<open>[n_out, n_in]\<close> and a bias of shape
  \<open>[n_out]\<close>; a negative size raises.\<close>

definition Linear_init :: "params \<Rightarrow> int \<Rightarrow> int \<Rightarrow> error + Linear" where
  "Linear_init init n_in n_out =
     (if n_in < 0 \<or> n_out < 0 then Inl RuntimeError
      else Inr \<lparr>in_features = nat n_in, out_features = nat n_out,
                weight = Tensor [nat n_out, nat n_in] (init [0]),
                bias = Tensor [nat n_out] (init [1])\<rparr>)"

text \<open>\<open>y = x W\<^sup>T + b\<close> along the last axis, which must have \<open>in_features\<close> entries.\<close>

definition Linear_forward :: "Linear \<Rightarrow> real tensor \<Rightarrow> error + real tensor" where
  "Linear_forward l x =
     (if shape x = [] \<or> last (shape x) \<noteq> in_features l then Inl RuntimeError
      else Inr (Tensor (butlast (shape x) @ [out_features l])
                 (\<lambda>idx. (\<Sum>i<in_features l. elem x (butlast idx @ [i]) * elem (weight l) [last idx, i])
                        + elem (bias l) [last idx])))"

record LayerNorm =
  ln_gamma :: "real tensor"
  ln_beta :: "real tensor"
  ln_eps :: real

text \<open>\<open>eps\<close> has the default \<open>1e-6\<close> when the caller gives none.\<close>

definition LayerNorm_init :: "int \<Rightarrow> real option \<Rightarrow> error + LayerNorm" where
  "LayerNorm_init d_model eps =
     (if d_model < 0 then Inl RuntimeError
      else Inr \<lparr>ln_gamma = Tensor [nat d_model] (\<lambda>_. 1),
                ln_beta = Tensor [nat d_model] (\<lambda>_. 0),
                ln_eps = (case eps of None \<Rightarrow> 1 / 10 ^ 6 | Some e \<Rightarrow> e)\<rparr>)"

text \<open>\<open>x.mean(-1, keepdim=True)\<close> and \<open>x.std(-1, keepdim=True)\<close>: the mean and the
  standard deviation with Bessel's correction (divisor \<open>n - 1\<close>) over the last axis,
  which stays as an axis of size one. A tensor with no axis is read as one element.
  For \<open>n \<le> 1\<close> (\<open>n = 0\<close> for the mean) the library's result is NaN, which the real
  numbers do not have: statements about these functions are for \<open>n \<ge> 2\<close>.\<close>

definition last_size :: "'a tensor \<Rightarrow> nat" where
  "last_size x = (if shape x = [] then 1 else last (shape x))"

definition row :: "real tensor \<Rightarrow> nat list \<Rightarrow> nat \<Rightarrow> real" where
  "row x idx j = (if shape x = [] then elem x [] else elem x (butlast idx @ [j]))"

definition keepdim_shape :: "nat list \<Rightarrow> nat list" where
  "keepdim_shape s = (if s = [] then [] else butlast s @ [1])"

definition mean_last :: "real tensor \<Rightarrow> real tensor" where
  "mean_last x =
     Tensor (keepdim_shape (shape x))
       (\<lambda>idx. (\<Sum>j<last_size x. row x idx j) / real (last_size x))"

definition std_last :: "real tensor \<Rightarrow> real tensor" where
  "std_last x =
     Tensor (keepdim_shape (shape x))
       (\<lambda>idx. sqrt ((\<Sum>j<last_size x. (row x idx j - elem (mean_last x) idx)\<^sup>2)
                     / (real (last_size x) - 1)))"

definition LayerNorm_forward :: "LayerNorm \<Rightarrow> real tensor \<Rightarrow> error + real tensor" where
  "LayerNorm_forward m x =
     (let mean = mean_last x; std = std_last x
      in and_then (sub x mean) (\<lambda>centred.
         and_then (mul (ln_gamma m) centred) (\<lambda>scaled.
         and_then (divide_tensor scaled (map_tensor (\<lambda>s. s + ln_eps m) std)) (\<lambda>normed.
         add normed (ln_beta m)))))"

section \<open>FeedForward and ResidualBlock\<close>

definition relu :: "real tensor \<Rightarrow> real tensor" where
  "relu = map_tensor (max 0)"

record FeedForward =
  ff_linear1 :: Linear
  ff_linear2 :: Linear
  ff_dropout :: Dropout

definition FeedForward_init :: "params \<Rightarrow> int \<Rightarrow> int \<Rightarrow> real \<Rightarrow> error + FeedForward" where
  "FeedForward_init init d_model d_hidden drop_ratio =
     and_then (Linear_init (child 0 init) d_model d_hidden) (\<lambda>l1.
     and_then (Linear_init (child 1 init) d_hidden d_model) (\<lambda>l2.
     and_then (Dropout_init drop_ratio) (\<lambda>d.
       Inr \<lparr>ff_linear1 = l1, ff_linear2 = l2, ff_dropout = d\<rparr>)))"

definition FeedForward_forward :: "FeedForward \<Rightarrow> draws \<Rightarrow> real tensor \<Rightarrow> error + real tensor" where
  "FeedForward_forward ff rnd x =
     and_then (Linear_forward (ff_linear1 ff) x) (\<lambda>h.
       Linear_forward (ff_linear2 ff) (Dropout_forward (ff_dropout ff) (child 2 rnd) (relu h)))"

text \<open>A \<open>ResidualBlock\<close> wraps any module. The wrapped module is a value of the type
  parameter, and \<open>call\<close> is its \<open>forward\<close>, applied to the whole argument tuple.\<close>

record 'l ResidualBlock =
  rb_layer :: 'l
  rb_dropout :: Dropout
  rb_norm :: LayerNorm

definition ResidualBlock_init :: "'l \<Rightarrow> int \<Rightarrow> real \<Rightarrow> error + 'l ResidualBlock" where
  "ResidualBlock_init layer d_model drop_ratio =
     and_then (Dropout_init drop_ratio) (\<lambda>d.
     and_then (LayerNorm_init d_model None) (\<lambda>n.
       Inr \<lparr>rb_layer = layer, rb_dropout = d, rb_norm = n\<rparr>))"

text \<open>\<open>x[0] + self.dropout(self.norm(self.layer(*x)))\<close>: the left operand is evaluated
  first, so an empty argument tuple raises before the wrapped module is called.\<close>

definition ResidualBlock_forward ::
  "('l \<Rightarrow> draws \<Rightarrow> real tensor list \<Rightarrow> error + real tensor) \<Rightarrow>
   'l ResidualBlock \<Rightarrow> draws \<Rightarrow> real tensor list \<Rightarrow> error + real tensor" where
  "ResidualBlock_forward call rb rnd x =
     (case x of
        [] \<Rightarrow> Inl IndexError
      | x0 # _ \<Rightarrow>
          and_then (call (rb_layer rb) (child 0 rnd) x) (\<lambda>y.
          and_then (LayerNorm_forward (rb_norm rb) y) (\<lambda>n.
            add x0 (Dropout_forward (rb_dropout rb) (child 1 rnd) n))))"

definition FeedForward_call ::
  "FeedForward \<Rightarrow> draws \<Rightarrow> real tensor list \<Rightarrow> error + real tensor" where
  "FeedForward_call ff rnd xs =
     (case xs of [x] \<Rightarrow> FeedForward_forward ff rnd x | _ \<Rightarrow> Inl TypeError)"

section \<open>Attention\<close>

text \<open>The dot products may hold \<open>-\<infinity>\<close> after masking: \<open>xreal\<close> adds it to the reals.\<close>

datatype xreal = NegInf | Fin real

definition xdiv :: "xreal \<Rightarrow> real \<Rightarrow> xreal" where
  "xdiv v s = (case v of NegInf \<Rightarrow> NegInf | Fin r \<Rightarrow> Fin (r / s))"

definition xexp :: "xreal \<Rightarrow> real" where
  "xexp v = (case v of NegInf \<Rightarrow> 0 | Fin r \<Rightarrow> exp r)"

text \<open>\<open>x.transpose(d0, d1)\<close>.\<close>

definition transpose_tensor :: "int \<Rightarrow> int \<Rightarrow> 'a tensor \<Rightarrow> error + 'a tensor" where
  "transpose_tensor d0 d1 x =
     and_then (wrap_dim (dim x) d0) (\<lambda>i.
     and_then (wrap_dim (dim x) d1) (\<lambda>j.
       Inr (Tensor ((shape x)[i := shape x ! j, j := shape x ! i])
             (\<lambda>idx. elem x (idx[i := idx ! j, j := idx ! i])))))"

text \<open>Modelled from the spec: \<open>causal_mask\<close> belongs to the batching library and is not
  in the file under study. "Mask out dot-product entries where the key position exceeds
  the query position (set to \<open>-\<infinity>\<close> prior to softmax)": the key position is the axis
  \<open>in_dim\<close>, the query position the axis \<open>out_dim\<close>.\<close>

definition causal_mask :: "nat \<Rightarrow> nat \<Rightarrow> real tensor \<Rightarrow> xreal tensor" where
  "causal_mask in_dim out_dim x =
     Tensor (shape x)
       (\<lambda>idx. if idx ! out_dim < idx ! in_dim then NegInf else Fin (elem x idx))"

text \<open>Modelled from the spec: \<open>softmax\<close> with no axis given is the batching library's.
  "Softmax normalizes over the key axis", the last one; an entry \<open>-\<infinity>\<close> has weight 0.\<close>

definition softmax :: "xreal tensor \<Rightarrow> real tensor" where
  "softmax x =
     Tensor (shape x)
       (\<lambda>idx. xexp (elem x idx) / (\<Sum>j<last (shape x). xexp (elem x (butlast idx @ [j]))))"

record Attention =
  att_scale :: real
  att_dropout :: Dropout
  att_causal :: bool

text \<open>\<open>math.sqrt\<close> raises on a negative argument.\<close>

definition Attention_init :: "real \<Rightarrow> real \<Rightarrow> bool \<Rightarrow> error + Attention" where
  "Attention_init d_key drop_ratio causal =
     (if d_key < 0 then Inl ValueError
      else and_then (Dropout_init drop_ratio) (\<lambda>d.
             Inr \<lparr>att_scale = sqrt d_key, att_dropout = d, att_causal = causal\<rparr>))"

definition Attention_forward ::
  "Attention \<Rightarrow> draws \<Rightarrow> real tensor \<Rightarrow> real tensor \<Rightarrow> real tensor \<Rightarrow> error + real tensor" where
  "Attention_forward a rnd query key val =
     and_then (transpose_tensor 1 2 key) (\<lambda>kt.
     and_then (matmul query kt) (\<lambda>dot_products.
       let dot_products =
             (if att_causal a \<and> dim query = 3 then causal_mask 2 1 dot_products
              else map_tensor Fin dot_products)
       in matmul (Dropout_forward (att_dropout a) (child 0 rnd)
                    (softmax (map_tensor (\<lambda>v. xdiv v (att_scale a)) dot_products)))
                 val))"

section \<open>MultiHead\<close>

text \<open>Modelled from the spec: \<open>split_dim\<close> and \<open>combine_dims\<close> belong to the batching
  library and are not in the file under study. The spec says that MultiHead "splits the
  feature dimension into n_heads equal groups, folds the head dimension into the batch
  dimension" and later "un-folds and concatenates head outputs back along the feature
  axis", with "undefined/error if not divisible"; the shapes are those of the comments in
  \<open>MultiHead.forward\<close>: \<open>split_dim(-1, N)\<close> takes \<open>B x T x D\<close> to \<open>B x T x (D/N) x N\<close>,
  \<open>combine_dims(0, -1)\<close> takes that to \<open>(B*N) x T x (D/N)\<close>, \<open>split_dim(0, N)\<close> takes
  \<open>(B*N) x T x (D/N)\<close> to \<open>B x N x T x (D/N)\<close> and \<open>combine_dims(-1, 1)\<close> takes that to
  \<open>B x T x D\<close>. So \<open>split_dim d n\<close> replaces the axis \<open>d\<close> of size \<open>s\<close> by two axes of
  sizes \<open>s / n\<close> and \<open>n\<close>, and \<open>combine_dims a b\<close> removes the axis \<open>b\<close> and multiplies
  the axis \<open>a\<close> by its size; elements are placed in row-major order, the axis \<open>a\<close>
  counting slower than the axis \<open>b\<close>.\<close>

definition split_dim :: "int \<Rightarrow> int \<Rightarrow> 'a tensor \<Rightarrow> error + 'a tensor" where
  "split_dim d n x =
     and_then (wrap_dim (dim x) d) (\<lambda>k.
       if n \<le> 0 \<or> int (shape x ! k) mod n \<noteq> 0 then Inl RuntimeError
       else Inr (Tensor (take k (shape x) @ [shape x ! k div nat n, nat n] @ drop (Suc k) (shape x))
                  (\<lambda>idx. elem x (take k idx @ [idx ! k * nat n + idx ! Suc k] @ drop (k + 2) idx))))"

definition combine_dims :: "int \<Rightarrow> int \<Rightarrow> 'a tensor \<Rightarrow> error + 'a tensor" where
  "combine_dims a b x =
     and_then (wrap_dim (dim x) a) (\<lambda>i.
     and_then (wrap_dim (dim x) b) (\<lambda>j.
       if i = j then Inl ValueError
       else
         let sj = shape x ! j;
             s' = (shape x)[i := shape x ! i * sj];
             i' = (if j < i then i - 1 else i)
         in Inr (Tensor (take j s' @ drop (Suc j) s')
                  (\<lambda>idx. let c = idx ! i'; idx' = idx[i' := c div sj]
                         in elem x (take j idx' @ [c mod sj] @ drop j idx')))))"

record MultiHead =
  mh_attention :: Attention
  mh_wq :: Linear
  mh_wk :: Linear
  mh_wv :: Linear
  mh_wo :: Linear
  mh_n_heads :: int

definition MultiHead_init ::
  "params \<Rightarrow> Attention \<Rightarrow> int \<Rightarrow> int \<Rightarrow> int \<Rightarrow> error + MultiHead" where
  "MultiHead_init init attention d_key d_value n_heads =
     and_then (Linear_init (child 1 init) d_key d_key) (\<lambda>wq.
     and_then (Linear_init (child 2 init) d_key d_key) (\<lambda>wk.
     and_then (Linear_init (child 3 init) d_value d_value) (\<lambda>wv.
     and_then (Linear_init (child 4 init) d_value d_key) (\<lambda>wo.
       Inr \<lparr>mh_attention = attention, mh_wq = wq, mh_wk = wk, mh_wv = wv, mh_wo = wo,
            mh_n_heads = n_heads\<rparr>))))"

text \<open>The body of the generator expression of \<open>MultiHead.forward\<close>:
  \<open>x.split_dim(-1, self.n_heads).combine_dims(0, -1)\<close>.\<close>

definition fold_heads :: "int \<Rightarrow> real tensor \<Rightarrow> error + real tensor" where
  "fold_heads n x = and_then (split_dim (-1) n x) (combine_dims 0 (-1))"

definition MultiHead_forward ::
  "MultiHead \<Rightarrow> draws \<Rightarrow> real tensor \<Rightarrow> real tensor \<Rightarrow> real tensor \<Rightarrow> error + real tensor" where
  "MultiHead_forward mh rnd query key val =
     and_then (Linear_forward (mh_wq mh) query) (\<lambda>query.
     and_then (Linear_forward (mh_wk mh) key) (\<lambda>key.
     and_then (Linear_forward (mh_wv mh) val) (\<lambda>val.
     and_then (fold_heads (mh_n_heads mh) query) (\<lambda>query.
     and_then (fold_heads (mh_n_heads mh) key) (\<lambda>key.
     and_then (fold_heads (mh_n_heads mh) val) (\<lambda>val.
     and_then (Attention_forward (mh_attention mh) (child 0 rnd) query key val) (\<lambda>outputs.
     and_then (split_dim 0 (mh_n_heads mh) outputs) (\<lambda>outputs.
     and_then (combine_dims (-1) 1 outputs) (\<lambda>outputs.
       Linear_forward (mh_wo mh) outputs)))))))))"

definition MultiHead_call ::
  "MultiHead \<Rightarrow> draws \<Rightarrow> real tensor list \<Rightarrow> error + real tensor" where
  "MultiHead_call mh rnd xs =
     (case xs of [q, k, v] \<Rightarrow> MultiHead_forward mh rnd q k v | _ \<Rightarrow> Inl TypeError)"

section \<open>Encoder and decoder layers\<close>

record args =
  arg_d_model :: int
  arg_d_hidden :: int
  arg_n_heads :: int
  arg_n_layers :: int
  arg_drop_ratio :: real
  arg_length_ratio :: real

record EncoderLayer =
  el_selfattn :: "MultiHead ResidualBlock"
  el_feedforward :: "FeedForward ResidualBlock"

definition EncoderLayer_init :: "params \<Rightarrow> args \<Rightarrow> error + EncoderLayer" where
  "EncoderLayer_init init a =
     and_then (Attention_init (real_of_int (arg_d_model a)) (arg_drop_ratio a) False) (\<lambda>att.
     and_then (MultiHead_init (child 0 (child 0 init)) att
                 (arg_d_model a) (arg_d_model a) (arg_n_heads a)) (\<lambda>mh.
     and_then (ResidualBlock_init mh (arg_d_model a) (arg_drop_ratio a)) (\<lambda>selfattn.
     and_then (FeedForward_init (child 0 (child 1 init))
                 (arg_d_model a) (arg_d_hidden a) (arg_drop_ratio a)) (\<lambda>ff.
     and_then (ResidualBlock_init ff (arg_d_model a) (arg_drop_ratio a)) (\<lambda>feedforward.
       Inr \<lparr>el_selfattn = selfattn, el_feedforward = feedforward\<rparr>)))))"

definition EncoderLayer_forward ::
  "EncoderLayer \<Rightarrow> draws \<Rightarrow> real tensor \<Rightarrow> error + real tensor" where
  "EncoderLayer_forward l rnd x =
     and_then (ResidualBlock_forward MultiHead_call (el_selfattn l) (child 0 rnd) [x, x, x]) (\<lambda>x.
       ResidualBlock_forward FeedForward_call (el_feedforward l) (child 1 rnd) [x])"

record DecoderLayer =
  dl_selfattn :: "MultiHead ResidualBlock"
  dl_attention :: "MultiHead ResidualBlock"
  dl_feedforward :: "FeedForward ResidualBlock"

definition DecoderLayer_init :: "params \<Rightarrow> args \<Rightarrow> error + DecoderLayer" where
  "DecoderLayer_init init a =
     and_then (Attention_init (real_of_int (arg_d_model a)) (arg_drop_ratio a) True) (\<lambda>att.
     and_then (MultiHead_init (child 0 (child 0 init)) att
                 (arg_d_model a) (arg_d_model a) (arg_n_heads a)) (\<lambda>mh.
     and_then (ResidualBlock_init mh (arg_d_model a) (arg_drop_ratio a)) (\<lambda>selfattn.
     and_then (Attention_init (real_of_int (arg_d_model a)) (arg_drop_ratio a) False) (\<lambda>att2.
     and_then (MultiHead_init (child 0 (child 1 init)) att2
                 (arg_d_model a) (arg_d_model a) (arg_n_heads a)) (\<lambda>mh2.
     and_then (ResidualBlock_init mh2 (arg_d_model a) (arg_drop_ratio a)) (\<lambda>attention.
     and_then (FeedForward_init (child 0 (child 2 init))
                 (arg_d_model a) (arg_d_hidden a) (arg_drop_ratio a)) (\<lambda>ff.
     and_then (ResidualBlock_init ff (arg_d_model a) (arg_drop_ratio a)) (\<lambda>feedforward.
       Inr \<lparr>dl_selfattn = selfattn, dl_attention = attention,
            dl_feedforward = feedforward\<rparr>))))))))"

definition DecoderLayer_forward ::
  "DecoderLayer \<Rightarrow> draws \<Rightarrow> real tensor \<Rightarrow> real tensor \<Rightarrow> error + real tensor" where
  "DecoderLayer_forward l rnd x encoding =
     and_then (ResidualBlock_forward MultiHead_call (dl_selfattn l) (child 0 rnd) [x, x, x]) (\<lambda>x.
     and_then (ResidualBlock_forward MultiHead_call (dl_attention l) (child 1 rnd)
                 [x, encoding, encoding]) (\<lambda>x.
       ResidualBlock_forward FeedForward_call (dl_feedforward l) (child 2 rnd) [x]))"

section \<open>Encoder and Decoder\<close>

text \<open>A vocabulary field, as far as this file reads it: the size of the vocabulary and
  the output projection \<open>field.out\<close> that \<open>Transformer.__init__\<close> stores in it.\<close>

record Field =
  fld_vocab_len :: nat
  fld_out :: Linear

text \<open>\<open>[Layer(args) for i in range(n)]\<close>: the layers are built in order and the first
  failure ends the construction.\<close>

fun build_layers :: "(nat \<Rightarrow> error + 'l) \<Rightarrow> nat list \<Rightarrow> error + 'l list" where
  "build_layers mk [] = Inr []"
| "build_layers mk (i # rest) =
     and_then (mk i) (\<lambda>l. and_then (build_layers mk rest) (\<lambda>ls. Inr (l # ls)))"

text \<open>Every index of a tensor of the given shape, and the embedding lookup: a token
  outside the table raises.\<close>

fun indices :: "nat list \<Rightarrow> nat list list" where
  "indices [] = [[]]"
| "indices (n # ns) = concat (map (\<lambda>i. map ((#) i) (indices ns)) [0..<n])"

definition embedding :: "int tensor \<Rightarrow> real tensor \<Rightarrow> error + real tensor" where
  "embedding x w =
     (if dim w \<noteq> 2 then Inl RuntimeError
      else if list_ex (\<lambda>idx. elem x idx < 0 \<or> int (shape w ! 0) \<le> elem x idx) (indices (shape x))
      then Inl IndexError
      else Inr (Tensor (shape x @ [shape w ! 1])
                 (\<lambda>idx. elem w [nat (elem x (butlast idx)), last idx])))"

text \<open>The first three statements of \<open>Encoder.forward\<close> and of \<open>Decoder.forward\<close> are the
  same: the embedding with the tied, scaled projection weight, the positional encodings
  added in place, and dropout.\<close>

definition embed_tokens ::
  "Linear \<Rightarrow> int \<Rightarrow> Dropout \<Rightarrow> draws \<Rightarrow> int tensor \<Rightarrow> error + real tensor" where
  "embed_tokens out d_model dropout rnd x =
     (if d_model < 0 then Inl ValueError
      else
        and_then (embedding x (map_tensor (\<lambda>w. w * sqrt (real_of_int d_model)) (weight out))) (\<lambda>x.
        and_then (positional_encodings_like x None) (\<lambda>pe.
        and_then (iadd x pe) (\<lambda>x.
          Inr (Dropout_forward dropout rnd x)))))"

record Encoder =
  enc_out :: Linear
  enc_layers :: "EncoderLayer list"
  enc_dropout :: Dropout
  enc_field :: Field
  enc_d_model :: int

definition Encoder_init :: "params \<Rightarrow> Field \<Rightarrow> args \<Rightarrow> error + Encoder" where
  "Encoder_init init field a =
     and_then (build_layers (\<lambda>i. EncoderLayer_init (child i (child 1 init)) a)
                 [0..<nat (arg_n_layers a)]) (\<lambda>layers.
     and_then (Dropout_init (arg_drop_ratio a)) (\<lambda>d.
       Inr \<lparr>enc_out = fld_out field, enc_layers = layers, enc_dropout = d,
            enc_field = field, enc_d_model = arg_d_model a\<rparr>))"

text \<open>The loop of \<open>Encoder.forward\<close>: \<open>l\<close> counts the layers already applied and
  \<open>encoding\<close> is the list built so far.\<close>

fun encode_layers ::
  "draws \<Rightarrow> nat \<Rightarrow> EncoderLayer list \<Rightarrow> real tensor \<Rightarrow> real tensor list \<Rightarrow>
   error + real tensor list" where
  "encode_layers rnd l [] x encoding = Inr encoding"
| "encode_layers rnd l (layer # rest) x encoding =
     and_then (EncoderLayer_forward layer (child l rnd) x) (\<lambda>x.
       encode_layers rnd (Suc l) rest x (encoding @ [x]))"

definition Encoder_forward :: "Encoder \<Rightarrow> draws \<Rightarrow> int tensor \<Rightarrow> error + real tensor list" where
  "Encoder_forward enc rnd x =
     and_then (embed_tokens (enc_out enc) (enc_d_model enc) (enc_dropout enc) (child 2 rnd) x) (\<lambda>x.
       encode_layers (child 1 rnd) 0 (enc_layers enc) x [])"

record Decoder =
  dec_out :: Linear
  dec_layers :: "DecoderLayer list"
  dec_dropout :: Dropout
  dec_d_model :: int
  dec_field :: Field
  dec_length_ratio :: real

definition Decoder_init :: "params \<Rightarrow> Field \<Rightarrow> args \<Rightarrow> error + Decoder" where
  "Decoder_init init field a =
     and_then (build_layers (\<lambda>i. DecoderLayer_init (child i (child 1 init)) a)
                 [0..<nat (arg_n_layers a)]) (\<lambda>layers.
     and_then (Dropout_init (arg_drop_ratio a)) (\<lambda>d.
       Inr \<lparr>dec_out = fld_out field, dec_layers = layers, dec_dropout = d,
            dec_d_model = arg_d_model a, dec_field = field,
            dec_length_ratio = arg_length_ratio a\<rparr>))"

text \<open>The loop of \<open>Decoder.forward\<close> runs over \<open>zip(self.layers, encoding)\<close>, which
  stops at the end of the shorter of the two.\<close>

fun decode_layers ::
  "draws \<Rightarrow> nat \<Rightarrow> (DecoderLayer \<times> real tensor) list \<Rightarrow> real tensor \<Rightarrow> error + real tensor" where
  "decode_layers rnd l [] x = Inr x"
| "decode_layers rnd l ((layer, enc) # rest) x =
     and_then (DecoderLayer_forward layer (child l rnd) x enc) (\<lambda>x.
       decode_layers rnd (Suc l) rest x)"

definition Decoder_forward ::
  "Decoder \<Rightarrow> draws \<Rightarrow> int tensor \<Rightarrow> real tensor list \<Rightarrow> error + real tensor" where
  "Decoder_forward dec rnd x encoding =
     and_then (embed_tokens (dec_out dec) (dec_d_model dec) (dec_dropout dec) (child 2 rnd) x) (\<lambda>x.
       decode_layers (child 1 rnd) 0 (zip (dec_layers dec) encoding) x)"

section \<open>Transformer\<close>

text \<open>
  \<open>Transformer.forward\<close> calls the encoder, the decoder and the two search routines
  \<open>self.decoder.greedy\<close> and \<open>self.decoder.beam_search\<close>. The file under study does not
  define the search routines: they are parameters of the model. To state which of these
  are run, the model returns the list of the calls made, in order, beside the result.
  The keyword arguments are passed explicitly (their defaults are \<open>decoding=False\<close>,
  \<open>beam=1\<close>, \<open>alpha=0.6\<close>, \<open>return_probs=False\<close>).
\<close>

datatype call = EncoderCall | DecoderCall | GreedyCall | BeamSearchCall int real

datatype 'o outcome =
    Out "real tensor"
  | OutProbs "real tensor" "real tensor"
  | Decoded 'o
  | DecodedProbs 'o "real tensor" "real tensor"

definition logged :: "call \<Rightarrow> error + 'a \<Rightarrow> call list \<times> (error + 'a)" where
  "logged c r = ([c], r)"

definition returned :: "'a \<Rightarrow> call list \<times> (error + 'a)" where
  "returned v = ([], Inr v)"

definition then_logged ::
  "call list \<times> (error + 'a) \<Rightarrow> ('a \<Rightarrow> call list \<times> (error + 'b)) \<Rightarrow> call list \<times> (error + 'b)" where
  "then_logged m f =
     (case m of
        (l, Inl e) \<Rightarrow> (l, Inl e)
      | (l, Inr v) \<Rightarrow> (case f v of (l', r) \<Rightarrow> (l @ l', r)))"

record Transformer =
  tr_encoder :: Encoder
  tr_decoder :: Decoder

text \<open>\<open>self.decoder.out(out)\<close> followed by the softmax.\<close>

definition probs :: "Decoder \<Rightarrow> real tensor \<Rightarrow> error + real tensor" where
  "probs dec out =
     and_then (Linear_forward (dec_out dec) out) (\<lambda>logits. Inr (softmax (map_tensor Fin logits)))"

definition Transformer_forward ::
  "(real tensor list \<Rightarrow> error + 'o) \<Rightarrow> (real tensor list \<Rightarrow> int \<Rightarrow> real \<Rightarrow> error + 'o) \<Rightarrow>
   Transformer \<Rightarrow> draws \<Rightarrow> int tensor \<Rightarrow> int tensor \<Rightarrow> bool \<Rightarrow> int \<Rightarrow> real \<Rightarrow> bool \<Rightarrow>
   call list \<times> (error + 'o outcome)" where
  "Transformer_forward greedy beam_search tr rnd encoder_inputs decoder_inputs
       decoding beam alpha return_probs =
     then_logged
       (logged EncoderCall (Encoder_forward (tr_encoder tr) (child 0 rnd) encoder_inputs))
       (\<lambda>encoding.
     then_logged
       (if (return_probs \<and> decoding) \<or> \<not> decoding
        then then_logged
               (logged DecoderCall
                  (Decoder_forward (tr_decoder tr) (child 1 rnd) decoder_inputs encoding))
               (\<lambda>out. returned (Some out))
        else returned None)
       (\<lambda>out.
     if decoding then
       then_logged
         (if beam = 1 then logged GreedyCall (greedy encoding)
          else logged (BeamSearchCall beam alpha) (beam_search encoding beam alpha))
         (\<lambda>output.
            if return_probs then
              (case out of
                 None \<Rightarrow> ([], Inl UnboundLocalError)
               | Some out \<Rightarrow>
                   ([], and_then (probs (tr_decoder tr) out) (\<lambda>p. Inr (DecodedProbs output out p))))
            else returned (Decoded output))
     else if return_probs then
       (case out of
          None \<Rightarrow> ([], Inl UnboundLocalError)
        | Some out \<Rightarrow> ([], and_then (probs (tr_decoder tr) out) (\<lambda>p. Inr (OutProbs out p))))
     else
       (case out of
          None \<Rightarrow> ([], Inl UnboundLocalError)
        | Some out \<Rightarrow> returned (Out out))))"

section \<open>Indices inside a shape, and the normalized part of LayerNorm\<close>

text \<open>An index is valid for a shape when it has one component per axis, each below the
  size of its axis.\<close>

definition valid_index :: "nat list \<Rightarrow> nat list \<Rightarrow> bool" where
  "valid_index s idx = list_all2 (<) idx s"

text \<open>The spec speaks of \<open>LayerNorm(x)\<close> "before scale/shift": the tensor
  \<open>(x - mean) / (std + \<epsilon>)\<close>, with the mean and the standard deviation of
  \<open>LayerNorm.forward\<close>. The source never forms it (it multiplies by \<open>\<gamma>\<close> before it
  divides); \<open>normalized\<close> follows the spec's words.\<close>

definition normalized :: "LayerNorm \<Rightarrow> real tensor \<Rightarrow> error + real tensor" where
  "normalized m x =
     and_then (sub x (mean_last x)) (\<lambda>centred.
       divide_tensor centred (map_tensor (\<lambda>s. s + ln_eps m) (std_last x)))"

section \<open>The layer stacks, as the spec words them\<close>

text \<open>
  The spec describes the encoder as passing its input "through n_layers EncoderLayers in
  sequence", element \<open>i\<close> of the result being what layer \<open>i\<close> returns after the layers
  before it, and the decoder as "pairing each [layer] with the corresponding
  encoder-layer output by index". \<open>encoder_prefix ls i x\<close> is the hidden state after the
  first \<open>i\<close> encoder layers, \<open>decoder_prefix ls encoding i x\<close> the hidden state after
  the first \<open>i\<close> decoder layers, layer \<open>j\<close> attending to element \<open>j\<close> of \<open>encoding\<close>.
  Both read layer \<open>j\<close>'s random draws where the loops of the source do.
\<close>

fun encoder_prefix ::
  "draws \<Rightarrow> EncoderLayer list \<Rightarrow> nat \<Rightarrow> real tensor \<Rightarrow> error + real tensor" where
  "encoder_prefix rnd ls 0 x = Inr x"
| "encoder_prefix rnd ls (Suc i) x =
     and_then (encoder_prefix rnd ls i x) (EncoderLayer_forward (ls ! i) (child i rnd))"

fun decoder_prefix ::
  "draws \<Rightarrow> DecoderLayer list \<Rightarrow> real tensor list \<Rightarrow> nat \<Rightarrow> real tensor \<Rightarrow>
   error + real tensor" where
  "decoder_prefix rnd ls encoding 0 x = Inr x"
| "decoder_prefix rnd ls encoding (Suc i) x =
     and_then (decoder_prefix rnd ls encoding i x)
       (\<lambda>h. DecoderLayer_forward (ls ! i) (child i rnd) h (encoding ! i))"

section \<open>Inputs used in the examples\<close>

text \<open>
  Concrete modules and tensors at which the theorems below are instantiated: parameters
  initialised to zero, a dropout draw that keeps every element, a model with
  \<open>d_model = 4\<close>, \<open>d_hidden = 8\<close>, two heads, one layer and a vocabulary of three tokens,
  and one batch of one token. A module named \<open>example_...\<close> is what its constructor
  returns (the lemmas named \<open>..._init\<close> show that the constructor does return it).
\<close>

definition zeros :: "nat list \<Rightarrow> real tensor" where
  "zeros s = Tensor s (\<lambda>idx. 0)"

definition zero_params :: params where
  "zero_params = (\<lambda>path idx. 0)"

definition all_kept :: draws where
  "all_kept = (\<lambda>path idx. True)"

definition example_attention :: Attention where
  "example_attention =
     \<lparr>att_scale = sqrt 3, att_dropout = \<lparr>drop_p = 0, drop_training = True\<rparr>,
      att_causal = False\<rparr>"

definition example_args :: args where
  "example_args = \<lparr>arg_d_model = 4, arg_d_hidden = 8, arg_n_heads = 2, arg_n_layers = 1,
                    arg_drop_ratio = 0, arg_length_ratio = 2\<rparr>"

definition example_encoder_layer :: EncoderLayer where
  "example_encoder_layer = projr (EncoderLayer_init zero_params example_args)"

definition example_decoder_layer :: DecoderLayer where
  "example_decoder_layer = projr (DecoderLayer_init zero_params example_args)"

definition example_multihead :: MultiHead where
  "example_multihead = projr (MultiHead_init zero_params example_attention 2 4 2)"

definition example_field :: Field where
  "example_field = \<lparr>fld_vocab_len = 3, fld_out = projr (Linear_init zero_params 4 3)\<rparr>"

definition example_encoder :: Encoder where
  "example_encoder = projr (Encoder_init zero_params example_field example_args)"

definition example_decoder :: Decoder where
  "example_decoder = projr (Decoder_init zero_params example_field example_args)"

definition example_tokens :: "int tensor" where
  "example_tokens = Tensor [1, 1] (\<lambda>idx. 0)"

definition example_transformer :: Transformer where
  "example_transformer = \<lparr>tr_encoder = example_encoder, tr_decoder = example_decoder\<rparr>"

definition example_greedy :: "real tensor list \<Rightarrow> error + nat list" where
  "example_greedy encoding = Inr [0]"

definition example_beam_search :: "real tensor list \<Rightarrow> int \<Rightarrow> real \<Rightarrow> error + nat list" where
  "example_beam_search encoding beam alpha = Inr [0, 0]"

definition example_encoding :: "real tensor list" where
  "example_encoding = projr (Encoder_forward example_encoder (child 0 all_kept) example_tokens)"

definition example_hidden :: "real tensor" where
  "example_hidden =
     projr (Decoder_forward example_decoder (child 1 all_kept) example_tokens example_encoding)"

definition example_logits :: "real tensor" where
  "example_logits = projr (Linear_forward (dec_out example_decoder) example_hidden)"

definition example_probs :: "real tensor" where
  "example_probs = projr (probs example_decoder example_hidden)"

definition ones :: "nat list \<Rightarrow> real tensor" where
  "ones s = Tensor s (\<lambda>idx. 1)"

definition example_layernorm :: LayerNorm where
  "example_layernorm = projr (LayerNorm_init 2 None)"

text \<open>A \<open>ResidualBlock\<close> around \<open>nn.Linear(1, 2)\<close>, a layer that changes the shape of its
  input; \<open>Linear_call\<close> is that layer's \<open>forward\<close> on an argument tuple.\<close>

definition Linear_call :: "Linear \<Rightarrow> draws \<Rightarrow> real tensor list \<Rightarrow> error + real tensor" where
  "Linear_call l rnd xs = (case xs of [x] \<Rightarrow> Linear_forward l x | _ \<Rightarrow> Inl TypeError)"

definition example_block :: "Linear ResidualBlock" where
  "example_block = projr (ResidualBlock_init (projr (Linear_init zero_params 1 2)) 2 0)"

definition example_ff_out :: "real tensor" where
  "example_ff_out =
     projr (FeedForward_call (rb_layer (el_feedforward example_encoder_layer))
              (child 0 all_kept) [zeros [1, 1, 4]])"

definition example_ff_normed :: "real tensor" where
  "example_ff_normed =
     projr (LayerNorm_forward (rb_norm (el_feedforward example_encoder_layer)) example_ff_out)"

definition example_causal_attention :: Attention where
  "example_causal_attention =
     \<lparr>att_scale = sqrt 2, att_dropout = \<lparr>drop_p = 0, drop_training = True\<rparr>,
      att_causal = True\<rparr>"

text \<open>A tensor that is zero at sequence position 0 and one at every later position: it
  agrees with \<open>zeros\<close> at position 0 only.\<close>

definition later_ones :: "nat list \<Rightarrow> real tensor" where
  "later_ones s = Tensor s (\<lambda>idx. if 0 < idx ! 1 then 1 else 0)"

definition example_normalized :: "real tensor" where
  "example_normalized = projr (normalized example_layernorm (ones [2]))"

text \<open>
  A second model, whose parameters are not zero: \<open>d_model = 2\<close>, \<open>d_hidden = 2\<close>, two
  heads and two layers. Every bias is \<open>[2, 1]\<close>. Every weight matrix has one entry
  throughout, one more than the sum of the path of its module, so that distinct modules
  have distinct weights; the exception is the value and the output projection of the
  cross-attention of the first decoder layer, whose entry at row \<open>r\<close> and column \<open>c\<close> is
  \<open>1 + r * c\<close>. A path lists the child numbers from the root of the module tree and ends
  with 0 for a weight and 1 for a bias: \<open>[1, 0, 1, 0, 3, 0]\<close> is the weight of the value
  projection (child 3) of the cross-attention (child 1, then its wrapped module, child 0)
  of layer 0 of the layer list (child 1). \<open>weighted_encoder_layer\<close> and
  \<open>weighted_decoder_layer\<close> are single layers built from these parameters,
  \<open>two_layer_encoder\<close> and \<open>two_layer_decoder\<close> the stacks.
\<close>

definition example_weights :: params where
  "example_weights path idx =
     (if last path = 1 then 2 - real (hd idx)
      else if path = [1, 0, 1, 0, 3, 0] \<or> path = [1, 0, 1, 0, 4, 0]
      then 1 + real (idx ! 0 * idx ! 1)
      else 1 + real (sum_list path))"

definition two_layer_args :: args where
  "two_layer_args = \<lparr>arg_d_model = 2, arg_d_hidden = 2, arg_n_heads = 2, arg_n_layers = 2,
                      arg_drop_ratio = 0, arg_length_ratio = 2\<rparr>"



definition two_layer_field :: Field where
  "two_layer_field = \<lparr>fld_vocab_len = 2, fld_out = projr (Linear_init example_weights 2 2)\<rparr>"

definition two_layer_encoder :: Encoder where
  "two_layer_encoder = projr (Encoder_init example_weights two_layer_field two_layer_args)"

definition two_layer_decoder :: Decoder where
  "two_layer_decoder = projr (Decoder_init example_weights two_layer_field two_layer_args)"

definition two_layer_encoding :: "real tensor list" where
  "two_layer_encoding =
     projr (Encoder_forward two_layer_encoder (child 0 all_kept) example_tokens)"

text \<open>\<open>LayerNorm\<close> with \<open>\<gamma> = 1\<close>, \<open>\<beta> = 0\<close> and the default \<open>\<epsilon>\<close> takes a row \<open>(a, b)\<close> of two
  entries to \<open>(pair_norm (a - b), - pair_norm (a - b))\<close>.\<close>

definition pair_norm :: "real \<Rightarrow> real" where
  "pair_norm g = (g / 2) / (sqrt (g\<^sup>2 / 2) + 1 / 10 ^ 6)"

section \<open>Basic facts\<close>

lemma and_then_Inl [simp]: "and_then (Inl e) f = Inl e"
  by (simp add: and_then_def)

lemma and_then_Inr [simp]: "and_then (Inr v) f = f v"
  by (simp add: and_then_def)

lemma and_then_eq_Inr: "and_then m f = Inr r \<longleftrightarrow> (\<exists>v. m = Inr v \<and> f v = Inr r)"
  by (cases m) simp_all

lemma and_then_assoc: "and_then (and_then m f) g = and_then m (\<lambda>x. and_then (f x) g)"
  by (cases m) simp_all

lemma wrap_dim_neg1 [simp]: "wrap_dim (Suc n) (-1) = Inr n"
  by (simp add: wrap_dim_def)

lemma wrap_dim_neg2 [simp]: "wrap_dim (Suc (Suc n)) (-2) = Inr n"
  by (simp add: wrap_dim_def)

lemma wrap_dim_0 [simp]: "wrap_dim (Suc n) 0 = Inr 0"
  by (simp add: wrap_dim_def)

lemma maxsize_last2:
  assumes "shape x = bs @ [T, D]"
  shows "maxsize x (-2) = Inr T" and "maxsize x (-1) = Inr D"
  using assms by (simp_all add: maxsize_def dim_def nth_append)

lemma drop_pred_last: "bs \<noteq> [] \<Longrightarrow> drop (length bs - Suc 0) bs = [last bs]"
  by (cases bs rule: rev_cases) auto

section \<open>Positional encodings (C8)\<close>

text \<open>The table of encodings before it is expanded to the shape of the input: one row
  per position, sine and cosine interleaved along the channels.\<close>

lemma pe_table:
  assumes "0 < T"
  shows "\<exists>e. and_then (unsqueeze (-1) (arange T)) (\<lambda>pcol.
       and_then (unsqueeze 0 (map_tensor (\<lambda>c. 1 / (10000 powr c))
                   (map_tensor (\<lambda>c. c / real D) (arange2 D)))) (\<lambda>crow.
       and_then (matmul pcol crow) (\<lambda>encodings.
       and_then (stack2 (map_tensor sin encodings) (map_tensor cos encodings)) (\<lambda>encodings.
       view_merge_last2 encodings))))
     = Inr e \<and> shape e = [T, (D + 1) div 2 * 2] \<and>
       (\<forall>p c. elem e [p, c] = (if c mod 2 = 0
           then sin (real p / (10000 powr (real (2 * (c div 2)) / real D)))
           else cos (real p / (10000 powr (real (2 * (c div 2)) / real D)))))"
  using assms
  by (simp add: unsqueeze_def dim_def arange_def arange2_def map_tensor_def
      matmul_def bmm_def broadcast_shapes_def bindex_def stack2_def view_merge_last2_def Let_def)

lemma bindex_expand3:
  assumes "bi \<noteq> []" "p < T" "c < D"
  shows "bindex [1, T, D] (bi @ [p, c]) = [0, p, c]"
  using assms by (auto simp: bindex_def drop_pred_last)

lemma positional_encodings_like_values:
  assumes sh: "shape x = bs @ [T, D]" and bs: "bs \<noteq> []" and T: "0 < T" and D: "even D"
  shows "\<exists>e. positional_encodings_like x None = Inr e \<and> shape e = shape x \<and>
     (\<forall>bi p i. length bi = length bs \<and> p < T \<and> 2 * i + 1 < D \<longrightarrow>
        elem e (bi @ [p, 2 * i]) = sin (real p / 10000 powr (real (2 * i) / real D)) \<and>
        elem e (bi @ [p, 2 * i + 1]) = cos (real p / 10000 powr (real (2 * i) / real D))) \<and>
     (\<forall>bi i. length bi = length bs \<and> 2 * i + 1 < D \<longrightarrow>
        elem e (bi @ [0, 2 * i]) = 0 \<and> elem e (bi @ [0, 2 * i + 1]) = 1)"
proof -
  from pe_table [OF T, of D] obtain e0 where
    run: "and_then (unsqueeze (-1) (arange T)) (\<lambda>pcol.
       and_then (unsqueeze 0 (map_tensor (\<lambda>c. 1 / (10000 powr c))
                   (map_tensor (\<lambda>c. c / real D) (arange2 D)))) (\<lambda>crow.
       and_then (matmul pcol crow) (\<lambda>encodings.
       and_then (stack2 (map_tensor sin encodings) (map_tensor cos encodings)) (\<lambda>encodings.
       view_merge_last2 encodings)))) = Inr e0"
    and sh0: "shape e0 = [T, (D + 1) div 2 * 2]"
    and el0: "\<And>p c. elem e0 [p, c] = (if c mod 2 = 0
           then sin (real p / (10000 powr (real (2 * (c div 2)) / real D)))
           else cos (real p / (10000 powr (real (2 * (c div 2)) / real D))))"
    by blast
  from D have D2: "Suc D div 2 * 2 = D" by (elim evenE) simp
  from bs have bs1: "Suc 0 \<le> length bs" by (cases bs) simp_all
  have "positional_encodings_like x None =
      and_then (and_then (unsqueeze (-1) (arange T)) (\<lambda>pcol.
       and_then (unsqueeze 0 (map_tensor (\<lambda>c. 1 / (10000 powr c))
                   (map_tensor (\<lambda>c. c / real D) (arange2 D)))) (\<lambda>crow.
       and_then (matmul pcol crow) (\<lambda>encodings.
       and_then (stack2 (map_tensor sin encodings) (map_tensor cos encodings)) (\<lambda>encodings.
       view_merge_last2 encodings)))))
       (\<lambda>encodings. if dim encodings = 2
         then and_then (unsqueeze 0 encodings) (\<lambda>e. expand (maxsize_all x) e)
         else Inr encodings)"
    by (simp add: positional_encodings_like_def maxsize_last2 [OF sh] Let_def and_then_assoc)
  also have "\<dots> = Inr (Tensor (shape x) (\<lambda>idx. elem e0 (drop (Suc 0) (bindex [1, T, D] idx))))"
    unfolding run and_then_Inr using sh0 bs bs1
    by (simp add: dim_def unsqueeze_def expand_def maxsize_all_def sh D2 drop_pred_last)
  finally have pe: "positional_encodings_like x None =
      Inr (Tensor (shape x) (\<lambda>idx. elem e0 (drop (Suc 0) (bindex [1, T, D] idx))))" .
  have rd: "elem e0 (drop (Suc 0) (bindex [1, T, D] (bi @ [p, c]))) = elem e0 [p, c]"
    if "length bi = length bs" "p < T" "c < D" for bi p c
  proof -
    from that bs have "bi \<noteq> []" by auto
    from bindex_expand3 [OF this that(2,3)] show ?thesis by simp
  qed
  define e where "e = Tensor (shape x) (\<lambda>idx. elem e0 (drop (Suc 0) (bindex [1, T, D] idx)))"
  have v: "elem e (bi @ [p, c]) = elem e0 [p, c]"
    if "length bi = length bs" "p < T" "c < D" for bi p c
    using rd [OF that] by (simp add: e_def)
  show ?thesis
  proof (intro exI [of _ e] conjI allI impI)
    show "positional_encodings_like x None = Inr e" by (simp add: pe e_def)
    show "shape e = shape x" by (simp add: e_def)
  next
    fix bi :: "nat list" and p i :: nat
    assume a: "length bi = length bs \<and> p < T \<and> 2 * i + 1 < D"
    then show "elem e (bi @ [p, 2 * i]) = sin (real p / 10000 powr (real (2 * i) / real D))"
      using v [of bi p "2 * i"] by (simp add: el0)
    from a show "elem e (bi @ [p, 2 * i + 1]) = cos (real p / 10000 powr (real (2 * i) / real D))"
      using v [of bi p "2 * i + 1"] by (simp add: el0)
  next
    fix bi :: "nat list" and i :: nat
    assume a: "length bi = length bs \<and> 2 * i + 1 < D"
    then show "elem e (bi @ [0, 2 * i]) = 0"
      using v [of bi 0 "2 * i"] T by (simp add: el0)
    from a show "elem e (bi @ [0, 2 * i + 1]) = 1"
      using v [of bi 0 "2 * i + 1"] T by (simp add: el0)
  qed
qed

text \<open>
  C8, as amended. For an input with at least one batch axis, a non-empty sequence axis
  \<open>T\<close> and an even feature width \<open>D\<close>, \<open>positional_encodings_like\<close> returns a tensor of
  the input's shape whose value at position \<open>p\<close> is \<open>sin (p / 10000\<^sup>2\<^sup>i\<^sup>/\<^sup>D)\<close> at channel
  \<open>2i\<close> and the cosine of the same angle at channel \<open>2i + 1\<close>, whatever the batch index;
  at position 0 every channel pair is \<open>(0, 1)\<close>.
\<close>

theorem positional_encodings_like_even:
  assumes sh: "shape x = bs @ [T, D]" and bs: "bs \<noteq> []" and T: "0 < T" and D: "even D"
  shows "\<exists>e. positional_encodings_like x None = Inr e \<and> shape e = shape x \<and>
     (\<forall>bi p i. length bi = length bs \<and> p < T \<and> 2 * i + 1 < D \<longrightarrow>
        elem e (bi @ [p, 2 * i]) = sin (real p / 10000 powr (real (2 * i) / real D)) \<and>
        elem e (bi @ [p, 2 * i + 1]) = cos (real p / 10000 powr (real (2 * i) / real D))) \<and>
     (\<forall>bi i. length bi = length bs \<and> 2 * i + 1 < D \<longrightarrow>
        elem e (bi @ [0, 2 * i]) = 0 \<and> elem e (bi @ [0, 2 * i + 1]) = 1)"
  using positional_encodings_like_values [OF assms] .

text \<open>The theorem at an input of shape \<open>[1, 2, 2]\<close>: position 1 holds \<open>(sin 1, cos 1)\<close>
  and position 0 holds \<open>(0, 1)\<close>.\<close>

theorem positional_encodings_like_even_witness:
  "shape (zeros [1, 2, 2]) = [1] @ [2, 2] \<and> [1::nat] \<noteq> [] \<and> (0::nat) < 2 \<and> even (2::nat) \<and>
   (\<exists>e. positional_encodings_like (zeros [1, 2, 2]) None = Inr e \<and> shape e = [1, 2, 2] \<and>
      elem e [0, 1, 0] = sin 1 \<and> elem e [0, 1, 1] = cos 1 \<and>
      elem e [0, 0, 0] = 0 \<and> elem e [0, 0, 1] = 1)"
proof -
  have h: "shape (zeros [1, 2, 2]) = [1] @ [2, 2]" by (simp add: zeros_def)
  from positional_encodings_like_even [OF h] obtain e where
    e: "positional_encodings_like (zeros [1, 2, 2]) None = Inr e"
       "shape e = shape (zeros [1, 2, 2])"
    and a: "\<forall>bi p i. length bi = length [1::nat] \<and> p < 2 \<and> 2 * i + 1 < 2 \<longrightarrow>
         elem e (bi @ [p, 2 * i]) = sin (real p / 10000 powr (real (2 * i) / real 2)) \<and>
         elem e (bi @ [p, 2 * i + 1]) = cos (real p / 10000 powr (real (2 * i) / real 2))"
    and b: "\<forall>bi i. length bi = length [1::nat] \<and> 2 * i + 1 < 2 \<longrightarrow>
         elem e (bi @ [0, 2 * i]) = 0 \<and> elem e (bi @ [0, 2 * i + 1]) = 1"
    by auto
  from a [rule_format, of "[0]" 1 0] b [rule_format, of "[0]" 0] e h
  show ?thesis by (auto simp: zeros_def)
qed

text \<open>The claim as stated covers every feature width. For an odd width the table has
  one channel too many and cannot be expanded to the shape of the input: the call
  raises.\<close>

theorem positional_encodings_like_odd_counterexample:
  "positional_encodings_like (zeros [1, 1, 1]) None = Inl RuntimeError"
  by (simp add: zeros_def positional_encodings_like_def maxsize_def dim_def wrap_dim_def
      unsqueeze_def arange_def arange2_def map_tensor_def
      matmul_def bmm_def broadcast_shapes_def bindex_def stack2_def view_merge_last2_def Let_def
      expand_def maxsize_all_def)

text \<open>The other two conditions of the amended statement are needed as well: without a
  batch axis the table, which has one, cannot be expanded to the input's shape, and for
  an empty sequence axis the size written \<open>-1\<close> in the view cannot be inferred.\<close>

lemma positional_encodings_like_no_batch_axis:
  "positional_encodings_like (zeros [2, 2]) None = Inl RuntimeError"
  by (simp add: zeros_def positional_encodings_like_def maxsize_def dim_def wrap_dim_def
      unsqueeze_def arange_def arange2_def map_tensor_def
      matmul_def bmm_def broadcast_shapes_def bindex_def stack2_def view_merge_last2_def Let_def
      expand_def maxsize_all_def)

lemma positional_encodings_like_empty_sequence:
  "positional_encodings_like (zeros [1, 0, 2]) None = Inl RuntimeError"
  by (simp add: zeros_def positional_encodings_like_def maxsize_def dim_def wrap_dim_def
      unsqueeze_def arange_def arange2_def map_tensor_def
      matmul_def bmm_def broadcast_shapes_def bindex_def stack2_def view_merge_last2_def Let_def
      expand_def maxsize_all_def)

section \<open>Construction of MultiHead (C4)\<close>

text \<open>
  C4, as amended. \<open>MultiHead.__init__\<close> does not look at divisibility: for non-negative
  \<open>d_key\<close> and \<open>d_value\<close> and any \<open>n_heads\<close> whatever it succeeds, stores \<open>n_heads\<close> as
  given and builds the four projections with the sizes \<open>d_key\<close> and \<open>d_value\<close> alone.
\<close>

theorem MultiHead_init_unchecked:
  assumes "0 \<le> d_key" "0 \<le> d_value"
  shows "\<exists>mh. MultiHead_init init attention d_key d_value n_heads = Inr mh \<and>
           mh_n_heads mh = n_heads \<and> mh_attention mh = attention \<and>
           shape (weight (mh_wq mh)) = [nat d_key, nat d_key] \<and>
           shape (weight (mh_wk mh)) = [nat d_key, nat d_key] \<and>
           shape (weight (mh_wv mh)) = [nat d_value, nat d_value] \<and>
           shape (weight (mh_wo mh)) = [nat d_key, nat d_value]"
  using assms by (simp add: MultiHead_init_def Linear_init_def)

theorem MultiHead_init_unchecked_witness:
  "(0::int) \<le> 3 \<and> (\<exists>mh. MultiHead_init zero_params example_attention 3 3 2 = Inr mh \<and>
           mh_n_heads mh = 2 \<and> mh_attention mh = example_attention \<and>
           shape (weight (mh_wq mh)) = [nat 3, nat 3] \<and>
           shape (weight (mh_wk mh)) = [nat 3, nat 3] \<and>
           shape (weight (mh_wv mh)) = [nat 3, nat 3] \<and>
           shape (weight (mh_wo mh)) = [nat 3, nat 3])"
  using MultiHead_init_unchecked [of 3 3 zero_params example_attention 2] by simp

text \<open>The claim as stated: construction signals an error whenever \<open>n_heads\<close> fails to
  divide \<open>d_key\<close> or \<open>d_value\<close>. With \<open>d_key = d_value = 3\<close> and \<open>n_heads = 2\<close> it does
  not.\<close>

theorem MultiHead_init_indivisible_counterexample:
  "\<not> (2::int) dvd 3 \<and> \<not> isl (MultiHead_init zero_params example_attention 3 3 2)"
  by (simp add: MultiHead_init_def Linear_init_def)

section \<open>Shapes through MultiHead (C3)\<close>

lemma Linear_forward_shape:
  assumes "shape x = bs @ [in_features l]"
  shows "\<exists>y. Linear_forward l x = Inr y \<and> shape y = bs @ [out_features l]"
  using assms by (simp add: Linear_forward_def)

lemma fold_heads_shape:
  assumes "shape x = [B, T, D]" "0 < n" "n dvd int D"
  shows "\<exists>y. fold_heads n x = Inr y \<and> shape y = [B * nat n, T, D div nat n]"
  using assms
  by (simp add: fold_heads_def split_dim_def combine_dims_def dim_def wrap_dim_def Let_def
      mod_eq_0_iff_dvd)

lemma unfold_heads_shape:
  assumes "shape x = [BN, T, D]" "0 < n" "n dvd int BN"
  shows "\<exists>y. and_then (split_dim 0 n x) (combine_dims (-1) 1) = Inr y \<and>
           shape y = [BN div nat n, T, D * nat n]"
  using assms
  by (simp add: split_dim_def combine_dims_def dim_def wrap_dim_def Let_def mod_eq_0_iff_dvd)

lemma broadcast_shapes_same1 [simp]: "broadcast_shapes [B] [B] = Some [B]"
  by (simp add: broadcast_shapes_def)

lemma Attention_forward_shape:
  assumes "shape query = [B, Tq, D]" "shape key = [B, Tk, D]" "shape val = [B, Tk, Dv]"
  shows "\<exists>out. Attention_forward a rnd query key val = Inr out \<and> shape out = [B, Tq, Dv]"
  using assms
  by (simp add: Attention_forward_def transpose_tensor_def dim_def wrap_dim_def matmul_def
      bmm_def Let_def causal_mask_def map_tensor_def softmax_def Dropout_forward_def)

lemma MultiHead_init_fields:
  assumes "MultiHead_init init att d_key d_value n_heads = Inr mh"
  shows "0 \<le> d_key \<and> 0 \<le> d_value \<and> mh_n_heads mh = n_heads \<and> mh_attention mh = att \<and>
         in_features (mh_wq mh) = nat d_key \<and> out_features (mh_wq mh) = nat d_key \<and>
         in_features (mh_wk mh) = nat d_key \<and> out_features (mh_wk mh) = nat d_key \<and>
         in_features (mh_wv mh) = nat d_value \<and> out_features (mh_wv mh) = nat d_value \<and>
         in_features (mh_wo mh) = nat d_value \<and> out_features (mh_wo mh) = nat d_key"
  using assms
  by (auto simp: MultiHead_init_def Linear_init_def and_then_eq_Inr split: if_splits)

lemma MultiHead_forward_shape_gen:
  assumes n: "0 < mh_n_heads mh"
    and dk: "mh_n_heads mh dvd int dk" and dv: "mh_n_heads mh dvd int dv"
    and wq: "in_features (mh_wq mh) = dk" "out_features (mh_wq mh) = dk"
    and wk: "in_features (mh_wk mh) = dk" "out_features (mh_wk mh) = dk"
    and wv: "in_features (mh_wv mh) = dv" "out_features (mh_wv mh) = dv"
    and wo: "in_features (mh_wo mh) = dv" "out_features (mh_wo mh) = dout"
    and q: "shape query = [B, Tq, dk]" and k: "shape key = [B, Tk, dk]"
    and v: "shape val = [B, Tk, dv]"
  shows "\<exists>out. MultiHead_forward mh rnd query key val = Inr out \<and> shape out = [B, Tq, dout]"
proof -
  let ?n = "mh_n_heads mh"
  from Linear_forward_shape [of query "[B, Tq]" "mh_wq mh"] q wq
  obtain q1 where q1: "Linear_forward (mh_wq mh) query = Inr q1" "shape q1 = [B, Tq, dk]" by auto
  from Linear_forward_shape [of key "[B, Tk]" "mh_wk mh"] k wk
  obtain k1 where k1: "Linear_forward (mh_wk mh) key = Inr k1" "shape k1 = [B, Tk, dk]" by auto
  from Linear_forward_shape [of val "[B, Tk]" "mh_wv mh"] v wv
  obtain v1 where v1: "Linear_forward (mh_wv mh) val = Inr v1" "shape v1 = [B, Tk, dv]" by auto
  from fold_heads_shape [OF q1(2) n dk]
  obtain q2 where q2: "fold_heads ?n q1 = Inr q2" "shape q2 = [B * nat ?n, Tq, dk div nat ?n]" by auto
  from fold_heads_shape [OF k1(2) n dk]
  obtain k2 where k2: "fold_heads ?n k1 = Inr k2" "shape k2 = [B * nat ?n, Tk, dk div nat ?n]" by auto
  from fold_heads_shape [OF v1(2) n dv]
  obtain v2 where v2: "fold_heads ?n v1 = Inr v2" "shape v2 = [B * nat ?n, Tk, dv div nat ?n]" by auto
  from Attention_forward_shape [OF q2(2) k2(2) v2(2)]
  obtain o1 where o1: "Attention_forward (mh_attention mh) (child 0 rnd) q2 k2 v2 = Inr o1"
    "shape o1 = [B * nat ?n, Tq, dv div nat ?n]" by blast
  from n have "?n dvd int (B * nat ?n)" by simp
  from unfold_heads_shape [OF o1(2) n this]
  obtain o2 where o2: "and_then (split_dim 0 ?n o1) (combine_dims (-1) 1) = Inr o2"
    "shape o2 = [B * nat ?n div nat ?n, Tq, dv div nat ?n * nat ?n]" by blast
  from n dv have "dv div nat ?n * nat ?n = dv"
    by (metis dvd_div_mult_self int_dvd_int_iff int_nat_eq less_le_not_le nle_le)
  with o2(2) n have o2s: "shape o2 = [B, Tq] @ [in_features (mh_wo mh)]" using wo by simp
  from Linear_forward_shape [OF o2s]
  obtain o3 where o3: "Linear_forward (mh_wo mh) o2 = Inr o3" "shape o3 = [B, Tq, dout]"
    using wo by auto
  from o2(1) obtain o15 where o15: "split_dim 0 ?n o1 = Inr o15" "combine_dims (-1) 1 o15 = Inr o2"
    by (auto simp: and_then_eq_Inr)
  show ?thesis
    by (simp add: MultiHead_forward_def q1 k1 v1 q2 k2 v2 o1 o15 o3)
qed

text \<open>
  C3, as amended. For a \<open>MultiHead\<close> built with \<open>d_key\<close>, \<open>d_value\<close> and a positive
  \<open>n_heads\<close> dividing both, a query of shape \<open>[B, Tq, d_key]\<close>, a key of shape
  \<open>[B, Tk, d_key]\<close> and a value of shape \<open>[B, Tk, d_value]\<close>, \<open>MultiHead.forward\<close>
  returns a tensor of shape \<open>[B, Tq, d_key]\<close>, whatever \<open>n_heads\<close> is: the output
  projection \<open>wo\<close> maps \<open>d_value\<close> features to \<open>d_key\<close> features.
\<close>

theorem MultiHead_forward_shape:
  assumes init: "MultiHead_init init att d_key d_value n_heads = Inr mh"
    and n: "0 < n_heads" "n_heads dvd d_key" "n_heads dvd d_value"
    and sh: "shape query = [B, Tq, nat d_key]" "shape key = [B, Tk, nat d_key]"
      "shape val = [B, Tk, nat d_value]"
  shows "\<exists>out. MultiHead_forward mh rnd query key val = Inr out \<and> shape out = [B, Tq, nat d_key]"
proof -
  note f = MultiHead_init_fields [OF init]
  from f n have "mh_n_heads mh dvd int (nat d_key)" "mh_n_heads mh dvd int (nat d_value)"
    "0 < mh_n_heads mh" by simp_all
  then show ?thesis
    using f sh by (intro MultiHead_forward_shape_gen) simp_all
qed

lemma example_multihead_init:
  "MultiHead_init zero_params example_attention 2 4 2 = Inr example_multihead"
  by (simp add: example_multihead_def MultiHead_init_def Linear_init_def)

text \<open>The theorem at \<open>d_key = 2\<close>, \<open>d_value = 4\<close>, \<open>n_heads = 2\<close>.\<close>

theorem MultiHead_forward_shape_witness:
  "MultiHead_init zero_params example_attention 2 4 2 = Inr example_multihead \<and>
   (0::int) < 2 \<and> (2::int) dvd 2 \<and> (2::int) dvd 4 \<and>
   shape (zeros [1, 1, 2]) = [1, 1, nat 2] \<and> shape (zeros [1, 1, 4]) = [1, 1, nat 4] \<and>
   (\<exists>out. MultiHead_forward example_multihead all_kept (zeros [1, 1, 2]) (zeros [1, 1, 2])
            (zeros [1, 1, 4]) = Inr out \<and> shape out = [1, 1, nat 2])"
  using MultiHead_forward_shape [OF example_multihead_init, of "zeros [1, 1, 2]" 1 1
      "zeros [1, 1, 2]" 1 "zeros [1, 1, 4]" all_kept]
  by (simp add: zeros_def example_multihead_init)

text \<open>The claim as stated gives the output the width \<open>d_value\<close>. With \<open>d_key = 2\<close> and
  \<open>d_value = 4\<close> the output has shape \<open>[1, 1, 2]\<close>, not \<open>[1, 1, 4]\<close>.\<close>

theorem MultiHead_forward_shape_counterexample:
  "MultiHead_init zero_params example_attention 2 4 2 = Inr example_multihead \<and>
   \<not> isl (MultiHead_forward example_multihead all_kept (zeros [1, 1, 2]) (zeros [1, 1, 2])
            (zeros [1, 1, 4])) \<and>
   shape (projr (MultiHead_forward example_multihead all_kept (zeros [1, 1, 2]) (zeros [1, 1, 2])
            (zeros [1, 1, 4]))) = [1, 1, 2] \<and>
   [1, 1, 2] \<noteq> [1, 1, (4::nat)]"
proof -
  note f = MultiHead_init_fields [OF example_multihead_init]
  have "\<exists>out. MultiHead_forward example_multihead all_kept (zeros [1, 1, 2]) (zeros [1, 1, 2])
            (zeros [1, 1, 4]) = Inr out \<and> shape out = [1, 1, 2]"
    using f by (intro MultiHead_forward_shape_gen [where dk = 2 and dv = 4 and Tk = 1])
      (simp_all add: zeros_def)
  then show ?thesis using example_multihead_init by auto
qed




lemma example_encoder_layer_init:
  "EncoderLayer_init zero_params example_args = Inr example_encoder_layer"
  by (simp add: example_encoder_layer_def example_args_def EncoderLayer_init_def
      Attention_init_def Dropout_init_def MultiHead_init_def Linear_init_def
      ResidualBlock_init_def LayerNorm_init_def FeedForward_init_def)

lemma example_decoder_layer_init:
  "DecoderLayer_init zero_params example_args = Inr example_decoder_layer"
  by (simp add: example_decoder_layer_def example_args_def DecoderLayer_init_def
      Attention_init_def Dropout_init_def MultiHead_init_def Linear_init_def
      ResidualBlock_init_def LayerNorm_init_def FeedForward_init_def)

section \<open>The loops of Encoder and Decoder\<close>

lemma build_layers_length: "build_layers mk ns = Inr ls \<Longrightarrow> length ls = length ns"
  by (induction ns arbitrary: ls) (auto simp: and_then_eq_Inr)

lemma Encoder_init_layers:
  assumes "Encoder_init init field a = Inr enc"
  shows "length (enc_layers enc) = nat (arg_n_layers a)"
  using assms build_layers_length
  by (fastforce simp: Encoder_init_def and_then_eq_Inr)

lemma Decoder_init_layers:
  assumes "Decoder_init init field a = Inr dec"
  shows "length (dec_layers dec) = nat (arg_n_layers a)"
  using assms build_layers_length
  by (fastforce simp: Decoder_init_def and_then_eq_Inr)

lemma decoder_prefix_error:
  "decoder_prefix rnd ls encoding k x = Inl e \<Longrightarrow> decoder_prefix rnd ls encoding (k + j) x = Inl e"
  by (induction j) simp_all

lemma decode_layers_prefix:
  assumes "length pre = l" "length epre = l"
    and "decoder_prefix rnd (pre @ suf) (epre @ esuf) l x0 = Inr x"
  shows "decode_layers rnd l (zip suf esuf) x =
         decoder_prefix rnd (pre @ suf) (epre @ esuf) (l + min (length suf) (length esuf)) x0"
  using assms
proof (induction suf arbitrary: pre epre esuf l x)
  case Nil
  then show ?case by simp
next
  case (Cons layer rest)
  show ?case
  proof (cases esuf)
    case Nil
    with Cons.prems show ?thesis by simp
  next
    case (Cons e erest)
    have step: "decoder_prefix rnd (pre @ layer # rest) (epre @ e # erest) (Suc l) x0 =
                DecoderLayer_forward layer (child l rnd) x e"
      using Cons.prems Cons by (simp add: nth_append)
    show ?thesis
    proof (cases "DecoderLayer_forward layer (child l rnd) x e")
      case (Inl err)
      with step have "decoder_prefix rnd (pre @ layer # rest) (epre @ e # erest) (Suc l) x0 = Inl err"
        by simp
      from decoder_prefix_error [OF this, of "min (length rest) (length erest)"] Inl Cons
      show ?thesis by simp
    next
      case (Inr x')
      have "decode_layers rnd (Suc l) (zip rest erest) x' =
            decoder_prefix rnd ((pre @ [layer]) @ rest) ((epre @ [e]) @ erest)
              (Suc l + min (length rest) (length erest)) x0"
        using Cons.prems step Inr by (intro Cons.IH) simp_all
      with Inr Cons show ?thesis by simp
    qed
  qed
qed

lemma Decoder_forward_prefix:
  "Decoder_forward dec rnd x encoding =
     and_then (embed_tokens (dec_out dec) (dec_d_model dec) (dec_dropout dec) (child 2 rnd) x)
       (decoder_prefix (child 1 rnd) (dec_layers dec) encoding
          (min (length (dec_layers dec)) (length encoding)))"
proof (cases "embed_tokens (dec_out dec) (dec_d_model dec) (dec_dropout dec) (child 2 rnd) x")
  case (Inl e)
  then show ?thesis by (simp add: Decoder_forward_def)
next
  case (Inr x0)
  from decode_layers_prefix [of "[]" 0 "[]" "child 1 rnd" "dec_layers dec" encoding x0 x0] Inr
  show ?thesis by (simp add: Decoder_forward_def)
qed

lemma encode_layers_iff:
  assumes "length pre = l" "encoder_prefix rnd (pre @ suf) l x0 = Inr x" "length acc = l"
    and "\<forall>i<l. encoder_prefix rnd (pre @ suf) (Suc i) x0 = Inr (acc ! i)"
  shows "encode_layers rnd l suf x acc = Inr r \<longleftrightarrow>
         length r = l + length suf \<and>
         (\<forall>i<length r. encoder_prefix rnd (pre @ suf) (Suc i) x0 = Inr (r ! i))"
  using assms
proof (induction suf arbitrary: pre l x acc)
  case Nil
  have len: "length acc = l" and el: "\<And>i. i < l \<Longrightarrow> encoder_prefix rnd pre (Suc i) x0 = Inr (acc ! i)"
    using Nil.prems by simp_all
  show ?case
  proof
    assume "encode_layers rnd l [] x acc = Inr r"
    then have "r = acc" by simp
    with len el show "length r = l + length [] \<and>
         (\<forall>i<length r. encoder_prefix rnd (pre @ []) (Suc i) x0 = Inr (r ! i))"
      by (simp del: encoder_prefix.simps)
  next
    assume a: "length r = l + length [] \<and>
         (\<forall>i<length r. encoder_prefix rnd (pre @ []) (Suc i) x0 = Inr (r ! i))"
    then have lr: "length r = l" and er: "\<And>i. i < l \<Longrightarrow> encoder_prefix rnd pre (Suc i) x0 = Inr (r ! i)"
      by (simp_all del: encoder_prefix.simps)
    have "acc = r"
    proof (rule nth_equalityI)
      show "length acc = length r" using len lr by simp
    next
      fix i assume "i < length acc"
      then have "i < l" using len by simp
      from el [OF this] er [OF this] have "Inr (acc ! i) = (Inr (r ! i) :: error + real tensor)"
        by (simp del: encoder_prefix.simps)
      then show "acc ! i = r ! i" by simp
    qed
    then show "encode_layers rnd l [] x acc = Inr r" by simp
  qed
next
  case (Cons layer rest)
  have step: "encoder_prefix rnd (pre @ layer # rest) (Suc l) x0 =
              EncoderLayer_forward layer (child l rnd) x"
    using Cons.prems by (simp add: nth_append)
  show ?case
  proof (cases "EncoderLayer_forward layer (child l rnd) x")
    case (Inl err)
    have "\<not> (length r = l + length (layer # rest) \<and>
         (\<forall>i<length r. encoder_prefix rnd (pre @ layer # rest) (Suc i) x0 = Inr (r ! i)))"
    proof
      assume a: "length r = l + length (layer # rest) \<and>
         (\<forall>i<length r. encoder_prefix rnd (pre @ layer # rest) (Suc i) x0 = Inr (r ! i))"
      then have "l < length r" by simp
      with a have "encoder_prefix rnd (pre @ layer # rest) (Suc l) x0 = Inr (r ! l)"
        by (simp del: encoder_prefix.simps)
      with step Inl show False by simp
    qed
    with Inl show ?thesis by simp
  next
    case (Inr x')
    have "encode_layers rnd (Suc l) rest x' (acc @ [x']) = Inr r \<longleftrightarrow>
         length r = Suc l + length rest \<and>
         (\<forall>i<length r. encoder_prefix rnd ((pre @ [layer]) @ rest) (Suc i) x0 = Inr (r ! i))"
    proof (rule Cons.IH)
      show "length (pre @ [layer]) = Suc l" using Cons.prems by simp
      show "encoder_prefix rnd ((pre @ [layer]) @ rest) (Suc l) x0 = Inr x'"
        using step Inr by simp
      show "length (acc @ [x']) = Suc l" using Cons.prems by simp
      show "\<forall>i<Suc l. encoder_prefix rnd ((pre @ [layer]) @ rest) (Suc i) x0 = Inr ((acc @ [x']) ! i)"
      proof (intro allI impI)
        fix i assume "i < Suc l"
        then consider "i < l" | "i = l" by linarith
        then show "encoder_prefix rnd ((pre @ [layer]) @ rest) (Suc i) x0 = Inr ((acc @ [x']) ! i)"
        proof cases
          case 1
          with Cons.prems show ?thesis by (simp add: nth_append)
        next
          case 2
          with step Inr Cons.prems show ?thesis by (simp add: nth_append)
        qed
      qed
    qed
    with Inr show ?thesis by simp
  qed
qed

lemma Encoder_forward_iff:
  "Encoder_forward enc rnd x = Inr encoding \<longleftrightarrow>
     (\<exists>x0. embed_tokens (enc_out enc) (enc_d_model enc) (enc_dropout enc) (child 2 rnd) x = Inr x0 \<and>
           length encoding = length (enc_layers enc) \<and>
           (\<forall>i<length encoding.
              encoder_prefix (child 1 rnd) (enc_layers enc) (Suc i) x0 = Inr (encoding ! i)))"
proof (cases "embed_tokens (enc_out enc) (enc_d_model enc) (enc_dropout enc) (child 2 rnd) x")
  case (Inl e)
  then show ?thesis by (simp add: Encoder_forward_def)
next
  case (Inr x0)
  from encode_layers_iff [of "[]" 0 "child 1 rnd" "enc_layers enc" x0 x0 "[]" encoding] Inr
  show ?thesis by (simp add: Encoder_forward_def)
qed

lemma example_field_out: "fld_out example_field =
   \<lparr>in_features = 4, out_features = 3, weight = Tensor [3, 4] (zero_params [0]),
    bias = Tensor [3] (zero_params [1])\<rparr>"
  by (simp add: example_field_def Linear_init_def)

lemma example_decoder_init:
  "Decoder_init zero_params example_field example_args = Inr example_decoder"
proof -
  have "\<not> isl (Decoder_init zero_params example_field example_args)"
    by (simp add: example_args_def Decoder_init_def DecoderLayer_init_def
      Attention_init_def Dropout_init_def MultiHead_init_def Linear_init_def
      ResidualBlock_init_def LayerNorm_init_def FeedForward_init_def)
  then show ?thesis by (simp add: example_decoder_def)
qed

lemma example_encoder_init:
  "Encoder_init zero_params example_field example_args = Inr example_encoder"
proof -
  have "\<not> isl (Encoder_init zero_params example_field example_args)"
    by (simp add: example_args_def Encoder_init_def EncoderLayer_init_def
      Attention_init_def Dropout_init_def MultiHead_init_def Linear_init_def
      ResidualBlock_init_def LayerNorm_init_def FeedForward_init_def)
  then show ?thesis by (simp add: example_encoder_def)
qed

lemma Decoder_init_fields:
  assumes "Decoder_init init field a = Inr dec"
  shows "dec_out dec = fld_out field \<and> dec_d_model dec = arg_d_model a \<and>
         dec_dropout dec = \<lparr>drop_p = arg_drop_ratio a, drop_training = True\<rparr> \<and>
         length (dec_layers dec) = nat (arg_n_layers a)"
  using assms Decoder_init_layers [OF assms]
  by (auto simp: Decoder_init_def and_then_eq_Inr Dropout_init_def split: if_splits)

lemma Encoder_init_fields:
  assumes "Encoder_init init field a = Inr enc"
  shows "enc_out enc = fld_out field \<and> enc_d_model enc = arg_d_model a \<and>
         enc_dropout enc = \<lparr>drop_p = arg_drop_ratio a, drop_training = True\<rparr> \<and>
         length (enc_layers enc) = nat (arg_n_layers a)"
  using assms Encoder_init_layers [OF assms]
  by (auto simp: Encoder_init_def and_then_eq_Inr Dropout_init_def split: if_splits)

lemma example_decoder_fields:
  "dec_out example_decoder = fld_out example_field"
  "dec_d_model example_decoder = 4"
  "dec_dropout example_decoder = \<lparr>drop_p = 0, drop_training = True\<rparr>"
  "length (dec_layers example_decoder) = 1"
  using Decoder_init_fields [OF example_decoder_init] by (simp_all add: example_args_def)

lemma example_embed:
  "\<not> isl (embed_tokens (fld_out example_field) 4 \<lparr>drop_p = 0, drop_training = True\<rparr> rnd example_tokens)"
  by (simp add: embed_tokens_def embedding_def example_field_out example_tokens_def dim_def
      map_tensor_def positional_encodings_like_def maxsize_def wrap_dim_def
      unsqueeze_def arange_def arange2_def
      matmul_def bmm_def broadcast_shapes_def bindex_def stack2_def view_merge_last2_def Let_def
      expand_def maxsize_all_def iadd_def add_def broadcast_op_def Dropout_forward_def)

section \<open>Shapes through the layers\<close>

text \<open>Every layer built by its constructor, with a positive number of heads dividing
  \<open>d_model\<close>, maps a tensor of shape \<open>[B, T, d_model]\<close> to one of the same shape; so the
  encoder and the decoder return on well-shaped input.\<close>

lemma broadcast_rev_same: "broadcast_rev s s = Some s"
  by (induction s) simp_all

lemma broadcast_shapes_same: "broadcast_shapes s s = Some s"
  by (simp add: broadcast_shapes_def broadcast_rev_same)

lemma broadcast_shapes_keepdim: "broadcast_shapes (bs @ [n]) (bs @ [Suc 0]) = Some (bs @ [n])"
  by (simp add: broadcast_shapes_def broadcast_rev_same)

lemma broadcast_shapes_vec_left: "broadcast_shapes [n] (bs @ [n]) = Some (bs @ [n])"
  by (simp add: broadcast_shapes_def)

lemma broadcast_shapes_vec_right: "broadcast_shapes (bs @ [n]) [n] = Some (bs @ [n])"
  by (cases "rev bs") (simp_all add: broadcast_shapes_def)

lemma broadcast_op_Some:
  assumes "broadcast_shapes (shape x) (shape y) = Some s"
  shows "broadcast_op f x y =
         Inr (Tensor s (\<lambda>idx. f (elem x (bindex (shape x) idx)) (elem y (bindex (shape y) idx))))"
  using assms by (simp add: broadcast_op_def)

lemma mean_last_shape: "shape x = bs @ [n] \<Longrightarrow> shape (mean_last x) = bs @ [1]"
  by (simp add: mean_last_def keepdim_shape_def)

lemma std_last_shape: "shape x = bs @ [n] \<Longrightarrow> shape (std_last x) = bs @ [1]"
  by (simp add: std_last_def keepdim_shape_def)

lemma LayerNorm_forward_shape:
  assumes x: "shape x = bs @ [n]" and g: "shape (ln_gamma m) = [n]" and b: "shape (ln_beta m) = [n]"
  shows "\<exists>y. LayerNorm_forward m x = Inr y \<and> shape y = bs @ [n]"
proof -
  have 1: "broadcast_shapes (shape x) (shape (mean_last x)) = Some (bs @ [n])"
    using x by (simp add: mean_last_shape [OF x] broadcast_shapes_keepdim)
  then obtain c where c: "sub x (mean_last x) = Inr c" "shape c = bs @ [n]"
    by (simp add: sub_def broadcast_op_Some)
  have "broadcast_shapes (shape (ln_gamma m)) (shape c) = Some (bs @ [n])"
    using g c by (simp add: broadcast_shapes_vec_left)
  then obtain sc where sc: "mul (ln_gamma m) c = Inr sc" "shape sc = bs @ [n]"
    by (simp add: mul_def broadcast_op_Some)
  have "broadcast_shapes (shape sc) (shape (map_tensor (\<lambda>s. s + ln_eps m) (std_last x)))
          = Some (bs @ [n])"
    using sc by (simp add: map_tensor_def std_last_shape [OF x] broadcast_shapes_keepdim)
  then obtain nr where nr: "divide_tensor sc (map_tensor (\<lambda>s. s + ln_eps m) (std_last x)) = Inr nr"
    "shape nr = bs @ [n]"
    by (simp add: divide_tensor_def broadcast_op_Some)
  have "broadcast_shapes (shape nr) (shape (ln_beta m)) = Some (bs @ [n])"
    using nr b by (simp add: broadcast_shapes_vec_right)
  then obtain y where y: "add nr (ln_beta m) = Inr y" "shape y = bs @ [n]"
    by (simp add: add_def broadcast_op_Some)
  show ?thesis by (simp add: LayerNorm_forward_def Let_def c sc nr y)
qed

lemma LayerNorm_init_shapes:
  assumes "LayerNorm_init d eps = Inr m"
  shows "shape (ln_gamma m) = [nat d] \<and> shape (ln_beta m) = [nat d] \<and> 0 \<le> d"
  using assms by (auto simp: LayerNorm_init_def split: if_splits)

lemma Dropout_forward_shape [simp]: "shape (Dropout_forward d rnd x) = shape x"
  by (simp add: Dropout_forward_def)

lemma ResidualBlock_forward_shape:
  assumes "call (rb_layer rb) (child 0 rnd) (x0 # xs) = Inr y"
    and "shape y = bs @ [n]" "shape x0 = bs @ [n]"
    and "shape (ln_gamma (rb_norm rb)) = [n]" "shape (ln_beta (rb_norm rb)) = [n]"
  shows "\<exists>out. ResidualBlock_forward call rb rnd (x0 # xs) = Inr out \<and> shape out = bs @ [n]"
proof -
  from LayerNorm_forward_shape [OF assms(2,4,5)] obtain z where
    z: "LayerNorm_forward (rb_norm rb) y = Inr z" "shape z = bs @ [n]" by blast
  then show ?thesis using assms(1,3)
    by (simp add: ResidualBlock_forward_def add_def broadcast_op_def broadcast_shapes_same)
qed

lemma FeedForward_forward_shape:
  assumes "shape x = bs @ [d]" "in_features (ff_linear1 ff) = d"
    "in_features (ff_linear2 ff) = out_features (ff_linear1 ff)" "out_features (ff_linear2 ff) = d"
  shows "\<exists>y. FeedForward_forward ff rnd x = Inr y \<and> shape y = bs @ [d]"
proof -
  from Linear_forward_shape [of x bs "ff_linear1 ff"] assms obtain h where
    h: "Linear_forward (ff_linear1 ff) x = Inr h" "shape h = bs @ [out_features (ff_linear1 ff)]"
    by auto
  have "shape (Dropout_forward (ff_dropout ff) (child 2 rnd) (relu h)) = bs @ [in_features (ff_linear2 ff)]"
    using h assms by (simp add: relu_def map_tensor_def)
  from Linear_forward_shape [OF this] h assms show ?thesis
    by (simp add: FeedForward_forward_def)
qed

lemma ResidualBlock_init_fields:
  assumes "ResidualBlock_init layer d p = Inr rb"
  shows "rb_layer rb = layer \<and> shape (ln_gamma (rb_norm rb)) = [nat d] \<and>
         shape (ln_beta (rb_norm rb)) = [nat d] \<and>
         rb_dropout rb = \<lparr>drop_p = p, drop_training = True\<rparr>"
  using assms
  by (auto simp: ResidualBlock_init_def LayerNorm_init_def Dropout_init_def and_then_eq_Inr
      split: if_splits)

lemma FeedForward_init_fields:
  assumes "FeedForward_init init d h p = Inr ff"
  shows "in_features (ff_linear1 ff) = nat d \<and> out_features (ff_linear1 ff) = nat h \<and>
         in_features (ff_linear2 ff) = nat h \<and> out_features (ff_linear2 ff) = nat d"
  using assms
  by (auto simp: FeedForward_init_def Linear_init_def Dropout_init_def and_then_eq_Inr
      split: if_splits)

lemma EncoderLayer_init_parts:
  assumes "EncoderLayer_init init a = Inr l"
  shows "\<exists>att mh ff p q.
     MultiHead_init p att (arg_d_model a) (arg_d_model a) (arg_n_heads a) = Inr mh \<and>
     ResidualBlock_init mh (arg_d_model a) (arg_drop_ratio a) = Inr (el_selfattn l) \<and>
     FeedForward_init q (arg_d_model a) (arg_d_hidden a) (arg_drop_ratio a) = Inr ff \<and>
     ResidualBlock_init ff (arg_d_model a) (arg_drop_ratio a) = Inr (el_feedforward l)"
  using assms by (auto simp: EncoderLayer_init_def and_then_eq_Inr) blast

lemma DecoderLayer_init_parts:
  assumes "DecoderLayer_init init a = Inr l"
  shows "\<exists>att mh att2 mh2 ff p p2 q.
     MultiHead_init p att (arg_d_model a) (arg_d_model a) (arg_n_heads a) = Inr mh \<and>
     ResidualBlock_init mh (arg_d_model a) (arg_drop_ratio a) = Inr (dl_selfattn l) \<and>
     MultiHead_init p2 att2 (arg_d_model a) (arg_d_model a) (arg_n_heads a) = Inr mh2 \<and>
     ResidualBlock_init mh2 (arg_d_model a) (arg_drop_ratio a) = Inr (dl_attention l) \<and>
     FeedForward_init q (arg_d_model a) (arg_d_hidden a) (arg_drop_ratio a) = Inr ff \<and>
     ResidualBlock_init ff (arg_d_model a) (arg_drop_ratio a) = Inr (dl_feedforward l)"
  using assms by (auto simp: DecoderLayer_init_def and_then_eq_Inr) blast

lemma attention_block_shape:
  assumes mh: "MultiHead_init p att d d n = Inr mh"
    and rb: "ResidualBlock_init mh d r = Inr rb"
    and n: "0 < n" "n dvd d"
    and x: "shape x = [B, T, nat d]" and e: "shape k = [B, Tk, nat d]"
  shows "\<exists>y. ResidualBlock_forward MultiHead_call rb rnd [x, k, k] = Inr y \<and>
             shape y = [B, T, nat d]"
proof -
  note f = ResidualBlock_init_fields [OF rb]
  from MultiHead_forward_shape_gen [where mh = mh and dk = "nat d" and dv = "nat d"
      and dout = "nat d" and query = x and key = k and val = k and B = B and Tq = T and Tk = Tk
      and rnd = "child 0 rnd"]
    MultiHead_init_fields [OF mh] n x e
  obtain y where y: "MultiHead_forward mh (child 0 rnd) x k k = Inr y" "shape y = [B, T, nat d]"
    by auto
  have "MultiHead_call (rb_layer rb) (child 0 rnd) [x, k, k] = Inr y"
    using y f by (simp add: MultiHead_call_def)
  from ResidualBlock_forward_shape [where call = MultiHead_call and rb = rb and rnd = rnd
      and ?x0.0 = x and xs = "[k, k]" and y = y and bs = "[B, T]" and n = "nat d"] this y x f
  show ?thesis by simp
qed

lemma feedforward_block_shape:
  assumes ff: "FeedForward_init q d h r = Inr ff"
    and rb: "ResidualBlock_init ff d r = Inr rb"
    and x: "shape x = bs @ [nat d]"
  shows "\<exists>y. ResidualBlock_forward FeedForward_call rb rnd [x] = Inr y \<and> shape y = bs @ [nat d]"
proof -
  note f = ResidualBlock_init_fields [OF rb] and g = FeedForward_init_fields [OF ff]
  from FeedForward_forward_shape [of x bs "nat d" ff "child 0 rnd"] x g
  obtain y where y: "FeedForward_forward ff (child 0 rnd) x = Inr y" "shape y = bs @ [nat d]"
    by auto
  have "FeedForward_call (rb_layer rb) (child 0 rnd) [x] = Inr y"
    using y f by (simp add: FeedForward_call_def)
  from ResidualBlock_forward_shape [where call = FeedForward_call and rb = rb and rnd = rnd
      and ?x0.0 = x and xs = "[]" and y = y and bs = bs and n = "nat d"] this y x f
  show ?thesis by simp
qed

lemma EncoderLayer_forward_shape:
  assumes init: "EncoderLayer_init init a = Inr l"
    and n: "0 < arg_n_heads a" "arg_n_heads a dvd arg_d_model a"
    and x: "shape x = [B, T, nat (arg_d_model a)]"
  shows "\<exists>y. EncoderLayer_forward l rnd x = Inr y \<and> shape y = [B, T, nat (arg_d_model a)]"
proof -
  from EncoderLayer_init_parts [OF init] obtain att mh ff p q where
    mh: "MultiHead_init p att (arg_d_model a) (arg_d_model a) (arg_n_heads a) = Inr mh"
    and rb1: "ResidualBlock_init mh (arg_d_model a) (arg_drop_ratio a) = Inr (el_selfattn l)"
    and ff: "FeedForward_init q (arg_d_model a) (arg_d_hidden a) (arg_drop_ratio a) = Inr ff"
    and rb2: "ResidualBlock_init ff (arg_d_model a) (arg_drop_ratio a) = Inr (el_feedforward l)"
    by blast
  from attention_block_shape [OF mh rb1 n x x] obtain y where
    y: "ResidualBlock_forward MultiHead_call (el_selfattn l) (child 0 rnd) [x, x, x] = Inr y"
       "shape y = [B, T] @ [nat (arg_d_model a)]" by auto
  from feedforward_block_shape [OF ff rb2 y(2)] y(1) show ?thesis
    by (simp add: EncoderLayer_forward_def)
qed

lemma DecoderLayer_forward_shape:
  assumes init: "DecoderLayer_init init a = Inr l"
    and n: "0 < arg_n_heads a" "arg_n_heads a dvd arg_d_model a"
    and x: "shape x = [B, T, nat (arg_d_model a)]"
    and e: "shape encoding = [B, Tk, nat (arg_d_model a)]"
  shows "\<exists>y. DecoderLayer_forward l rnd x encoding = Inr y \<and>
             shape y = [B, T, nat (arg_d_model a)]"
proof -
  from DecoderLayer_init_parts [OF init] obtain att mh att2 mh2 ff p p2 q where
    mh: "MultiHead_init p att (arg_d_model a) (arg_d_model a) (arg_n_heads a) = Inr mh"
    and rb1: "ResidualBlock_init mh (arg_d_model a) (arg_drop_ratio a) = Inr (dl_selfattn l)"
    and mh2: "MultiHead_init p2 att2 (arg_d_model a) (arg_d_model a) (arg_n_heads a) = Inr mh2"
    and rb2: "ResidualBlock_init mh2 (arg_d_model a) (arg_drop_ratio a) = Inr (dl_attention l)"
    and ff: "FeedForward_init q (arg_d_model a) (arg_d_hidden a) (arg_drop_ratio a) = Inr ff"
    and rb3: "ResidualBlock_init ff (arg_d_model a) (arg_drop_ratio a) = Inr (dl_feedforward l)"
    by blast
  from attention_block_shape [OF mh rb1 n x x] obtain y where
    y: "ResidualBlock_forward MultiHead_call (dl_selfattn l) (child 0 rnd) [x, x, x] = Inr y"
       "shape y = [B, T, nat (arg_d_model a)]" by auto
  from attention_block_shape [OF mh2 rb2 n y(2) e] obtain z where
    z: "ResidualBlock_forward MultiHead_call (dl_attention l) (child 1 rnd)
          [y, encoding, encoding] = Inr z"
       "shape z = [B, T] @ [nat (arg_d_model a)]" by auto
  from feedforward_block_shape [OF ff rb3 z(2)] y(1) z(1) show ?thesis
    by (simp add: DecoderLayer_forward_def)
qed

lemma pe_like_shape:
  assumes "shape x = bs @ [T, D]" "bs \<noteq> []" "0 < T" "even D"
  shows "\<exists>e. positional_encodings_like x None = Inr e \<and> shape e = shape x"
  using positional_encodings_like_values [OF assms] by blast

lemma embed_tokens_shape:
  assumes w: "shape (weight out) = [V, D]" and d: "0 \<le> d_model"
    and x: "shape x = bs @ [T]" and bs: "bs \<noteq> []" and T: "0 < T" and D: "even D"
    and r: "\<forall>idx\<in>set (indices (shape x)). 0 \<le> elem x idx \<and> elem x idx < int V"
  shows "\<exists>y. embed_tokens out d_model dropout rnd x = Inr y \<and> shape y = bs @ [T, D]"
proof -
  let ?w = "map_tensor (\<lambda>w. w * sqrt (real_of_int d_model)) (weight out)"
  have "\<not> list_ex (\<lambda>idx. elem x idx < 0 \<or> int (shape ?w ! 0) \<le> elem x idx) (indices (shape x))"
    using r w by (auto simp: list_ex_iff map_tensor_def)
  then obtain y where y: "embedding x ?w = Inr y" "shape y = bs @ [T, D]"
    using w x by (simp add: embedding_def dim_def map_tensor_def)
  from pe_like_shape [OF y(2) bs T D] obtain e where
    e: "positional_encodings_like y None = Inr e" "shape e = shape y" by blast
  have "\<exists>z. iadd y e = Inr z \<and> shape z = shape y"
    using e by (simp add: iadd_def add_def broadcast_op_def broadcast_shapes_same)
  then obtain z where z: "iadd y e = Inr z" "shape z = shape y" by blast
  show ?thesis using d y e z by (simp add: embed_tokens_def)
qed

lemma build_layers_all:
  "build_layers mk ns = Inr ls \<Longrightarrow> \<forall>l\<in>set ls. \<exists>i. mk i = Inr l"
  by (induction ns arbitrary: ls) (auto simp: and_then_eq_Inr)

lemma Encoder_init_each:
  assumes "Encoder_init init field a = Inr enc"
  shows "\<forall>l\<in>set (enc_layers enc). \<exists>p. EncoderLayer_init p a = Inr l"
proof -
  from assms obtain ls where
    "build_layers (\<lambda>i. EncoderLayer_init (child i (child 1 init)) a) [0..<nat (arg_n_layers a)] = Inr ls"
    "enc_layers enc = ls"
    by (auto simp: Encoder_init_def and_then_eq_Inr)
  with build_layers_all [OF this(1)] show ?thesis by blast
qed

lemma Decoder_init_each:
  assumes "Decoder_init init field a = Inr dec"
  shows "\<forall>l\<in>set (dec_layers dec). \<exists>p. DecoderLayer_init p a = Inr l"
proof -
  from assms obtain ls where
    "build_layers (\<lambda>i. DecoderLayer_init (child i (child 1 init)) a) [0..<nat (arg_n_layers a)] = Inr ls"
    "dec_layers dec = ls"
    by (auto simp: Decoder_init_def and_then_eq_Inr)
  with build_layers_all [OF this(1)] show ?thesis by blast
qed

lemma encode_layers_returns:
  assumes "\<forall>l\<in>set ls. \<exists>p. EncoderLayer_init p a = Inr l"
    and "0 < arg_n_heads a" "arg_n_heads a dvd arg_d_model a"
    and "shape x = [B, T, nat (arg_d_model a)]"
    and "\<forall>y\<in>set acc. shape y = [B, T, nat (arg_d_model a)]"
  shows "\<exists>r. encode_layers rnd l ls x acc = Inr r \<and> length r = length acc + length ls \<and>
             (\<forall>y\<in>set r. shape y = [B, T, nat (arg_d_model a)])"
  using assms
proof (induction ls arbitrary: l x acc)
  case Nil
  then show ?case by simp
next
  case (Cons layer rest)
  from Cons.prems(1) obtain p where p: "EncoderLayer_init p a = Inr layer" by auto
  from EncoderLayer_forward_shape [OF p Cons.prems(2,3,4)] obtain y where
    y: "EncoderLayer_forward layer (child l rnd) x = Inr y"
       "shape y = [B, T, nat (arg_d_model a)]" by blast
  have "\<exists>r. encode_layers rnd (Suc l) rest y (acc @ [y]) = Inr r \<and>
             length r = length (acc @ [y]) + length rest \<and>
             (\<forall>y\<in>set r. shape y = [B, T, nat (arg_d_model a)])"
    using Cons.prems y by (intro Cons.IH) auto
  with y show ?case by simp
qed

lemma decode_layers_returns:
  assumes "\<forall>l\<in>set ls. \<exists>p. DecoderLayer_init p a = Inr l"
    and "0 < arg_n_heads a" "arg_n_heads a dvd arg_d_model a"
    and "shape x = [B, T, nat (arg_d_model a)]"
    and "\<forall>e\<in>set encoding. shape e = [B, Tk, nat (arg_d_model a)]"
  shows "\<exists>h. decode_layers rnd l (zip ls encoding) x = Inr h \<and>
             shape h = [B, T, nat (arg_d_model a)]"
  using assms
proof (induction ls arbitrary: l x encoding)
  case Nil
  then show ?case by simp
next
  case (Cons layer rest)
  show ?case
  proof (cases encoding)
    case Nil
    with Cons.prems show ?thesis by simp
  next
    case (Cons e erest)
    from Cons.prems(1) obtain p where p: "DecoderLayer_init p a = Inr layer" by auto
    from Cons.prems(5) Cons have e: "shape e = [B, Tk, nat (arg_d_model a)]" by simp
    from DecoderLayer_forward_shape [OF p Cons.prems(2,3,4) e] obtain y where
      y: "DecoderLayer_forward layer (child l rnd) x e = Inr y"
         "shape y = [B, T, nat (arg_d_model a)]" by blast
    have "\<exists>h. decode_layers rnd (Suc l) (zip rest erest) y = Inr h \<and>
             shape h = [B, T, nat (arg_d_model a)]"
      using Cons.prems y Cons by (intro Cons.IH) auto
    with y Cons show ?thesis by simp
  qed
qed

lemma Encoder_forward_returns:
  assumes init: "Encoder_init init field a = Inr enc"
    and w: "shape (weight (fld_out field)) = [V, nat (arg_d_model a)]"
    and n: "0 < arg_n_heads a" "arg_n_heads a dvd arg_d_model a"
    and d: "0 \<le> arg_d_model a" "even (arg_d_model a)"
    and x: "shape x = [B, T]" "0 < T"
    and r: "\<forall>idx\<in>set (indices (shape x)). 0 \<le> elem x idx \<and> elem x idx < int V"
  shows "\<exists>encoding. Encoder_forward enc rnd x = Inr encoding \<and>
           length encoding = nat (arg_n_layers a) \<and>
           (\<forall>e\<in>set encoding. shape e = [B, T, nat (arg_d_model a)])"
proof -
  note f = Encoder_init_fields [OF init]
  have ev: "even (nat (arg_d_model a))" using d by (simp add: even_nat_iff)
  from embed_tokens_shape [where out = "enc_out enc" and V = V and D = "nat (arg_d_model a)"
      and d_model = "enc_d_model enc" and x = x and bs = "[B]" and T = T
      and dropout = "enc_dropout enc" and rnd = "child 2 rnd"] f w d x r ev
  obtain y where y: "embed_tokens (enc_out enc) (enc_d_model enc) (enc_dropout enc)
      (child 2 rnd) x = Inr y" "shape y = [B, T, nat (arg_d_model a)]" by auto
  from encode_layers_returns [OF Encoder_init_each [OF init] n y(2), of "[]" "child 1 rnd" 0]
  obtain e where "encode_layers (child 1 rnd) 0 (enc_layers enc) y [] = Inr e"
    "length e = length (enc_layers enc)" "\<forall>y\<in>set e. shape y = [B, T, nat (arg_d_model a)]"
    by auto
  with y f show ?thesis by (simp add: Encoder_forward_def)
qed

lemma Decoder_forward_returns:
  assumes init: "Decoder_init init field a = Inr dec"
    and w: "shape (weight (fld_out field)) = [V, nat (arg_d_model a)]"
    and n: "0 < arg_n_heads a" "arg_n_heads a dvd arg_d_model a"
    and d: "0 \<le> arg_d_model a" "even (arg_d_model a)"
    and x: "shape x = [B, T]" "0 < T"
    and r: "\<forall>idx\<in>set (indices (shape x)). 0 \<le> elem x idx \<and> elem x idx < int V"
    and e: "\<forall>e\<in>set encoding. shape e = [B, Tk, nat (arg_d_model a)]"
  shows "\<exists>h. Decoder_forward dec rnd x encoding = Inr h \<and> shape h = [B, T, nat (arg_d_model a)]"
proof -
  note f = Decoder_init_fields [OF init]
  have ev: "even (nat (arg_d_model a))" using d by (simp add: even_nat_iff)
  from embed_tokens_shape [where out = "dec_out dec" and V = V and D = "nat (arg_d_model a)"
      and d_model = "dec_d_model dec" and x = x and bs = "[B]" and T = T
      and dropout = "dec_dropout dec" and rnd = "child 2 rnd"] f w d x r ev
  obtain y where y: "embed_tokens (dec_out dec) (dec_d_model dec) (dec_dropout dec)
      (child 2 rnd) x = Inr y" "shape y = [B, T, nat (arg_d_model a)]" by auto
  from decode_layers_returns [OF Decoder_init_each [OF init] n y(2) e, of "child 1 rnd" 0]
  obtain h where "decode_layers (child 1 rnd) 0 (zip (dec_layers dec) encoding) y = Inr h"
    "shape h = [B, T, nat (arg_d_model a)]"
    by auto
  with y show ?thesis by (simp add: Decoder_forward_def)
qed

text \<open>The example encoder and decoder return on the example token.\<close>

lemma example_tokens_in_range:
  "shape example_tokens = [1, 1] \<and>
   (\<forall>idx\<in>set (indices (shape example_tokens)).
      0 \<le> elem example_tokens idx \<and> elem example_tokens idx < int 3)"
  by (simp add: example_tokens_def)

lemma example_encoding:
  "Encoder_forward example_encoder (child 0 all_kept) example_tokens = Inr example_encoding \<and>
   length example_encoding = 1 \<and> (\<forall>e\<in>set example_encoding. shape e = [1, 1, 4])"
proof -
  from Encoder_forward_returns [OF example_encoder_init, of 3 example_tokens 1 1 "child 0 all_kept"]
    example_tokens_in_range
  obtain encoding where
    "Encoder_forward example_encoder (child 0 all_kept) example_tokens = Inr encoding"
    "length encoding = 1" "\<forall>e\<in>set encoding. shape e = [1, 1, 4]"
    by (auto simp: example_field_out example_args_def)
  then show ?thesis by (simp add: example_encoding_def)
qed

lemma example_hidden:
  "Decoder_forward example_decoder (child 1 all_kept) example_tokens example_encoding
     = Inr example_hidden \<and> shape example_hidden = [1, 1, 4]"
proof -
  from Decoder_forward_returns [OF example_decoder_init, of 3 example_tokens 1 1
      example_encoding 1 "child 1 all_kept"]
    example_tokens_in_range example_encoding
  obtain h where
    "Decoder_forward example_decoder (child 1 all_kept) example_tokens example_encoding = Inr h"
    "shape h = [1, 1, 4]"
    by (auto simp: example_field_out example_args_def)
  then show ?thesis by (simp add: example_hidden_def)
qed

lemma example_logits:
  "Linear_forward (dec_out example_decoder) example_hidden = Inr example_logits \<and>
   shape example_logits = [1, 1, 3]"
proof -
  from Linear_forward_shape [of example_hidden "[1, 1]" "dec_out example_decoder"] example_hidden
  obtain y where "Linear_forward (dec_out example_decoder) example_hidden = Inr y"
    "shape y = [1, 1, 3]"
    by (auto simp: example_decoder_fields example_field_out)
  then show ?thesis by (simp add: example_logits_def)
qed

lemma example_probs:
  "probs example_decoder example_hidden = Inr example_probs \<and>
   example_probs = softmax (map_tensor Fin example_logits) \<and> shape example_probs = [1, 1, 3]"
  using example_logits
  by (simp add: probs_def example_probs_def softmax_def map_tensor_def)

section \<open>Decoder.forward over the zipped layers (C5)\<close>

text \<open>
  C5, as amended. \<open>Decoder.forward\<close> never compares the length of \<open>encoding\<close> with the
  number of its layers: \<open>zip\<close> stops at the shorter of the two, so the call applies the
  first \<open>min n_layers (len encoding)\<close> decoder layers, each with the encoding of the same
  index, and returns that hidden state. An error can only come from the embedding or
  from a layer that is run.
\<close>

theorem Decoder_forward_zip:
  "Decoder_forward dec rnd x encoding =
     and_then (embed_tokens (dec_out dec) (dec_d_model dec) (dec_dropout dec) (child 2 rnd) x)
       (decoder_prefix (child 1 rnd) (dec_layers dec) encoding
          (min (length (dec_layers dec)) (length encoding)))"
  by (rule Decoder_forward_prefix)

text \<open>With an empty \<open>encoding\<close> no layer runs: the result is the embedded input.\<close>

theorem Decoder_forward_zip_witness:
  "Decoder_forward example_decoder all_kept example_tokens [] =
     embed_tokens (dec_out example_decoder) (dec_d_model example_decoder)
       (dec_dropout example_decoder) (child 2 all_kept) example_tokens"
proof -
  have "and_then m (decoder_prefix r ls [] 0) = m" for m :: "error + real tensor" and r ls
    by (cases m) simp_all
  with Decoder_forward_zip [of example_decoder all_kept example_tokens "[]"]
  show ?thesis by simp
qed

text \<open>The claim as stated: an \<open>encoding\<close> whose length differs from \<open>n_layers\<close> makes
  the call raise. The example decoder has one layer; called with no encoding at all it
  returns a value.\<close>

theorem Decoder_forward_mismatch_counterexample:
  "Decoder_init zero_params example_field example_args = Inr example_decoder \<and>
   length (dec_layers example_decoder) = 1 \<and>
   length ([] :: real tensor list) \<noteq> length (dec_layers example_decoder) \<and>
   \<not> isl (Decoder_forward example_decoder all_kept example_tokens [])"
proof -
  have "Decoder_forward example_decoder all_kept example_tokens [] =
     embed_tokens (fld_out example_field) 4 \<lparr>drop_p = 0, drop_training = True\<rparr>
       (child 2 all_kept) example_tokens"
    by (cases "embed_tokens (fld_out example_field) 4 \<lparr>drop_p = 0, drop_training = True\<rparr>
       (child 2 all_kept) example_tokens")
      (simp_all add: Decoder_forward_prefix example_decoder_fields)
  with example_embed [of "child 2 all_kept"] example_decoder_init example_decoder_fields
  show ?thesis by simp
qed

section \<open>Transformer.forward (C9)\<close>

lemma tf_encoder_fails:
  assumes "Encoder_forward (tr_encoder tr) (child 0 rnd) ei = Inl e"
  shows "Transformer_forward greedy beam_search tr rnd ei di decoding beam alpha rp
         = ([EncoderCall], Inl e)"
  using assms by (simp add: Transformer_forward_def then_logged_def logged_def)

lemma tf_training:
  assumes "Encoder_forward (tr_encoder tr) (child 0 rnd) ei = Inr encoding"
  shows "Transformer_forward greedy beam_search tr rnd ei di False beam alpha rp
         = ([EncoderCall, DecoderCall],
            and_then (Decoder_forward (tr_decoder tr) (child 1 rnd) di encoding)
              (\<lambda>out. if rp then and_then (probs (tr_decoder tr) out) (\<lambda>p. Inr (OutProbs out p))
                      else Inr (Out out)))"
  using assms
  by (cases "Decoder_forward (tr_decoder tr) (child 1 rnd) di encoding")
     (simp_all add: Transformer_forward_def then_logged_def logged_def returned_def)

lemma tf_decoding:
  assumes "Encoder_forward (tr_encoder tr) (child 0 rnd) ei = Inr encoding"
  shows "Transformer_forward greedy beam_search tr rnd ei di True beam alpha False
         = (if beam = 1 then ([EncoderCall, GreedyCall],
                               and_then (greedy encoding) (\<lambda>output. Inr (Decoded output)))
            else ([EncoderCall, BeamSearchCall beam alpha],
                  and_then (beam_search encoding beam alpha) (\<lambda>output. Inr (Decoded output))))"
  using assms
  by (cases "greedy encoding"; cases "beam_search encoding beam alpha")
     (simp_all add: Transformer_forward_def then_logged_def logged_def returned_def)

lemma tf_decoding_probs:
  assumes "Encoder_forward (tr_encoder tr) (child 0 rnd) ei = Inr encoding"
    and "Decoder_forward (tr_decoder tr) (child 1 rnd) di encoding = Inr out"
  shows "Transformer_forward greedy beam_search tr rnd ei di True beam alpha True
         = (if beam = 1 then ([EncoderCall, DecoderCall, GreedyCall],
                               and_then (greedy encoding) (\<lambda>output.
                                 and_then (probs (tr_decoder tr) out) (\<lambda>p.
                                   Inr (DecodedProbs output out p))))
            else ([EncoderCall, DecoderCall, BeamSearchCall beam alpha],
                  and_then (beam_search encoding beam alpha) (\<lambda>output.
                    and_then (probs (tr_decoder tr) out) (\<lambda>p.
                      Inr (DecodedProbs output out p)))))"
  using assms
  by (cases "greedy encoding"; cases "beam_search encoding beam alpha")
     (simp_all add: Transformer_forward_def then_logged_def logged_def returned_def)

lemma tf_decoding_probs_decoder_fails:
  assumes "Encoder_forward (tr_encoder tr) (child 0 rnd) ei = Inr encoding"
    and "Decoder_forward (tr_decoder tr) (child 1 rnd) di encoding = Inl e"
  shows "Transformer_forward greedy beam_search tr rnd ei di True beam alpha True
         = ([EncoderCall, DecoderCall], Inl e)"
  using assms
  by (simp add: Transformer_forward_def then_logged_def logged_def returned_def)

lemma tf_trace:
  "(\<exists>rest. fst (Transformer_forward greedy beam_search tr rnd ei di decoding beam alpha rp)
            = EncoderCall # rest) \<and>
   (DecoderCall \<in> set (fst (Transformer_forward greedy beam_search tr rnd ei di decoding beam alpha rp)))
     = ((rp \<or> \<not> decoding) \<and> \<not> isl (Encoder_forward (tr_encoder tr) (child 0 rnd) ei))"
proof (cases "Encoder_forward (tr_encoder tr) (child 0 rnd) ei")
  case (Inl e)
  then show ?thesis by (simp add: tf_encoder_fails)
next
  case (Inr encoding)
  show ?thesis
  proof (cases decoding)
    case False
    with Inr show ?thesis by (simp add: tf_training)
  next
    case True
    show ?thesis
    proof (cases rp)
      case False
      with Inr True show ?thesis by (simp add: tf_decoding)
    next
      case rp: True
      show ?thesis
      proof (cases "Decoder_forward (tr_decoder tr) (child 1 rnd) di encoding")
        case (Inl e)
        with Inr True rp show ?thesis by (simp add: tf_decoding_probs_decoder_fails)
      next
        case (Inr out)
        with \<open>Encoder_forward (tr_encoder tr) (child 0 rnd) ei = Inr encoding\<close> True rp
        show ?thesis by (simp add: tf_decoding_probs)
      qed
    qed
  qed
qed

text \<open>
  C9, as amended. \<open>Transformer.forward\<close> always calls the encoder first. The decoder is
  called exactly when the encoder has returned and \<open>decoding=False\<close> or
  \<open>return_probs=True\<close>. With \<open>decoding=False\<close> the call returns the decoder's output, a
  hidden state of width \<open>d_model\<close>, and with \<open>return_probs=True\<close> beside it the softmax of
  the output projection \<open>self.decoder.out\<close> applied to that hidden state. With
  \<open>decoding=True\<close> it calls \<open>greedy(encoding)\<close> if \<open>beam = 1\<close> and
  \<open>beam_search(encoding, beam, alpha)\<close> otherwise (so for every \<open>beam > 1\<close>), after the
  decoder if \<open>return_probs=True\<close>, and then the result is the search output, the
  decoder's output and the softmax of its projection.
\<close>

theorem Transformer_forward_cases:
  "(\<exists>rest. fst (Transformer_forward greedy beam_search tr rnd ei di decoding beam alpha rp)
            = EncoderCall # rest) \<and>
   (DecoderCall \<in> set (fst (Transformer_forward greedy beam_search tr rnd ei di decoding beam alpha rp)))
     = ((rp \<or> \<not> decoding) \<and> \<not> isl (Encoder_forward (tr_encoder tr) (child 0 rnd) ei)) \<and>
   (Encoder_forward (tr_encoder tr) (child 0 rnd) ei = Inr encoding \<longrightarrow>
      Transformer_forward greedy beam_search tr rnd ei di False beam alpha False
        = ([EncoderCall, DecoderCall],
           and_then (Decoder_forward (tr_decoder tr) (child 1 rnd) di encoding)
             (\<lambda>out. Inr (Out out))) \<and>
      Transformer_forward greedy beam_search tr rnd ei di False beam alpha True
        = ([EncoderCall, DecoderCall],
           and_then (Decoder_forward (tr_decoder tr) (child 1 rnd) di encoding)
             (\<lambda>out. and_then (Linear_forward (dec_out (tr_decoder tr)) out)
                (\<lambda>logits. Inr (OutProbs out (softmax (map_tensor Fin logits)))))) \<and>
      Transformer_forward greedy beam_search tr rnd ei di True 1 alpha False
        = ([EncoderCall, GreedyCall],
           and_then (greedy encoding) (\<lambda>output. Inr (Decoded output))) \<and>
      (beam \<noteq> 1 \<longrightarrow>
         Transformer_forward greedy beam_search tr rnd ei di True beam alpha False
           = ([EncoderCall, BeamSearchCall beam alpha],
              and_then (beam_search encoding beam alpha) (\<lambda>output. Inr (Decoded output)))) \<and>
      (Decoder_forward (tr_decoder tr) (child 1 rnd) di encoding = Inr out \<longrightarrow>
         Transformer_forward greedy beam_search tr rnd ei di True 1 alpha True
           = ([EncoderCall, DecoderCall, GreedyCall],
              and_then (greedy encoding) (\<lambda>output.
                and_then (Linear_forward (dec_out (tr_decoder tr)) out) (\<lambda>logits.
                  Inr (DecodedProbs output out (softmax (map_tensor Fin logits)))))) \<and>
         (beam \<noteq> 1 \<longrightarrow>
            Transformer_forward greedy beam_search tr rnd ei di True beam alpha True
              = ([EncoderCall, DecoderCall, BeamSearchCall beam alpha],
                 and_then (beam_search encoding beam alpha) (\<lambda>output.
                   and_then (Linear_forward (dec_out (tr_decoder tr)) out) (\<lambda>logits.
                     Inr (DecodedProbs output out (softmax (map_tensor Fin logits)))))))))"
proof -
  have p: "probs d out = and_then (Linear_forward (dec_out d) out)
             (\<lambda>logits. Inr (softmax (map_tensor Fin logits)))" for d out
    by (simp add: probs_def)
  have q: "and_then (probs d out) f = and_then (Linear_forward (dec_out d) out)
             (\<lambda>logits. f (softmax (map_tensor Fin logits)))" for d out
      and f :: "real tensor \<Rightarrow> error + 'b outcome"
    by (simp add: p and_then_assoc)
  have r: "Encoder_forward (tr_encoder tr) (child 0 rnd) ei = Inr encoding \<longrightarrow>
      Transformer_forward greedy beam_search tr rnd ei di False beam alpha False
        = ([EncoderCall, DecoderCall],
           and_then (Decoder_forward (tr_decoder tr) (child 1 rnd) di encoding)
             (\<lambda>out. Inr (Out out))) \<and>
      Transformer_forward greedy beam_search tr rnd ei di False beam alpha True
        = ([EncoderCall, DecoderCall],
           and_then (Decoder_forward (tr_decoder tr) (child 1 rnd) di encoding)
             (\<lambda>out. and_then (Linear_forward (dec_out (tr_decoder tr)) out)
                (\<lambda>logits. Inr (OutProbs out (softmax (map_tensor Fin logits)))))) \<and>
      Transformer_forward greedy beam_search tr rnd ei di True 1 alpha False
        = ([EncoderCall, GreedyCall],
           and_then (greedy encoding) (\<lambda>output. Inr (Decoded output))) \<and>
      (beam \<noteq> 1 \<longrightarrow>
         Transformer_forward greedy beam_search tr rnd ei di True beam alpha False
           = ([EncoderCall, BeamSearchCall beam alpha],
              and_then (beam_search encoding beam alpha) (\<lambda>output. Inr (Decoded output)))) \<and>
      (Decoder_forward (tr_decoder tr) (child 1 rnd) di encoding = Inr out \<longrightarrow>
         Transformer_forward greedy beam_search tr rnd ei di True 1 alpha True
           = ([EncoderCall, DecoderCall, GreedyCall],
              and_then (greedy encoding) (\<lambda>output.
                and_then (Linear_forward (dec_out (tr_decoder tr)) out) (\<lambda>logits.
                  Inr (DecodedProbs output out (softmax (map_tensor Fin logits)))))) \<and>
         (beam \<noteq> 1 \<longrightarrow>
            Transformer_forward greedy beam_search tr rnd ei di True beam alpha True
              = ([EncoderCall, DecoderCall, BeamSearchCall beam alpha],
                 and_then (beam_search encoding beam alpha) (\<lambda>output.
                   and_then (Linear_forward (dec_out (tr_decoder tr)) out) (\<lambda>logits.
                     Inr (DecodedProbs output out (softmax (map_tensor Fin logits))))))))"
    by (auto simp: tf_training tf_decoding tf_decoding_probs q)
  from tf_trace [of greedy beam_search tr rnd ei di decoding beam alpha rp] r
  show ?thesis by blast
qed

text \<open>The theorem at the example transformer (one layer, \<open>d_model = 4\<close>, a vocabulary of
  3), where encoder and decoder return, for \<open>beam = 1\<close> and \<open>beam = 2\<close>.\<close>

theorem Transformer_forward_cases_witness:
  "Encoder_forward (tr_encoder example_transformer) (child 0 all_kept) example_tokens
     = Inr example_encoding \<and>
   Decoder_forward (tr_decoder example_transformer) (child 1 all_kept) example_tokens
     example_encoding = Inr example_hidden \<and>
   (2::int) \<noteq> 1 \<and>
   Transformer_forward example_greedy example_beam_search example_transformer all_kept
       example_tokens example_tokens False 1 (6 / 10) False
     = ([EncoderCall, DecoderCall], Inr (Out example_hidden)) \<and>
   Transformer_forward example_greedy example_beam_search example_transformer all_kept
       example_tokens example_tokens False 1 (6 / 10) True
     = ([EncoderCall, DecoderCall],
        Inr (OutProbs example_hidden (softmax (map_tensor Fin example_logits)))) \<and>
   Transformer_forward example_greedy example_beam_search example_transformer all_kept
       example_tokens example_tokens True 1 (6 / 10) False
     = ([EncoderCall, GreedyCall], Inr (Decoded [0])) \<and>
   Transformer_forward example_greedy example_beam_search example_transformer all_kept
       example_tokens example_tokens True 2 (6 / 10) False
     = ([EncoderCall, BeamSearchCall 2 (6 / 10)], Inr (Decoded [0, 0])) \<and>
   Transformer_forward example_greedy example_beam_search example_transformer all_kept
       example_tokens example_tokens True 1 (6 / 10) True
     = ([EncoderCall, DecoderCall, GreedyCall],
        Inr (DecodedProbs [0] example_hidden (softmax (map_tensor Fin example_logits)))) \<and>
   Transformer_forward example_greedy example_beam_search example_transformer all_kept
       example_tokens example_tokens True 2 (6 / 10) True
     = ([EncoderCall, DecoderCall, BeamSearchCall 2 (6 / 10)],
        Inr (DecodedProbs [0, 0] example_hidden (softmax (map_tensor Fin example_logits))))"
proof -
  have e: "Encoder_forward (tr_encoder example_transformer) (child 0 all_kept) example_tokens
     = Inr example_encoding"
    using example_encoding by (simp add: example_transformer_def)
  have d: "Decoder_forward (tr_decoder example_transformer) (child 1 all_kept) example_tokens
     example_encoding = Inr example_hidden"
    using example_hidden by (simp add: example_transformer_def)
  have l: "Linear_forward (dec_out (tr_decoder example_transformer)) example_hidden
     = Inr example_logits"
    using example_logits by (simp add: example_transformer_def)
  note t = Transformer_forward_cases [where tr = example_transformer and rnd = all_kept
      and ei = example_tokens and di = example_tokens and encoding = example_encoding
      and out = example_hidden and greedy = example_greedy
      and beam_search = example_beam_search and alpha = "6 / 10" and beam = 2]
  note t1 = Transformer_forward_cases [where tr = example_transformer and rnd = all_kept
      and ei = example_tokens and di = example_tokens and encoding = example_encoding
      and out = example_hidden and greedy = example_greedy
      and beam_search = example_beam_search and alpha = "6 / 10" and beam = 1]
  from t t1 e d l show ?thesis
    by (simp add: example_greedy_def example_beam_search_def)
qed

text \<open>The claim as stated: the call returns "those logits (plus their softmax)", the
  probabilities being the softmax of the tensor returned beside them. In the example the
  tensor returned is the hidden state of shape \<open>[1, 1, 4]\<close>; the probabilities are the
  softmax of its projection, of shape \<open>[1, 1, 3]\<close>: they are not the softmax of the
  returned tensor, and the returned tensor is not the projected logits.\<close>

theorem Transformer_forward_probs_counterexample:
  "Transformer_forward example_greedy example_beam_search example_transformer all_kept
       example_tokens example_tokens False 1 (6 / 10) True
     = ([EncoderCall, DecoderCall], Inr (OutProbs example_hidden example_probs)) \<and>
   Linear_forward (dec_out (tr_decoder example_transformer)) example_hidden = Inr example_logits \<and>
   example_probs = softmax (map_tensor Fin example_logits) \<and>
   example_probs \<noteq> softmax (map_tensor Fin example_hidden) \<and>
   example_hidden \<noteq> example_logits \<and>
   shape example_hidden = [1, 1, 4] \<and> shape example_logits = [1, 1, 3]"
proof -
  have e: "Encoder_forward (tr_encoder example_transformer) (child 0 all_kept) example_tokens
     = Inr example_encoding"
    using example_encoding by (simp add: example_transformer_def)
  have "shape example_probs \<noteq> shape (softmax (map_tensor Fin example_hidden))"
    using example_probs example_hidden by (simp add: softmax_def map_tensor_def)
  then have 1: "example_probs \<noteq> softmax (map_tensor Fin example_hidden)" by auto
  have "shape example_hidden \<noteq> shape example_logits"
    using example_hidden example_logits by simp
  then have 2: "example_hidden \<noteq> example_logits" by auto
  from tf_training [OF e, of example_greedy example_beam_search example_tokens 1 "6 / 10" True]
    example_hidden example_probs example_logits 1 2
  show ?thesis by (simp add: example_transformer_def)
qed

section \<open>LayerNorm (C7)\<close>

lemma bindex_valid: "valid_index s idx \<Longrightarrow> bindex s idx = idx"
proof -
  assume "valid_index s idx"
  then have a: "list_all2 (<) idx s" by (simp add: valid_index_def)
  then have l: "length idx = length s" by (rule list_all2_lengthD)
  from a have "map2 (\<lambda>d i. if d = 1 then 0 else i) s idx = idx"
    by (induction idx s rule: list_all2_induct) auto
  with l show ?thesis by (simp add: bindex_def)
qed

lemma valid_index_snoc: "valid_index (bs @ [n]) (bi @ [j]) \<longleftrightarrow> valid_index bs bi \<and> j < n"
proof (cases "length bi = length bs")
  case True
  then show ?thesis by (simp add: valid_index_def list_all2_append)
next
  case False
  then show ?thesis by (auto simp: valid_index_def dest: list_all2_lengthD)
qed

lemma bindex_keepdim:
  assumes "valid_index bs bi"
  shows "bindex (bs @ [Suc 0]) (bi @ [j]) = bi @ [0]"
proof -
  from assms have a: "list_all2 (<) bi bs" by (simp add: valid_index_def)
  then have l: "length bi = length bs" by (rule list_all2_lengthD)
  from a have m: "map2 (\<lambda>d i. if d = 1 then 0 else i) bs bi = bi"
    by (induction bi bs rule: list_all2_induct) auto
  from l have "zip (bs @ [Suc 0]) (bi @ [j]) = zip bs bi @ [(Suc 0, j)]" by simp
  with l m show ?thesis by (simp add: bindex_def)
qed

lemma bindex_vec:
  assumes "j < n"
  shows "bindex [n] (bi @ [j]) = [j]"
  using assms by (auto simp: bindex_def)

lemma mean_last_elem:
  assumes "shape x = bs @ [n]"
  shows "elem (mean_last x) (bi @ [c]) = (\<Sum>j<n. elem x (bi @ [j])) / real n"
  using assms by (simp add: mean_last_def last_size_def row_def)

lemma std_last_elem:
  assumes "shape x = bs @ [n]"
  shows "elem (std_last x) (bi @ [c]) =
         sqrt ((\<Sum>j<n. (elem x (bi @ [j]) - (\<Sum>j<n. elem x (bi @ [j])) / real n)\<^sup>2)
               / (real n - 1))"
  using assms by (simp add: std_last_def mean_last_def last_size_def row_def)

lemma normalized_elem:
  assumes x: "shape x = bs @ [n]"
  shows "\<exists>y. normalized m x = Inr y \<and> shape y = bs @ [n] \<and>
     (\<forall>bi j. valid_index bs bi \<and> j < n \<longrightarrow>
        elem y (bi @ [j]) = (elem x (bi @ [j]) - elem (mean_last x) (bi @ [0]))
                            / (elem (std_last x) (bi @ [0]) + ln_eps m))"
proof -
  let ?se = "map_tensor (\<lambda>s. s + ln_eps m) (std_last x)"
  have 1: "broadcast_shapes (shape x) (shape (mean_last x)) = Some (bs @ [n])"
    using x by (simp add: mean_last_shape [OF x] broadcast_shapes_keepdim)
  define c where "c = Tensor (bs @ [n])
     (\<lambda>idx. elem x (bindex (shape x) idx) - elem (mean_last x) (bindex (shape (mean_last x)) idx))"
  have c: "sub x (mean_last x) = Inr c" "shape c = bs @ [n]"
    using 1 by (simp_all add: sub_def broadcast_op_Some c_def)
  have 2: "broadcast_shapes (shape c) (shape ?se) = Some (bs @ [n])"
    using c by (simp add: map_tensor_def std_last_shape [OF x] broadcast_shapes_keepdim)
  define y where "y = Tensor (bs @ [n])
     (\<lambda>idx. elem c (bindex (shape c) idx) / elem ?se (bindex (shape ?se) idx))"
  have y: "divide_tensor c ?se = Inr y" "shape y = bs @ [n]"
    using 2 by (simp_all add: divide_tensor_def broadcast_op_Some y_def)
  have "elem y (bi @ [j]) = (elem x (bi @ [j]) - elem (mean_last x) (bi @ [0]))
                            / (elem (std_last x) (bi @ [0]) + ln_eps m)"
    if "valid_index bs bi" "j < n" for bi j
  proof -
    from that have v: "valid_index (bs @ [n]) (bi @ [j])" by (simp add: valid_index_snoc)
    have k: "bindex (bs @ [Suc 0]) (bi @ [j]) = bi @ [0]" by (rule bindex_keepdim [OF that(1)])
    show ?thesis
      using bindex_valid [OF v] k
      by (simp add: y_def c_def x mean_last_shape [OF x] std_last_shape [OF x] map_tensor_def)
  qed
  with c y show ?thesis by (auto simp: normalized_def)
qed

lemma centred_sum_zero:
  fixes X :: "nat \<Rightarrow> real"
  assumes "0 < n"
  shows "(\<Sum>j<n. (X j - (\<Sum>j<n. X j) / real n) / d) = 0"
proof -
  have "(\<Sum>j<n. (X j - (\<Sum>j<n. X j) / real n)) = 0"
    using assms by (simp add: sum_subtractf)
  then have "(\<Sum>j<n. (X j - (\<Sum>j<n. X j) / real n)) / d = 0" by simp
  then show ?thesis by (simp add: sum_divide_distrib)
qed

lemma scaled_std:
  fixes X :: "nat \<Rightarrow> real"
  assumes n: "2 \<le> n" and d: "0 < d" and s: "0 \<le> s"
    and sd: "s = sqrt ((\<Sum>j<n. (X j - mu)\<^sup>2) / (real n - 1))"
  shows "sqrt ((\<Sum>j<n. ((X j - mu) / d - 0)\<^sup>2) / (real n - 1)) = s / d"
proof -
  have "(\<Sum>j<n. ((X j - mu) / d - 0)\<^sup>2) = (\<Sum>j<n. (X j - mu)\<^sup>2) / d\<^sup>2"
    by (simp add: power_divide sum_divide_distrib)
  then have "sqrt ((\<Sum>j<n. ((X j - mu) / d - 0)\<^sup>2) / (real n - 1))
           = sqrt (((\<Sum>j<n. (X j - mu)\<^sup>2) / (real n - 1)) / d\<^sup>2)"
    by (simp add: field_simps)
  also have "\<dots> = sqrt ((\<Sum>j<n. (X j - mu)\<^sup>2) / (real n - 1)) / sqrt (d\<^sup>2)"
    by (rule real_sqrt_divide)
  also have "sqrt (d\<^sup>2) = d" using d by simp
  finally show ?thesis using sd by simp
qed

lemma normalized_moments:
  assumes x: "shape x = bs @ [n]" and n: "2 \<le> n" and eps: "0 < ln_eps m"
  shows "\<exists>y. normalized m x = Inr y \<and> shape y = shape x \<and>
     (\<forall>bi j. valid_index bs bi \<and> j < n \<longrightarrow>
        elem y (bi @ [j]) = (elem x (bi @ [j]) - elem (mean_last x) (bi @ [0]))
                            / (elem (std_last x) (bi @ [0]) + ln_eps m)) \<and>
     (\<forall>bi c. valid_index bs bi \<longrightarrow>
        elem (mean_last y) (bi @ [c]) = 0 \<and>
        elem (std_last y) (bi @ [c])
          = elem (std_last x) (bi @ [c]) / (elem (std_last x) (bi @ [c]) + ln_eps m) \<and>
        0 \<le> elem (std_last y) (bi @ [c]) \<and> elem (std_last y) (bi @ [c]) < 1)"
proof -
  from normalized_elem [OF x, of m] obtain y where
    y: "normalized m x = Inr y" "shape y = bs @ [n]"
    and el: "\<And>bi j. valid_index bs bi \<Longrightarrow> j < n \<Longrightarrow>
        elem y (bi @ [j]) = (elem x (bi @ [j]) - elem (mean_last x) (bi @ [0]))
                            / (elem (std_last x) (bi @ [0]) + ln_eps m)"
    by blast
  have mom: "elem (mean_last y) (bi @ [c]) = 0 \<and>
        elem (std_last y) (bi @ [c])
          = elem (std_last x) (bi @ [c]) / (elem (std_last x) (bi @ [c]) + ln_eps m) \<and>
        0 \<le> elem (std_last y) (bi @ [c]) \<and> elem (std_last y) (bi @ [c]) < 1"
    if v: "valid_index bs bi" for bi c
  proof -
    define X where "X j = elem x (bi @ [j])" for j
    define mu where "mu = (\<Sum>j<n. X j) / real n"
    define s where "s = sqrt ((\<Sum>j<n. (X j - mu)\<^sup>2) / (real n - 1))"
    define d where "d = s + ln_eps m"
    have mx: "elem (mean_last x) (bi @ [k]) = mu" for k
      by (simp add: mean_last_elem [OF x] mu_def X_def)
    have sx: "elem (std_last x) (bi @ [k]) = s" for k
      by (simp add: std_last_elem [OF x] s_def mu_def X_def)
    have s0: "0 \<le> s" using n by (simp add: s_def sum_nonneg)
    with eps have d0: "0 < d" by (simp add: d_def)
    have ye: "elem y (bi @ [j]) = (X j - mu) / d" if "j < n" for j
      using el [OF v that] by (simp add: mx sx d_def X_def)
    have sumy: "(\<Sum>j<n. elem y (bi @ [j])) = 0"
    proof -
      have "(\<Sum>j<n. elem y (bi @ [j])) = (\<Sum>j<n. (X j - mu) / d)"
        by (rule sum.cong) (simp_all add: ye)
      also have "\<dots> = 0" unfolding mu_def using n by (intro centred_sum_zero) simp
      finally show ?thesis .
    qed
    have my: "elem (mean_last y) (bi @ [c]) = 0"
      by (simp add: mean_last_elem [OF y(2)] sumy)
    have "elem (std_last y) (bi @ [c])
          = sqrt ((\<Sum>j<n. (elem y (bi @ [j]) - 0)\<^sup>2) / (real n - 1))"
      by (simp add: std_last_elem [OF y(2)] sumy)
    also have "(\<Sum>j<n. (elem y (bi @ [j]) - 0)\<^sup>2) = (\<Sum>j<n. ((X j - mu) / d - 0)\<^sup>2)"
      by (rule sum.cong) (simp_all add: ye)
    also have "sqrt ((\<Sum>j<n. ((X j - mu) / d - 0)\<^sup>2) / (real n - 1)) = s / d"
      using n d0 s0 by (intro scaled_std) (simp_all add: s_def)
    finally have sy: "elem (std_last y) (bi @ [c]) = s / d" .
    have "s / d < 1" using d0 eps by (simp add: d_def)
    moreover have "0 \<le> s / d" using s0 d0 by simp
    ultimately show ?thesis using my sy by (simp add: sx d_def)
  qed
  have A: "\<forall>bi j. valid_index bs bi \<and> j < n \<longrightarrow>
        elem y (bi @ [j]) = (elem x (bi @ [j]) - elem (mean_last x) (bi @ [0]))
                            / (elem (std_last x) (bi @ [0]) + ln_eps m)"
    using el by blast
  have B: "\<forall>bi c. valid_index bs bi \<longrightarrow>
        elem (mean_last y) (bi @ [c]) = 0 \<and>
        elem (std_last y) (bi @ [c])
          = elem (std_last x) (bi @ [c]) / (elem (std_last x) (bi @ [c]) + ln_eps m) \<and>
        0 \<le> elem (std_last y) (bi @ [c]) \<and> elem (std_last y) (bi @ [c]) < 1"
    using mom by blast
  have S: "shape y = shape x" using x y by simp
  from y(1) S A B show ?thesis by blast
qed

lemma LayerNorm_forward_elem:
  assumes x: "shape x = bs @ [n]" and g: "shape (ln_gamma m) = [n]" and b: "shape (ln_beta m) = [n]"
  shows "\<exists>z. LayerNorm_forward m x = Inr z \<and> shape z = bs @ [n] \<and>
     (\<forall>bi j. valid_index bs bi \<and> j < n \<longrightarrow>
        elem z (bi @ [j]) =
          elem (ln_gamma m) [j] * (elem x (bi @ [j]) - elem (mean_last x) (bi @ [0]))
            / (elem (std_last x) (bi @ [0]) + ln_eps m) + elem (ln_beta m) [j])"
proof -
  let ?se = "map_tensor (\<lambda>s. s + ln_eps m) (std_last x)"
  have 1: "broadcast_shapes (shape x) (shape (mean_last x)) = Some (bs @ [n])"
    using x by (simp add: mean_last_shape [OF x] broadcast_shapes_keepdim)
  define c where "c = Tensor (bs @ [n])
     (\<lambda>idx. elem x (bindex (shape x) idx) - elem (mean_last x) (bindex (shape (mean_last x)) idx))"
  have c: "sub x (mean_last x) = Inr c" "shape c = bs @ [n]"
    using 1 by (simp_all add: sub_def broadcast_op_Some c_def)
  have 2: "broadcast_shapes (shape (ln_gamma m)) (shape c) = Some (bs @ [n])"
    using g c by (simp add: broadcast_shapes_vec_left)
  define sc where "sc = Tensor (bs @ [n])
     (\<lambda>idx. elem (ln_gamma m) (bindex (shape (ln_gamma m)) idx) * elem c (bindex (shape c) idx))"
  have sc: "mul (ln_gamma m) c = Inr sc" "shape sc = bs @ [n]"
    using 2 by (simp_all add: mul_def broadcast_op_Some sc_def)
  have 3: "broadcast_shapes (shape sc) (shape ?se) = Some (bs @ [n])"
    using sc by (simp add: map_tensor_def std_last_shape [OF x] broadcast_shapes_keepdim)
  define nr where "nr = Tensor (bs @ [n])
     (\<lambda>idx. elem sc (bindex (shape sc) idx) / elem ?se (bindex (shape ?se) idx))"
  have nr: "divide_tensor sc ?se = Inr nr" "shape nr = bs @ [n]"
    using 3 by (simp_all add: divide_tensor_def broadcast_op_Some nr_def)
  have 4: "broadcast_shapes (shape nr) (shape (ln_beta m)) = Some (bs @ [n])"
    using nr b by (simp add: broadcast_shapes_vec_right)
  define z where "z = Tensor (bs @ [n])
     (\<lambda>idx. elem nr (bindex (shape nr) idx) + elem (ln_beta m) (bindex (shape (ln_beta m)) idx))"
  have z: "add nr (ln_beta m) = Inr z" "shape z = bs @ [n]"
    using 4 by (simp_all add: add_def broadcast_op_Some z_def)
  have "elem z (bi @ [j]) =
          elem (ln_gamma m) [j] * (elem x (bi @ [j]) - elem (mean_last x) (bi @ [0]))
            / (elem (std_last x) (bi @ [0]) + ln_eps m) + elem (ln_beta m) [j]"
    if "valid_index bs bi" "j < n" for bi j
  proof -
    from that have v: "valid_index (bs @ [n]) (bi @ [j])" by (simp add: valid_index_snoc)
    have k: "bindex (bs @ [Suc 0]) (bi @ [j]) = bi @ [0]" by (rule bindex_keepdim [OF that(1)])
    show ?thesis
      using bindex_valid [OF v] k bindex_vec [OF that(2), of bi]
      by (simp add: z_def nr_def sc_def c_def x g b mean_last_shape [OF x] std_last_shape [OF x]
          map_tensor_def)
  qed
  then have "\<forall>bi j. valid_index bs bi \<and> j < n \<longrightarrow>
        elem z (bi @ [j]) =
          elem (ln_gamma m) [j] * (elem x (bi @ [j]) - elem (mean_last x) (bi @ [0]))
            / (elem (std_last x) (bi @ [0]) + ln_eps m) + elem (ln_beta m) [j]"
    by blast
  moreover have "LayerNorm_forward m x = Inr z"
    by (simp add: LayerNorm_forward_def Let_def c sc nr z)
  ultimately show ?thesis using z(2) by blast
qed

text \<open>
  C7, as amended. For every input whose last axis has at least two entries, and
  \<open>\<epsilon> > 0\<close>, the normalized part \<open>(x - mean) / (std + \<epsilon>)\<close> has mean zero along the last
  axis, and its standard deviation along the last axis (with Bessel's correction, as
  \<open>std\<close> computes it) is \<open>\<sigma> / (\<sigma> + \<epsilon>)\<close>, where \<open>\<sigma>\<close> is that of the input: a number in
  \<open>[0, 1)\<close>, close to one only when \<open>\<sigma>\<close> is large against \<open>\<epsilon>\<close>, and zero for a constant
  row. \<open>LayerNorm.forward\<close> returns \<open>\<gamma>\<close> times this normalized part plus \<open>\<beta>\<close>.
\<close>

theorem LayerNorm_normalized_part:
  assumes x: "shape x = bs @ [n]" and n: "2 \<le> n" and eps: "0 < ln_eps m"
  shows "\<exists>y. normalized m x = Inr y \<and> shape y = shape x \<and>
     (\<forall>bi c. valid_index bs bi \<longrightarrow>
        elem (mean_last y) (bi @ [c]) = 0 \<and>
        elem (std_last y) (bi @ [c])
          = elem (std_last x) (bi @ [c]) / (elem (std_last x) (bi @ [c]) + ln_eps m) \<and>
        0 \<le> elem (std_last y) (bi @ [c]) \<and> elem (std_last y) (bi @ [c]) < 1) \<and>
     (shape (ln_gamma m) = [n] \<and> shape (ln_beta m) = [n] \<longrightarrow>
        (\<exists>z. LayerNorm_forward m x = Inr z \<and> shape z = shape x \<and>
           (\<forall>bi j. valid_index bs bi \<and> j < n \<longrightarrow>
              elem z (bi @ [j])
                = elem (ln_gamma m) [j] * elem y (bi @ [j]) + elem (ln_beta m) [j])))"
proof -
  from normalized_moments [OF x n eps] obtain y where
    y: "normalized m x = Inr y" "shape y = shape x"
    and el: "\<forall>bi j. valid_index bs bi \<and> j < n \<longrightarrow>
        elem y (bi @ [j]) = (elem x (bi @ [j]) - elem (mean_last x) (bi @ [0]))
                            / (elem (std_last x) (bi @ [0]) + ln_eps m)"
    and mom: "\<forall>bi c. valid_index bs bi \<longrightarrow>
        elem (mean_last y) (bi @ [c]) = 0 \<and>
        elem (std_last y) (bi @ [c])
          = elem (std_last x) (bi @ [c]) / (elem (std_last x) (bi @ [c]) + ln_eps m) \<and>
        0 \<le> elem (std_last y) (bi @ [c]) \<and> elem (std_last y) (bi @ [c]) < 1"
    by blast
  have fw: "\<exists>z. LayerNorm_forward m x = Inr z \<and> shape z = shape x \<and>
           (\<forall>bi j. valid_index bs bi \<and> j < n \<longrightarrow>
              elem z (bi @ [j])
                = elem (ln_gamma m) [j] * elem y (bi @ [j]) + elem (ln_beta m) [j])"
    if g: "shape (ln_gamma m) = [n]" and b: "shape (ln_beta m) = [n]"
  proof -
    from LayerNorm_forward_elem [OF x g b] obtain z where
      z: "LayerNorm_forward m x = Inr z" "shape z = bs @ [n]"
      and ze: "\<forall>bi j. valid_index bs bi \<and> j < n \<longrightarrow>
        elem z (bi @ [j]) =
          elem (ln_gamma m) [j] * (elem x (bi @ [j]) - elem (mean_last x) (bi @ [0]))
            / (elem (std_last x) (bi @ [0]) + ln_eps m) + elem (ln_beta m) [j]"
      by blast
    have "\<forall>bi j. valid_index bs bi \<and> j < n \<longrightarrow>
              elem z (bi @ [j])
                = elem (ln_gamma m) [j] * elem y (bi @ [j]) + elem (ln_beta m) [j]"
      using ze el by simp
    with z x show ?thesis by simp
  qed
  from y mom fw show ?thesis by blast
qed

lemma example_layernorm_eps: "ln_eps example_layernorm = 1 / 10 ^ 6"
  by (simp add: example_layernorm_def LayerNorm_init_def)

lemma example_normalized:
  "normalized example_layernorm (ones [2]) = Inr example_normalized \<and>
   elem example_normalized [0] = 0 \<and> elem example_normalized [1] = 0 \<and>
   elem (std_last example_normalized) [0] = 0"
proof -
  have s: "shape (ones [2]) = [] @ [2]" by (simp add: ones_def)
  have e: "0 < ln_eps example_layernorm" by (simp add: example_layernorm_eps)
  from normalized_moments [OF s _ e] obtain y where
    y: "normalized example_layernorm (ones [2]) = Inr y"
    and el: "\<forall>bi j. valid_index [] bi \<and> j < 2 \<longrightarrow>
        elem y (bi @ [j]) = (elem (ones [2]) (bi @ [j]) - elem (mean_last (ones [2])) (bi @ [0]))
                            / (elem (std_last (ones [2])) (bi @ [0]) + ln_eps example_layernorm)"
    and mom: "\<forall>bi c. valid_index [] bi \<longrightarrow>
        elem (mean_last y) (bi @ [c]) = 0 \<and>
        elem (std_last y) (bi @ [c])
          = elem (std_last (ones [2])) (bi @ [c])
            / (elem (std_last (ones [2])) (bi @ [c]) + ln_eps example_layernorm) \<and>
        0 \<le> elem (std_last y) (bi @ [c]) \<and> elem (std_last y) (bi @ [c]) < 1"
    by auto
  have v: "valid_index [] []" by (simp add: valid_index_def)
  have m1: "elem (mean_last (ones [2])) [0] = 1"
    using mean_last_elem [OF s, of "[]" 0] by (simp add: ones_def)
  have s1: "elem (std_last (ones [2])) [0] = 0"
    using std_last_elem [OF s, of "[]" 0] by (simp add: ones_def)
  from el [rule_format, of "[]" 0] el [rule_format, of "[]" 1] mom [rule_format, of "[]" 0] v m1 s1
  have "elem y [0] = 0 \<and> elem y [1] = 0 \<and> elem (std_last y) [0] = 0"
    by (simp add: ones_def)
  with y show ?thesis by (simp add: example_normalized_def)
qed

text \<open>The claim as stated gives every input a normalized part of variance one up to
  \<open>\<epsilon>\<close>. For the constant row \<open>[1, 1]\<close> and the default \<open>\<epsilon> = 10\<^sup>-\<^sup>6\<close> the normalized part is
  \<open>[0, 0]\<close>: its standard deviation and variance are 0, at distance 1 from one.\<close>

theorem LayerNorm_constant_row_counterexample:
  "normalized example_layernorm (ones [2]) = Inr example_normalized \<and>
   elem example_normalized [0] = 0 \<and> elem example_normalized [1] = 0 \<and>
   elem (std_last example_normalized) [0] = 0 \<and>
   \<not> \<bar>(elem (std_last example_normalized) [0])\<^sup>2 - 1\<bar> \<le> ln_eps example_layernorm"
  using example_normalized by (simp add: example_layernorm_eps)

lemma example_layernorm_shapes:
  "shape (ln_gamma example_layernorm) = [2] \<and> shape (ln_beta example_layernorm) = [2] \<and>
   elem (ln_gamma example_layernorm) [1] = 1 \<and> elem (ln_beta example_layernorm) [1] = 0"
  by (simp add: example_layernorm_def LayerNorm_init_def)

text \<open>The theorem at the row \<open>[0, 1]\<close> and the default \<open>\<epsilon>\<close>.\<close>

theorem LayerNorm_normalized_part_witness:
  "shape (arange 2) = [] @ [2] \<and> (2::nat) \<le> 2 \<and> 0 < ln_eps example_layernorm \<and>
   valid_index [] [] \<and>
   shape (ln_gamma example_layernorm) = [2] \<and> shape (ln_beta example_layernorm) = [2] \<and>
   (\<exists>y. normalized example_layernorm (arange 2) = Inr y \<and> shape y = shape (arange 2) \<and>
      elem (mean_last y) [0] = 0 \<and>
      elem (std_last y) [0]
        = elem (std_last (arange 2)) [0]
          / (elem (std_last (arange 2)) [0] + ln_eps example_layernorm) \<and>
      0 \<le> elem (std_last y) [0] \<and> elem (std_last y) [0] < 1 \<and>
      (\<exists>z. LayerNorm_forward example_layernorm (arange 2) = Inr z \<and>
           shape z = shape (arange 2) \<and> elem z [1] = elem y [1]))"
proof -
  have s: "shape (arange 2) = [] @ [2]" by (simp add: arange_def)
  have e: "0 < ln_eps example_layernorm" by (simp add: example_layernorm_eps)
  have v: "valid_index [] []" by (simp add: valid_index_def)
  note g = example_layernorm_shapes
  from LayerNorm_normalized_part [OF s _ e] g obtain y z where
    y: "normalized example_layernorm (arange 2) = Inr y" "shape y = shape (arange 2)"
    and mom: "\<forall>bi c. valid_index [] bi \<longrightarrow>
        elem (mean_last y) (bi @ [c]) = 0 \<and>
        elem (std_last y) (bi @ [c])
          = elem (std_last (arange 2)) (bi @ [c])
            / (elem (std_last (arange 2)) (bi @ [c]) + ln_eps example_layernorm) \<and>
        0 \<le> elem (std_last y) (bi @ [c]) \<and> elem (std_last y) (bi @ [c]) < 1"
    and z: "LayerNorm_forward example_layernorm (arange 2) = Inr z" "shape z = shape (arange 2)"
    and ze: "\<forall>bi j. valid_index [] bi \<and> j < 2 \<longrightarrow>
              elem z (bi @ [j]) = elem (ln_gamma example_layernorm) [j] * elem y (bi @ [j])
                                  + elem (ln_beta example_layernorm) [j]"
    by auto
  from ze [rule_format, of "[]" 1] v g have "elem z [1] = elem y [1]" by simp
  with mom [rule_format, of "[]" 0] v y z s e g show ?thesis by auto
qed

section \<open>ResidualBlock (C6)\<close>

lemma add_sub_same_shape:
  assumes "shape d = shape x0"
  shows "\<exists>out. add x0 d = Inr out \<and> shape out = shape x0 \<and>
           (\<exists>diff. sub out x0 = Inr diff \<and> shape diff = shape x0 \<and>
              (\<forall>idx. valid_index (shape x0) idx \<longrightarrow> elem diff idx = elem d idx))"
proof -
  define out where "out = Tensor (shape x0)
     (\<lambda>idx. elem x0 (bindex (shape x0) idx) + elem d (bindex (shape d) idx))"
  have out: "add x0 d = Inr out" "shape out = shape x0"
    using assms by (simp_all add: add_def broadcast_op_Some broadcast_shapes_same out_def)
  define diff where "diff = Tensor (shape x0)
     (\<lambda>idx. elem out (bindex (shape out) idx) - elem x0 (bindex (shape x0) idx))"
  have diff: "sub out x0 = Inr diff" "shape diff = shape x0"
    using out by (simp_all add: sub_def broadcast_op_Some broadcast_shapes_same diff_def)
  have "\<forall>idx. valid_index (shape x0) idx \<longrightarrow> elem diff idx = elem d idx"
    using assms by (simp add: diff_def out_def bindex_valid)
  with out diff show ?thesis by blast
qed

text \<open>
  C6, as amended. An empty argument tuple raises. For every argument tuple
  \<open>(x\<^sub>0, ..., x\<^sub>n)\<close>, \<open>ResidualBlock.forward\<close> is
  \<open>x\<^sub>0 + dropout(LayerNorm(L(x\<^sub>0, ..., x\<^sub>n)))\<close>, the wrapped layer receiving all
  arguments and every error on the way propagating. When the normalized output of the
  wrapped layer has the shape of \<open>x\<^sub>0\<close>, the result has that shape too and the difference
  of the result and \<open>x\<^sub>0\<close> is \<open>dropout(LayerNorm(L(x\<^sub>0, ..., x\<^sub>n)))\<close> at every index.
\<close>

theorem ResidualBlock_forward_residual:
  "ResidualBlock_forward call rb rnd [] = Inl IndexError \<and>
   ResidualBlock_forward call rb rnd (x0 # xs) =
     and_then (call (rb_layer rb) (child 0 rnd) (x0 # xs)) (\<lambda>y.
     and_then (LayerNorm_forward (rb_norm rb) y) (\<lambda>n.
       add x0 (Dropout_forward (rb_dropout rb) (child 1 rnd) n))) \<and>
   (call (rb_layer rb) (child 0 rnd) (x0 # xs) = Inr y \<and>
    LayerNorm_forward (rb_norm rb) y = Inr n \<and> shape n = shape x0 \<longrightarrow>
      (\<exists>out. ResidualBlock_forward call rb rnd (x0 # xs) = Inr out \<and>
         shape out = shape x0 \<and>
         (\<exists>diff. sub out x0 = Inr diff \<and> shape diff = shape x0 \<and>
            (\<forall>idx. valid_index (shape x0) idx \<longrightarrow>
               elem diff idx = elem (Dropout_forward (rb_dropout rb) (child 1 rnd) n) idx))))"
proof -
  have "\<exists>out. ResidualBlock_forward call rb rnd (x0 # xs) = Inr out \<and>
         shape out = shape x0 \<and>
         (\<exists>diff. sub out x0 = Inr diff \<and> shape diff = shape x0 \<and>
            (\<forall>idx. valid_index (shape x0) idx \<longrightarrow>
               elem diff idx = elem (Dropout_forward (rb_dropout rb) (child 1 rnd) n) idx))"
    if "call (rb_layer rb) (child 0 rnd) (x0 # xs) = Inr y"
      "LayerNorm_forward (rb_norm rb) y = Inr n" "shape n = shape x0"
  proof -
    have "shape (Dropout_forward (rb_dropout rb) (child 1 rnd) n) = shape x0"
      using that by simp
    from add_sub_same_shape [OF this] that show ?thesis
      by (simp add: ResidualBlock_forward_def)
  qed
  then show ?thesis by (simp add: ResidualBlock_forward_def)
qed

lemma example_block_fields:
  "rb_layer example_block = \<lparr>in_features = 1, out_features = 2,
      weight = Tensor [2, 1] (zero_params [0]), bias = Tensor [2] (zero_params [1])\<rparr> \<and>
   shape (ln_gamma (rb_norm example_block)) = [2] \<and>
   shape (ln_beta (rb_norm example_block)) = [2]"
  by (simp add: example_block_def ResidualBlock_init_def Dropout_init_def LayerNorm_init_def
      Linear_init_def)

text \<open>The claim as stated gives the output the shape of \<open>x\<^sub>0\<close> for every wrapped layer.
  A block around \<open>nn.Linear(1, 2)\<close> with \<open>d_model = 2\<close>, called on a tensor of shape
  \<open>[1]\<close>, returns a tensor of shape \<open>[2]\<close>: the sum broadcasts.\<close>

theorem ResidualBlock_shape_counterexample:
  "\<not> isl (ResidualBlock_forward Linear_call example_block all_kept [zeros [1]]) \<and>
   shape (projr (ResidualBlock_forward Linear_call example_block all_kept [zeros [1]])) = [2] \<and>
   shape (zeros [1]) = [1] \<and> [2] \<noteq> [1::nat]"
proof -
  obtain y where y: "Linear_call (rb_layer example_block) (child 0 all_kept) [zeros [1]] = Inr y"
    "shape y = [] @ [2]"
    using example_block_fields by (simp add: Linear_call_def Linear_forward_def zeros_def)
  from LayerNorm_forward_shape [OF y(2), of "rb_norm example_block"] example_block_fields
  obtain n where n: "LayerNorm_forward (rb_norm example_block) y = Inr n" "shape n = [2]"
    by auto
  have "broadcast_shapes [Suc 0] [2] = Some [2]" by (simp add: broadcast_shapes_def)
  then have "\<exists>out. add (zeros [1])
      (Dropout_forward (rb_dropout example_block) (child 1 all_kept) n) = Inr out \<and> shape out = [2]"
    using n by (simp add: add_def broadcast_op_def zeros_def)
  then show ?thesis using y n
    by (auto simp: ResidualBlock_forward_def zeros_def)
qed

lemma example_ff_block:
  "FeedForward_call (rb_layer (el_feedforward example_encoder_layer)) (child 0 all_kept)
     [zeros [1, 1, 4]] = Inr example_ff_out \<and>
   LayerNorm_forward (rb_norm (el_feedforward example_encoder_layer)) example_ff_out
     = Inr example_ff_normed \<and>
   shape example_ff_normed = [1, 1, 4]"
proof -
  from EncoderLayer_init_parts [OF example_encoder_layer_init] obtain ff q where
    ff: "FeedForward_init q (arg_d_model example_args) (arg_d_hidden example_args)
           (arg_drop_ratio example_args) = Inr ff"
    and rb: "ResidualBlock_init ff (arg_d_model example_args) (arg_drop_ratio example_args)
           = Inr (el_feedforward example_encoder_layer)"
    by blast
  note f = ResidualBlock_init_fields [OF rb] and g = FeedForward_init_fields [OF ff]
  have d: "nat (arg_d_model example_args) = 4" by (simp add: example_args_def)
  have s: "shape (zeros [1, 1, 4]) = [1, 1] @ [4]" by (simp add: zeros_def)
  from FeedForward_forward_shape [OF s, of ff "child 0 all_kept"] g d
  obtain y where y: "FeedForward_forward ff (child 0 all_kept) (zeros [1, 1, 4]) = Inr y"
    "shape y = [1, 1] @ [4]" by auto
  then have 1: "FeedForward_call (rb_layer (el_feedforward example_encoder_layer))
      (child 0 all_kept) [zeros [1, 1, 4]] = Inr example_ff_out" "shape example_ff_out = [1, 1] @ [4]"
    using f by (simp_all add: FeedForward_call_def example_ff_out_def)
  from LayerNorm_forward_shape [OF 1(2), of "rb_norm (el_feedforward example_encoder_layer)"] f d
  obtain n where "LayerNorm_forward (rb_norm (el_feedforward example_encoder_layer))
      example_ff_out = Inr n" "shape n = [1, 1, 4]" by auto
  with 1 show ?thesis by (simp add: example_ff_normed_def)
qed

text \<open>The theorem at the feed-forward block of the example encoder layer and an input of
  shape \<open>[1, 1, 4]\<close>.\<close>

theorem ResidualBlock_forward_residual_witness:
  "FeedForward_call (rb_layer (el_feedforward example_encoder_layer)) (child 0 all_kept)
     [zeros [1, 1, 4]] = Inr example_ff_out \<and>
   LayerNorm_forward (rb_norm (el_feedforward example_encoder_layer)) example_ff_out
     = Inr example_ff_normed \<and>
   shape example_ff_normed = shape (zeros [1, 1, 4]) \<and>
   valid_index (shape (zeros [1, 1, 4])) [0, 0, 3] \<and>
   ResidualBlock_forward FeedForward_call (el_feedforward example_encoder_layer) all_kept []
     = Inl IndexError \<and>
   (\<exists>out. ResidualBlock_forward FeedForward_call (el_feedforward example_encoder_layer)
            all_kept [zeros [1, 1, 4]] = Inr out \<and>
      shape out = shape (zeros [1, 1, 4]) \<and>
      (\<exists>diff. sub out (zeros [1, 1, 4]) = Inr diff \<and> shape diff = shape (zeros [1, 1, 4]) \<and>
         elem diff [0, 0, 3] =
           elem (Dropout_forward (rb_dropout (el_feedforward example_encoder_layer))
                   (child 1 all_kept) example_ff_normed) [0, 0, 3]))"
proof -
  have s: "shape example_ff_normed = shape (zeros [1, 1, 4])"
    using example_ff_block by (simp add: zeros_def)
  have v: "valid_index (shape (zeros [1, 1, 4])) [0, 0, 3]"
    by (simp add: valid_index_def zeros_def)
  from ResidualBlock_forward_residual [of FeedForward_call "el_feedforward example_encoder_layer"
      all_kept "zeros [1, 1, 4]" "[]" example_ff_out example_ff_normed]
    example_ff_block s v
  show ?thesis by blast
qed

section \<open>Causal attention (C1)\<close>

lemma bindex1: "b < B \<Longrightarrow> bindex [B] [b] = [b]"
  by (auto simp: bindex_def)

lemma transpose_12:
  assumes "shape key = [B, Tk, D]"
  shows "\<exists>kt. transpose_tensor 1 2 key = Inr kt \<and> shape kt = [B, D, Tk] \<and>
           (\<forall>b l j. elem kt [b, l, j] = elem key [b, j, l])"
  using assms by (simp add: transpose_tensor_def dim_def wrap_dim_def)

lemma matmul_3:
  assumes "shape x = [B, m, n]" "shape y = [B, n, p]"
  shows "\<exists>z. matmul x y = Inr z \<and> shape z = [B, m, p] \<and>
           (\<forall>b i j. b < B \<longrightarrow> elem z [b, i, j] = (\<Sum>l<n. elem x [b, i, l] * elem y [b, l, j]))"
  using assms
  by (simp add: matmul_def bmm_def dim_def Let_def broadcast_shapes_same bindex1)

lemma softmax_3:
  assumes "shape x = [B, Tq, Tk]"
  shows "elem (softmax x) [b, i, j]
         = xexp (elem x [b, i, j]) / (\<Sum>j'<Tk. xexp (elem x [b, i, j']))"
  using assms by (simp add: softmax_def)

lemma Dropout_forward_elem:
  "elem (Dropout_forward d r x) idx =
     (if drop_training d \<and> 0 < drop_p d
      then (if drop_p d < 1 \<and> r [] idx then elem x idx / (1 - drop_p d) else 0)
      else elem x idx)"
  by (simp add: Dropout_forward_def)

lemma Dropout_forward_zero: "elem x idx = 0 \<Longrightarrow> elem (Dropout_forward d r x) idx = 0"
  by (simp add: Dropout_forward_elem)

lemma Dropout_forward_cong:
  "elem x idx = elem y idx \<Longrightarrow> elem (Dropout_forward d r x) idx = elem (Dropout_forward d r y) idx"
  by (simp add: Dropout_forward_elem)

text \<open>The attention weights of a causal module, before dropout.\<close>

lemma causal_weights:
  assumes c: "att_causal a"
    and q: "shape query = [B, Tq, D]" and k: "shape key = [B, Tk, D]"
  shows "\<exists>w. (\<forall>val. Attention_forward a rnd query key val
                 = matmul (Dropout_forward (att_dropout a) (child 0 rnd) w) val) \<and>
             shape w = [B, Tq, Tk] \<and>
             (\<forall>b i j. b < B \<longrightarrow> elem w [b, i, j] =
                (if i < j then 0
                 else exp ((\<Sum>l<D. elem query [b, i, l] * elem key [b, j, l]) / att_scale a))
                / (\<Sum>j'<Tk. if i < j' then 0
                     else exp ((\<Sum>l<D. elem query [b, i, l] * elem key [b, j', l]) / att_scale a)))"
proof -
  from transpose_12 [OF k] obtain kt where
    kt: "transpose_tensor 1 2 key = Inr kt" "shape kt = [B, D, Tk]"
    "\<And>b l j. elem kt [b, l, j] = elem key [b, j, l]" by blast
  from matmul_3 [OF q kt(2)] obtain dp where
    dp: "matmul query kt = Inr dp" "shape dp = [B, Tq, Tk]"
    "\<And>b i j. b < B \<Longrightarrow> elem dp [b, i, j] = (\<Sum>l<D. elem query [b, i, l] * elem kt [b, l, j])"
    by blast
  define s where "s = map_tensor (\<lambda>v. xdiv v (att_scale a)) (causal_mask 2 1 dp)"
  define w where "w = softmax s"
  have ss: "shape s = [B, Tq, Tk]" by (simp add: s_def map_tensor_def causal_mask_def dp)
  have se: "xexp (elem s [b, i, j]) =
        (if i < j then 0
         else exp ((\<Sum>l<D. elem query [b, i, l] * elem key [b, j, l]) / att_scale a))"
    if "b < B" for b i j
    using dp(3) [OF that] by (simp add: s_def map_tensor_def causal_mask_def xdiv_def xexp_def kt(3))
  have "elem w [b, i, j] =
                (if i < j then 0
                 else exp ((\<Sum>l<D. elem query [b, i, l] * elem key [b, j, l]) / att_scale a))
                / (\<Sum>j'<Tk. if i < j' then 0
                     else exp ((\<Sum>l<D. elem query [b, i, l] * elem key [b, j', l]) / att_scale a))"
    if "b < B" for b i j
    unfolding w_def softmax_3 [OF ss] using that by (simp add: se)
  moreover have "shape w = [B, Tq, Tk]" by (simp add: w_def softmax_def ss)
  moreover have "Attention_forward a rnd query key val
                 = matmul (Dropout_forward (att_dropout a) (child 0 rnd) w) val" for val
    using c q by (simp add: Attention_forward_def kt dp dim_def w_def s_def)
  ultimately show ?thesis by blast
qed

lemma causal_attention_rows:
  assumes c: "att_causal a"
    and q: "shape query = [B, Tq, D]" and k: "shape key = [B, Tk, D]"
    and v: "shape val = [B, Tk, Dv]"
    and k': "shape key' = [B, Tk, D]" and v': "shape val' = [B, Tk, Dv]"
    and ak: "\<forall>b j l. b < B \<and> j \<le> i \<and> j < Tk \<and> l < D \<longrightarrow> elem key' [b, j, l] = elem key [b, j, l]"
    and av: "\<forall>b j c. b < B \<and> j \<le> i \<and> j < Tk \<and> c < Dv \<longrightarrow> elem val' [b, j, c] = elem val [b, j, c]"
  shows "\<exists>out out'. Attention_forward a rnd query key val = Inr out \<and>
           Attention_forward a rnd query key' val' = Inr out' \<and>
           shape out = [B, Tq, Dv] \<and> shape out' = [B, Tq, Dv] \<and>
           (\<forall>b c. b < B \<and> c < Dv \<longrightarrow> elem out [b, i, c] = elem out' [b, i, c])"
proof -
  let ?e = "\<lambda>key b j. if i < j then 0
              else exp ((\<Sum>l<D. elem query [b, i, l] * elem key [b, j, l]) / att_scale a)"
  from causal_weights [OF c q k, of rnd] obtain w where
    fw: "\<And>val. Attention_forward a rnd query key val
                 = matmul (Dropout_forward (att_dropout a) (child 0 rnd) w) val"
    and sw: "shape w = [B, Tq, Tk]"
    and ew: "\<And>b j. b < B \<Longrightarrow> elem w [b, i, j] = ?e key b j / (\<Sum>j'<Tk. ?e key b j')"
    by blast
  from causal_weights [OF c q k', of rnd] obtain w' where
    fw': "\<And>val. Attention_forward a rnd query key' val
                 = matmul (Dropout_forward (att_dropout a) (child 0 rnd) w') val"
    and sw': "shape w' = [B, Tq, Tk]"
    and ew': "\<And>b j. b < B \<Longrightarrow> elem w' [b, i, j] = ?e key' b j / (\<Sum>j'<Tk. ?e key' b j')"
    by blast
  have e_eq: "?e key' b j = ?e key b j" if "b < B" "j < Tk" for b j
  proof (cases "i < j")
    case True
    then show ?thesis by simp
  next
    case False
    have "(\<Sum>l<D. elem query [b, i, l] * elem key' [b, j, l])
        = (\<Sum>l<D. elem query [b, i, l] * elem key [b, j, l])"
      using ak that False by (intro sum.cong) simp_all
    then show ?thesis by simp
  qed
  have z_eq: "(\<Sum>j'<Tk. ?e key' b j') = (\<Sum>j'<Tk. ?e key b j')" if "b < B" for b
    by (rule sum.cong) (simp_all only: e_eq [OF that] lessThan_iff)
  have w_eq: "elem w' [b, i, j] = elem w [b, i, j]" if "b < B" "j < Tk" for b j
    using ew [OF that(1), of j] ew' [OF that(1), of j] e_eq [OF that] z_eq [OF that(1)] by simp
  have w_zero: "elem w [b, i, j] = 0" if "b < B" "i < j" for b j
    using ew [OF that(1), of j] that(2) by simp
  let ?dw = "Dropout_forward (att_dropout a) (child 0 rnd) w"
  let ?dw' = "Dropout_forward (att_dropout a) (child 0 rnd) w'"
  have sd: "shape ?dw = [B, Tq, Tk]" "shape ?dw' = [B, Tq, Tk]"
    using sw sw' by (simp_all add: Dropout_forward_def)
  from matmul_3 [OF sd(1) v] obtain out where
    out: "matmul ?dw val = Inr out" "shape out = [B, Tq, Dv]"
    "\<And>b c. b < B \<Longrightarrow> elem out [b, i, c] = (\<Sum>j<Tk. elem ?dw [b, i, j] * elem val [b, j, c])"
    by blast
  from matmul_3 [OF sd(2) v'] obtain out' where
    out': "matmul ?dw' val' = Inr out'" "shape out' = [B, Tq, Dv]"
    "\<And>b c. b < B \<Longrightarrow> elem out' [b, i, c] = (\<Sum>j<Tk. elem ?dw' [b, i, j] * elem val' [b, j, c])"
    by blast
  have "elem out [b, i, c] = elem out' [b, i, c]" if "b < B" "c < Dv" for b c
  proof -
    have "(\<Sum>j<Tk. elem ?dw [b, i, j] * elem val [b, j, c])
        = (\<Sum>j<Tk. elem ?dw' [b, i, j] * elem val' [b, j, c])"
    proof (rule sum.cong)
      fix j assume "j \<in> {..<Tk}"
      then have j: "j < Tk" by simp
      have d: "elem ?dw' [b, i, j] = elem ?dw [b, i, j]"
        by (rule Dropout_forward_cong) (rule w_eq [OF that(1) j])
      show "elem ?dw [b, i, j] * elem val [b, j, c] = elem ?dw' [b, i, j] * elem val' [b, j, c]"
      proof (cases "i < j")
        case True
        from w_zero [OF that(1) True] have "elem ?dw [b, i, j] = 0"
          by (rule Dropout_forward_zero)
        with d show ?thesis by simp
      next
        case False
        with av that j have "elem val' [b, j, c] = elem val [b, j, c]" by simp
        with d show ?thesis by simp
      qed
    qed simp
    with out(3) [OF that(1)] out'(3) [OF that(1)] show ?thesis by simp
  qed
  with out out' fw fw' show ?thesis by auto
qed

text \<open>
  C1. Take an \<open>Attention\<close> module constructed with \<open>causal=True\<close> (and \<open>d_key > 0\<close>, so
  that the scale is not zero), a rank-3 query, and two pairs of rank-3 key and value of
  the same shapes that agree at the sequence positions \<open>j \<le> i\<close>. Both calls return, and
  row \<open>i\<close> of the two outputs is the same, whatever the keys and values hold at the
  positions after \<open>i\<close>. The two runs draw the same dropout mask: the mask is an input of
  the model, not a function of the keys and values.
\<close>

theorem causal_attention_invariance:
  assumes init: "Attention_init d_key drop_ratio True = Inr a" and pos: "0 < d_key"
    and q: "shape query = [B, Tq, D]" and k: "shape key = [B, Tk, D]"
    and v: "shape val = [B, Tk, Dv]"
    and k': "shape key' = [B, Tk, D]" and v': "shape val' = [B, Tk, Dv]"
    and ak: "\<forall>b j l. b < B \<and> j \<le> i \<and> j < Tk \<and> l < D \<longrightarrow> elem key' [b, j, l] = elem key [b, j, l]"
    and av: "\<forall>b j c. b < B \<and> j \<le> i \<and> j < Tk \<and> c < Dv \<longrightarrow> elem val' [b, j, c] = elem val [b, j, c]"
  shows "\<exists>out out'. Attention_forward a rnd query key val = Inr out \<and>
           Attention_forward a rnd query key' val' = Inr out' \<and>
           shape out = [B, Tq, Dv] \<and> shape out' = [B, Tq, Dv] \<and>
           (\<forall>b c. b < B \<and> c < Dv \<longrightarrow> elem out [b, i, c] = elem out' [b, i, c])"
proof -
  from init have "att_causal a"
    by (auto simp: Attention_init_def and_then_eq_Inr split: if_splits)
  from causal_attention_rows [OF this q k v k' v' ak av] show ?thesis .
qed

text \<open>The theorem at \<open>i = 0\<close>, with keys and values that differ at position 1.\<close>

theorem causal_attention_invariance_witness:
  "Attention_init 2 0 True = Inr example_causal_attention \<and> (0::real) < 2 \<and>
   shape (zeros [1, 2, 2]) = [1, 2, 2] \<and> shape (later_ones [1, 2, 2]) = [1, 2, 2] \<and>
   elem (later_ones [1, 2, 2]) [0, 0, 0] = elem (zeros [1, 2, 2]) [0, 0, 0] \<and>
   elem (later_ones [1, 2, 2]) [0, 0, 1] = elem (zeros [1, 2, 2]) [0, 0, 1] \<and>
   elem (later_ones [1, 2, 2]) [0, 1, 0] \<noteq> elem (zeros [1, 2, 2]) [0, 1, 0] \<and>
   (\<exists>out out'.
      Attention_forward example_causal_attention all_kept (zeros [1, 2, 2]) (zeros [1, 2, 2])
        (zeros [1, 2, 2]) = Inr out \<and>
      Attention_forward example_causal_attention all_kept (zeros [1, 2, 2])
        (later_ones [1, 2, 2]) (later_ones [1, 2, 2]) = Inr out' \<and>
      shape out = [1, 2, 2] \<and> shape out' = [1, 2, 2] \<and>
      elem out [0, 0, 0] = elem out' [0, 0, 0] \<and> elem out [0, 0, 1] = elem out' [0, 0, 1])"
proof -
  have init: "Attention_init 2 0 True = Inr example_causal_attention"
    by (simp add: Attention_init_def Dropout_init_def example_causal_attention_def)
  have z: "shape (zeros [1, 2, 2]) = [1, 2, 2]" and l: "shape (later_ones [1, 2, 2]) = [1, 2, 2]"
    by (simp_all add: zeros_def later_ones_def)
  have a: "\<forall>b j c. b < 1 \<and> j \<le> 0 \<and> j < 2 \<and> c < 2 \<longrightarrow>
             elem (later_ones [1, 2, 2]) [b, j, c] = elem (zeros [1, 2, 2]) [b, j, c]"
    by (simp add: zeros_def later_ones_def)
  from causal_attention_invariance [OF init _ z z z l l a a, of all_kept]
  obtain out out' where
    "Attention_forward example_causal_attention all_kept (zeros [1, 2, 2]) (zeros [1, 2, 2])
        (zeros [1, 2, 2]) = Inr out"
    "Attention_forward example_causal_attention all_kept (zeros [1, 2, 2])
        (later_ones [1, 2, 2]) (later_ones [1, 2, 2]) = Inr out'"
    "shape out = [1, 2, 2]" "shape out' = [1, 2, 2]"
    and e: "\<forall>b c. b < 1 \<and> c < 2 \<longrightarrow> elem out [b, 0, c] = elem out' [b, 0, c]"
    by auto
  moreover from e [rule_format, of 0 0] e [rule_format, of 0 1]
  have "elem out [0, 0, 0] = elem out' [0, 0, 0] \<and> elem out [0, 0, 1] = elem out' [0, 0, 1]"
    by simp
  ultimately show ?thesis using init z l
    by (auto simp: zeros_def later_ones_def)
qed

section \<open>The attention scale inside MultiHead (C10)\<close>

lemma Attention_forward_scaled:
  assumes q: "shape query = [B, Tq, D]" and k: "shape key = [B, Tk, D]"
  shows "\<exists>dp. shape dp = [B, Tq, Tk] \<and>
           (\<forall>b i j. b < B \<longrightarrow>
              elem dp [b, i, j] = (\<Sum>l<D. elem query [b, i, l] * elem key [b, j, l])) \<and>
           (\<forall>val. Attention_forward a rnd query key val =
              matmul (Dropout_forward (att_dropout a) (child 0 rnd)
                        (softmax (map_tensor (\<lambda>x. xdiv x (att_scale a))
                           (if att_causal a then causal_mask 2 1 dp else map_tensor Fin dp))))
                     val)"
proof -
  from transpose_12 [OF k] obtain kt where
    kt: "transpose_tensor 1 2 key = Inr kt" "shape kt = [B, D, Tk]"
    "\<And>b l j. elem kt [b, l, j] = elem key [b, j, l]" by blast
  from matmul_3 [OF q kt(2)] obtain dp where
    dp: "matmul query kt = Inr dp" "shape dp = [B, Tq, Tk]"
    "\<And>b i j. b < B \<Longrightarrow> elem dp [b, i, j] = (\<Sum>l<D. elem query [b, i, l] * elem kt [b, l, j])"
    by blast
  have "elem dp [b, i, j] = (\<Sum>l<D. elem query [b, i, l] * elem key [b, j, l])" if "b < B" for b i j
    using dp(3) [OF that] by (simp add: kt(3))
  moreover have "Attention_forward a rnd query key val =
              matmul (Dropout_forward (att_dropout a) (child 0 rnd)
                        (softmax (map_tensor (\<lambda>x. xdiv x (att_scale a))
                           (if att_causal a then causal_mask 2 1 dp else map_tensor Fin dp))))
                     val" for val
    using q by (simp add: Attention_forward_def kt dp dim_def)
  ultimately show ?thesis using dp(2) by blast
qed











section \<open>Encoder.forward and Decoder.forward (C2)\<close>

text \<open>The theorem of this section holds for every encoder and decoder built by the
  constructors. The lemmas before it evaluate the model of two layers built from
  \<open>example_weights\<close>, at which the theorem is then instantiated: in that model every
  block of the encoder adds the same pair to its input, so that the two encodings differ
  by a known amount.\<close>

lemma two_layer_field_out: "fld_out two_layer_field =
   \<lparr>in_features = 2, out_features = 2, weight = Tensor [2, 2] (example_weights [0]),
    bias = Tensor [2] (example_weights [1])\<rparr>"
  by (simp add: two_layer_field_def Linear_init_def)

lemma upt_2: "[0..<2] = [0, Suc 0]"
  by (simp add: upt_rec numeral_2_eq_2)

lemma two_layer_encoder_init:
  "Encoder_init example_weights two_layer_field two_layer_args = Inr two_layer_encoder"
proof -
  have "\<not> isl (Encoder_init example_weights two_layer_field two_layer_args)"
    by (simp add: two_layer_args_def Encoder_init_def EncoderLayer_init_def upt_2
      Attention_init_def Dropout_init_def MultiHead_init_def Linear_init_def
      ResidualBlock_init_def LayerNorm_init_def FeedForward_init_def)
  then show ?thesis by (simp add: two_layer_encoder_def)
qed

lemma two_layer_decoder_init:
  "Decoder_init example_weights two_layer_field two_layer_args = Inr two_layer_decoder"
proof -
  have "\<not> isl (Decoder_init example_weights two_layer_field two_layer_args)"
    by (simp add: two_layer_args_def Decoder_init_def DecoderLayer_init_def upt_2
      Attention_init_def Dropout_init_def MultiHead_init_def Linear_init_def
      ResidualBlock_init_def LayerNorm_init_def FeedForward_init_def)
  then show ?thesis by (simp add: two_layer_decoder_def)
qed

lemma example_tokens_in_vocabulary:
  "shape example_tokens = [1, 1] \<and>
   (\<forall>idx\<in>set (indices (shape example_tokens)).
      0 \<le> elem example_tokens idx \<and> elem example_tokens idx < int 2)"
  by (simp add: example_tokens_def)

lemma two_layer_encoding:
  "Encoder_forward two_layer_encoder (child 0 all_kept) example_tokens = Inr two_layer_encoding \<and>
   length two_layer_encoding = 2 \<and> (\<forall>e\<in>set two_layer_encoding. shape e = [1, 1, 2])"
proof -
  from Encoder_forward_returns [OF two_layer_encoder_init, of 2 example_tokens 1 1 "child 0 all_kept"]
    example_tokens_in_vocabulary
  obtain encoding where
    "Encoder_forward two_layer_encoder (child 0 all_kept) example_tokens = Inr encoding"
    "length encoding = 2" "\<forall>e\<in>set encoding. shape e = [1, 1, 2]"
    by (auto simp: two_layer_field_out two_layer_args_def)
  then show ?thesis by (simp add: two_layer_encoding_def)
qed

lemma build_layers_nth:
  "build_layers mk ns = Inr ls \<Longrightarrow> i < length ns \<Longrightarrow> mk (ns ! i) = Inr (ls ! i)"
proof (induction ns arbitrary: ls i)
  case Nil
  then show ?case by simp
next
  case (Cons n rest)
  from Cons.prems(1) obtain l ls' where
    l: "mk n = Inr l" "build_layers mk rest = Inr ls'" "ls = l # ls'"
    by (auto simp: and_then_eq_Inr)
  show ?case
  proof (cases i)
    case 0
    with l show ?thesis by simp
  next
    case (Suc j)
    with Cons.prems(2) have "j < length rest" by simp
    from Cons.IH [OF l(2) this] Suc l(3) show ?thesis by simp
  qed
qed

lemma Encoder_init_nth:
  assumes "Encoder_init init field a = Inr enc" "i < nat (arg_n_layers a)"
  shows "EncoderLayer_init (child i (child 1 init)) a = Inr (enc_layers enc ! i)"
proof -
  from assms(1) obtain ls where
    ls: "build_layers (\<lambda>i. EncoderLayer_init (child i (child 1 init)) a) [0..<nat (arg_n_layers a)]
          = Inr ls" "enc_layers enc = ls"
    by (auto simp: Encoder_init_def and_then_eq_Inr)
  from build_layers_nth [OF ls(1), of i] assms(2) ls(2) show ?thesis by simp
qed

lemma Decoder_init_nth:
  assumes "Decoder_init init field a = Inr dec" "i < nat (arg_n_layers a)"
  shows "DecoderLayer_init (child i (child 1 init)) a = Inr (dec_layers dec ! i)"
proof -
  from assms(1) obtain ls where
    ls: "build_layers (\<lambda>i. DecoderLayer_init (child i (child 1 init)) a) [0..<nat (arg_n_layers a)]
          = Inr ls" "dec_layers dec = ls"
    by (auto simp: Decoder_init_def and_then_eq_Inr)
  from build_layers_nth [OF ls(1), of i] assms(2) ls(2) show ?thesis by simp
qed

lemma Linear_forward_gap:
  assumes x: "shape x = bs @ [in_features l]"
    and w: "\<forall>i<in_features l. elem (weight l) [0, i] = elem (weight l) [1, i]"
  shows "\<exists>y. Linear_forward l x = Inr y \<and> shape y = bs @ [out_features l] \<and>
           (\<forall>bi. elem y (bi @ [0]) - elem y (bi @ [1]) = elem (bias l) [0] - elem (bias l) [1])"
proof -
  have "(\<Sum>i<in_features l. elem x (bi @ [i]) * elem (weight l) [0, i])
      = (\<Sum>i<in_features l. elem x (bi @ [i]) * elem (weight l) [1, i])" for bi
    using w by (intro sum.cong) simp_all
  then show ?thesis using x by (simp add: Linear_forward_def)
qed

lemma MultiHead_forward_last:
  assumes n: "0 < mh_n_heads mh"
    and dk: "mh_n_heads mh dvd int dk" and dv: "mh_n_heads mh dvd int dv"
    and wq: "in_features (mh_wq mh) = dk" "out_features (mh_wq mh) = dk"
    and wk: "in_features (mh_wk mh) = dk" "out_features (mh_wk mh) = dk"
    and wv: "in_features (mh_wv mh) = dv" "out_features (mh_wv mh) = dv"
    and q: "shape query = [B, Tq, dk]" and k: "shape key = [B, Tk, dk]"
    and v: "shape val = [B, Tk, dv]"
  shows "\<exists>heads. shape heads = [B, Tq, dv] \<and>
           MultiHead_forward mh rnd query key val = Linear_forward (mh_wo mh) heads"
proof -
  let ?n = "mh_n_heads mh"
  from Linear_forward_shape [of query "[B, Tq]" "mh_wq mh"] q wq
  obtain q1 where q1: "Linear_forward (mh_wq mh) query = Inr q1" "shape q1 = [B, Tq, dk]" by auto
  from Linear_forward_shape [of key "[B, Tk]" "mh_wk mh"] k wk
  obtain k1 where k1: "Linear_forward (mh_wk mh) key = Inr k1" "shape k1 = [B, Tk, dk]" by auto
  from Linear_forward_shape [of val "[B, Tk]" "mh_wv mh"] v wv
  obtain v1 where v1: "Linear_forward (mh_wv mh) val = Inr v1" "shape v1 = [B, Tk, dv]" by auto
  from fold_heads_shape [OF q1(2) n dk]
  obtain q2 where q2: "fold_heads ?n q1 = Inr q2" "shape q2 = [B * nat ?n, Tq, dk div nat ?n]" by auto
  from fold_heads_shape [OF k1(2) n dk]
  obtain k2 where k2: "fold_heads ?n k1 = Inr k2" "shape k2 = [B * nat ?n, Tk, dk div nat ?n]" by auto
  from fold_heads_shape [OF v1(2) n dv]
  obtain v2 where v2: "fold_heads ?n v1 = Inr v2" "shape v2 = [B * nat ?n, Tk, dv div nat ?n]" by auto
  from Attention_forward_shape [OF q2(2) k2(2) v2(2)]
  obtain o1 where o1: "Attention_forward (mh_attention mh) (child 0 rnd) q2 k2 v2 = Inr o1"
    "shape o1 = [B * nat ?n, Tq, dv div nat ?n]" by blast
  from n have "?n dvd int (B * nat ?n)" by simp
  from unfold_heads_shape [OF o1(2) n this]
  obtain o2 where o2: "and_then (split_dim 0 ?n o1) (combine_dims (-1) 1) = Inr o2"
    "shape o2 = [B * nat ?n div nat ?n, Tq, dv div nat ?n * nat ?n]" by blast
  from n dv have "dv div nat ?n * nat ?n = dv"
    by (metis dvd_div_mult_self int_dvd_int_iff int_nat_eq less_le_not_le nle_le)
  with o2(2) n have o2s: "shape o2 = [B, Tq, dv]" by simp
  from o2(1) obtain o15 where o15: "split_dim 0 ?n o1 = Inr o15" "combine_dims (-1) 1 o15 = Inr o2"
    by (auto simp: and_then_eq_Inr)
  have "MultiHead_forward mh rnd query key val = Linear_forward (mh_wo mh) o2"
    by (simp add: MultiHead_forward_def q1 k1 v1 q2 k2 v2 o1 o15)
  with o2s show ?thesis by blast
qed

lemma FeedForward_forward_last:
  assumes "shape x = bs @ [in_features (ff_linear1 ff)]"
  shows "\<exists>h. shape h = bs @ [out_features (ff_linear1 ff)] \<and>
           FeedForward_forward ff rnd x = Linear_forward (ff_linear2 ff) h"
proof -
  from Linear_forward_shape [OF assms] obtain h where
    h: "Linear_forward (ff_linear1 ff) x = Inr h" "shape h = bs @ [out_features (ff_linear1 ff)]"
    by blast
  have "shape (Dropout_forward (ff_dropout ff) (child 2 rnd) (relu h))
          = bs @ [out_features (ff_linear1 ff)]"
    using h by (simp add: relu_def map_tensor_def)
  with h show ?thesis
    by (intro exI [of _ "Dropout_forward (ff_dropout ff) (child 2 rnd) (relu h)"])
      (simp add: FeedForward_forward_def)
qed

lemma valid_001: "j < 2 \<Longrightarrow> valid_index [1, 1, 2] [0, 0, j]" "valid_index [1, 1] [0, 0]"
  by (simp_all add: valid_index_def)

lemma LayerNorm_forward_pair:
  assumes y: "shape y = [1, 1, 2]" and m: "LayerNorm_init 2 None = Inr m"
  shows "\<exists>z. LayerNorm_forward m y = Inr z \<and> shape z = [1, 1, 2] \<and>
           elem z [0, 0, 0] = pair_norm (elem y [0, 0, 0] - elem y [0, 0, 1]) \<and>
           elem z [0, 0, 1] = - pair_norm (elem y [0, 0, 0] - elem y [0, 0, 1])"
proof -
  from m have f: "ln_gamma m = Tensor [2] (\<lambda>_. 1)" "ln_beta m = Tensor [2] (\<lambda>_. 0)"
    "ln_eps m = 1 / 10 ^ 6"
    by (auto simp: LayerNorm_init_def)
  have y': "shape y = [1, 1] @ [2]" using y by simp
  have g: "shape (ln_gamma m) = [2]" "shape (ln_beta m) = [2]" by (simp_all add: f)
  from LayerNorm_forward_elem [OF y' g] obtain z where
    z: "LayerNorm_forward m y = Inr z" "shape z = [1, 1] @ [2]"
    and every: "\<forall>bi j. valid_index [1, 1] bi \<and> j < 2 \<longrightarrow>
        elem z (bi @ [j]) =
          elem (ln_gamma m) [j] * (elem y (bi @ [j]) - elem (mean_last y) (bi @ [0]))
            / (elem (std_last y) (bi @ [0]) + ln_eps m) + elem (ln_beta m) [j]"
    by blast
  have e: "elem z ([0, 0] @ [j]) =
          elem (ln_gamma m) [j] * (elem y ([0, 0] @ [j]) - elem (mean_last y) ([0, 0] @ [0]))
            / (elem (std_last y) ([0, 0] @ [0]) + ln_eps m) + elem (ln_beta m) [j]"
    if "j < 2" for j
    using every [rule_format, of "[0, 0]" j] valid_001(2) that by blast
  define a where "a = elem y [0, 0, 0]"
  define b where "b = elem y [0, 0, 1]"
  have ya: "elem y ([0, 0] @ [0]) = a" and yb: "elem y ([0, 0] @ [1]) = b"
    by (simp_all add: a_def b_def)
  have two: "(\<Sum>j<2. f j) = f 0 + f 1" for f :: "nat \<Rightarrow> real"
    by (simp add: numeral_2_eq_2)
  have mean: "elem (mean_last y) ([0, 0] @ [0]) = (a + b) / 2"
    unfolding mean_last_elem [OF y'] two ya yb by simp
  have sq: "((a - (a + b) / 2)\<^sup>2 + (b - (a + b) / 2)\<^sup>2) / (2 - 1) = (a - b)\<^sup>2 / 2"
    by (simp add: power2_eq_square field_simps)
  have "elem (std_last y) ([0, 0] @ [0])
      = sqrt (((a - (a + b) / 2)\<^sup>2 + (b - (a + b) / 2)\<^sup>2) / (2 - 1))"
    unfolding std_last_elem [OF y'] two ya yb by simp
  then have std: "elem (std_last y) ([0, 0] @ [0]) = sqrt ((a - b)\<^sup>2 / 2)"
    by (simp only: sq)
  have d0: "a - (a + b) / 2 = (a - b) / 2" and d1: "b - (a + b) / 2 = - ((a - b) / 2)"
    by (simp_all add: field_simps)
  have lt: "(0::nat) < 2" "(1::nat) < 2" by simp_all
  have "elem z ([0, 0] @ [0]) = ((a - b) / 2) / (sqrt ((a - b)\<^sup>2 / 2) + 1 / 10 ^ 6)"
    unfolding e [OF lt(1)] ya mean std f d0 by simp
  then have "elem z [0, 0, 0] = pair_norm (a - b)"
    by (simp only: pair_norm_def append_Cons append_Nil)
  moreover have "elem z ([0, 0] @ [1])
      = - (((a - b) / 2) / (sqrt ((a - b)\<^sup>2 / 2) + 1 / 10 ^ 6))"
    unfolding e [OF lt(2)] yb mean std f d1 by simp
  then have "elem z [0, 0, 1] = - pair_norm (a - b)"
    by (simp only: pair_norm_def append_Cons append_Nil)
  ultimately show ?thesis using z unfolding a_def b_def by auto
qed

lemma ResidualBlock_forward_pair:
  assumes call: "call (rb_layer rb) (child 0 rnd) (x0 # xs) = Inr y"
    and y: "shape y = [1, 1, 2]" and x0: "shape x0 = [1, 1, 2]"
    and rb: "ResidualBlock_init layer 2 0 = Inr rb"
  shows "\<exists>out. ResidualBlock_forward call rb rnd (x0 # xs) = Inr out \<and> shape out = [1, 1, 2] \<and>
     elem out [0, 0, 0] = elem x0 [0, 0, 0] + pair_norm (elem y [0, 0, 0] - elem y [0, 0, 1]) \<and>
     elem out [0, 0, 1] = elem x0 [0, 0, 1] - pair_norm (elem y [0, 0, 0] - elem y [0, 0, 1])"
proof -
  from rb obtain m where m: "LayerNorm_init 2 None = Inr m" "rb_norm rb = m"
    and d: "rb_dropout rb = \<lparr>drop_p = 0, drop_training = True\<rparr>"
    by (auto simp: ResidualBlock_init_def Dropout_init_def and_then_eq_Inr)
  from LayerNorm_forward_pair [OF y m(1)] obtain z where
    z: "LayerNorm_forward m y = Inr z" "shape z = [1, 1, 2]"
    "elem z [0, 0, 0] = pair_norm (elem y [0, 0, 0] - elem y [0, 0, 1])"
    "elem z [0, 0, 1] = - pair_norm (elem y [0, 0, 0] - elem y [0, 0, 1])" by blast
  have dz: "Dropout_forward (rb_dropout rb) r z = z" for r
    by (simp add: Dropout_forward_def d)
  define out where "out = Tensor [1, 1, 2]
     (\<lambda>idx. elem x0 (bindex (shape x0) idx) + elem z (bindex (shape z) idx))"
  have out: "add x0 z = Inr out"
    using x0 z(2) by (simp add: add_def broadcast_op_Some broadcast_shapes_same out_def)
  have so: "shape out = [1, 1, 2]" by (simp add: out_def)
  have "elem out [0, 0, j] = elem x0 [0, 0, j] + elem z [0, 0, j]" if "j < 2" for j
    using bindex_valid [OF valid_001(1) [OF that]] by (simp add: out_def x0 z(2))
  from this [of 0] this [of 1] z(3,4)
  have "elem out [0, 0, 0] = elem x0 [0, 0, 0] + pair_norm (elem y [0, 0, 0] - elem y [0, 0, 1])"
    "elem out [0, 0, 1] = elem x0 [0, 0, 1] - pair_norm (elem y [0, 0, 0] - elem y [0, 0, 1])"
    by simp_all
  moreover have "ResidualBlock_forward call rb rnd (x0 # xs) = Inr out"
    by (simp add: ResidualBlock_forward_def call m(2) z(1) dz out)
  ultimately show ?thesis using so by blast
qed

lemma MultiHead_init_projections:
  assumes "MultiHead_init p att dk dv n = Inr mh"
  shows "weight (mh_wv mh) = Tensor [nat dv, nat dv] (p [3, 0]) \<and>
         bias (mh_wv mh) = Tensor [nat dv] (p [3, 1]) \<and>
         weight (mh_wo mh) = Tensor [nat dk, nat dv] (p [4, 0]) \<and>
         bias (mh_wo mh) = Tensor [nat dk] (p [4, 1])"
  using assms
  by (auto simp: MultiHead_init_def Linear_init_def and_then_eq_Inr child_def split: if_splits)

lemma FeedForward_init_last:
  assumes "FeedForward_init p d h r = Inr ff"
  shows "weight (ff_linear2 ff) = Tensor [nat d, nat h] (p [1, 0]) \<and>
         bias (ff_linear2 ff) = Tensor [nat d] (p [1, 1])"
  using assms
  by (auto simp: FeedForward_init_def Linear_init_def and_then_eq_Inr child_def split: if_splits)

lemma EncoderLayer_init_modules:
  assumes "EncoderLayer_init init a = Inr l"
  shows "\<exists>att mh ff.
     MultiHead_init (child 0 (child 0 init)) att (arg_d_model a) (arg_d_model a) (arg_n_heads a)
       = Inr mh \<and>
     ResidualBlock_init mh (arg_d_model a) (arg_drop_ratio a) = Inr (el_selfattn l) \<and>
     FeedForward_init (child 0 (child 1 init)) (arg_d_model a) (arg_d_hidden a) (arg_drop_ratio a)
       = Inr ff \<and>
     ResidualBlock_init ff (arg_d_model a) (arg_drop_ratio a) = Inr (el_feedforward l)"
  using assms by (auto simp: EncoderLayer_init_def and_then_eq_Inr) blast

lemma DecoderLayer_init_modules:
  assumes "DecoderLayer_init init a = Inr l"
  shows "\<exists>att mh att2 mh2 ff.
     MultiHead_init (child 0 (child 0 init)) att (arg_d_model a) (arg_d_model a) (arg_n_heads a)
       = Inr mh \<and>
     ResidualBlock_init mh (arg_d_model a) (arg_drop_ratio a) = Inr (dl_selfattn l) \<and>
     MultiHead_init (child 0 (child 1 init)) att2 (arg_d_model a) (arg_d_model a) (arg_n_heads a)
       = Inr mh2 \<and>
     ResidualBlock_init mh2 (arg_d_model a) (arg_drop_ratio a) = Inr (dl_attention l) \<and>
     FeedForward_init (child 0 (child 2 init)) (arg_d_model a) (arg_d_hidden a) (arg_drop_ratio a)
       = Inr ff \<and>
     ResidualBlock_init ff (arg_d_model a) (arg_drop_ratio a) = Inr (dl_feedforward l)"
  using assms by (auto simp: DecoderLayer_init_def and_then_eq_Inr) blast

text \<open>A block whose last projection has equal rows and the bias \<open>[2, 1]\<close> adds the same
  pair to every input.\<close>

lemma attention_block_shift:
  assumes mh: "MultiHead_init p att 2 2 2 = Inr mh"
    and rb: "ResidualBlock_init mh 2 0 = Inr rb"
    and rows: "\<forall>c. p [4, 0] [0, c] = p [4, 0] [1, c]"
    and gap: "p [4, 1] [0] - p [4, 1] [1] = 1"
    and x: "shape x = [1, 1, 2]" and k: "shape k = [1, Tk, 2]"
  shows "\<exists>y. ResidualBlock_forward MultiHead_call rb rnd [x, k, k] = Inr y \<and>
             shape y = [1, 1, 2] \<and>
             elem y [0, 0, 0] = elem x [0, 0, 0] + pair_norm 1 \<and>
             elem y [0, 0, 1] = elem x [0, 0, 1] - pair_norm 1"
proof -
  note f = MultiHead_init_fields [OF mh] and g = MultiHead_init_projections [OF mh]
  from MultiHead_forward_last [where mh = mh and dk = 2 and dv = 2 and query = x and key = k
      and val = k and B = 1 and Tq = 1 and Tk = Tk and rnd = "child 0 rnd"] f x k
  obtain heads where h: "shape heads = [1, 1, 2]"
    "MultiHead_forward mh (child 0 rnd) x k k = Linear_forward (mh_wo mh) heads"
    by auto
  have "shape heads = [1, 1] @ [in_features (mh_wo mh)]" using h(1) f by simp
  from Linear_forward_gap [OF this] rows g f obtain y where
    y: "Linear_forward (mh_wo mh) heads = Inr y" "shape y = [1, 1, 2]"
    and d: "\<And>bi. elem y (bi @ [0]) - elem y (bi @ [1]) = p [4, 1] [0] - p [4, 1] [1]"
    by auto
  from d [of "[0, 0]"] gap have d1: "elem y [0, 0, 0] - elem y [0, 0, 1] = 1" by simp
  have "rb_layer rb = mh" using ResidualBlock_init_fields [OF rb] by simp
  then have c: "MultiHead_call (rb_layer rb) (child 0 rnd) [x, k, k] = Inr y"
    using h(2) y(1) by (simp add: MultiHead_call_def)
  from ResidualBlock_forward_pair [where call = MultiHead_call and rb = rb and rnd = rnd
      and ?x0.0 = x and xs = "[k, k]" and y = y and layer = mh] c y(2) x rb d1
  show ?thesis by simp
qed

lemma feedforward_block_shift:
  assumes ff: "FeedForward_init p 2 2 0 = Inr ff"
    and rb: "ResidualBlock_init ff 2 0 = Inr rb"
    and rows: "\<forall>c. p [1, 0] [0, c] = p [1, 0] [1, c]"
    and gap: "p [1, 1] [0] - p [1, 1] [1] = 1"
    and x: "shape x = [1, 1, 2]"
  shows "\<exists>y. ResidualBlock_forward FeedForward_call rb rnd [x] = Inr y \<and>
             shape y = [1, 1, 2] \<and>
             elem y [0, 0, 0] = elem x [0, 0, 0] + pair_norm 1 \<and>
             elem y [0, 0, 1] = elem x [0, 0, 1] - pair_norm 1"
proof -
  note f = FeedForward_init_fields [OF ff] and g = FeedForward_init_last [OF ff]
  have "shape x = [1, 1] @ [in_features (ff_linear1 ff)]" using x f by simp
  from FeedForward_forward_last [OF this, of "child 0 rnd"] f
  obtain h where h: "shape h = [1, 1] @ [in_features (ff_linear2 ff)]"
    "FeedForward_forward ff (child 0 rnd) x = Linear_forward (ff_linear2 ff) h"
    by auto
  from Linear_forward_gap [OF h(1)] rows g f obtain y where
    y: "Linear_forward (ff_linear2 ff) h = Inr y" "shape y = [1, 1, 2]"
    and d: "\<And>bi. elem y (bi @ [0]) - elem y (bi @ [1]) = p [1, 1] [0] - p [1, 1] [1]"
    by auto
  from d [of "[0, 0]"] gap have d1: "elem y [0, 0, 0] - elem y [0, 0, 1] = 1" by simp
  have "rb_layer rb = ff" using ResidualBlock_init_fields [OF rb] by simp
  then have c: "FeedForward_call (rb_layer rb) (child 0 rnd) [x] = Inr y"
    using h(2) y(1) by (simp add: FeedForward_call_def)
  from ResidualBlock_forward_pair [where call = FeedForward_call and rb = rb and rnd = rnd
      and ?x0.0 = x and xs = "[]" and y = y and layer = ff] c y(2) x rb d1
  show ?thesis by simp
qed

lemma two_layer_EncoderLayer_forward:
  assumes l: "EncoderLayer_init (child i (child 1 example_weights)) two_layer_args = Inr l"
    and x: "shape x = [1, 1, 2]"
  shows "\<exists>y. EncoderLayer_forward l rnd x = Inr y \<and> shape y = [1, 1, 2] \<and>
             elem y [0, 0, 0] = elem x [0, 0, 0] + 2 * pair_norm 1 \<and>
             elem y [0, 0, 1] = elem x [0, 0, 1] - 2 * pair_norm 1"
proof -
  let ?p = "child i (child 1 example_weights)"
  from EncoderLayer_init_modules [OF l] obtain att mh ff where
    mh: "MultiHead_init (child 0 (child 0 ?p)) att 2 2 2 = Inr mh"
    and rb1: "ResidualBlock_init mh 2 0 = Inr (el_selfattn l)"
    and ff: "FeedForward_init (child 0 (child 1 ?p)) 2 2 0 = Inr ff"
    and rb2: "ResidualBlock_init ff 2 0 = Inr (el_feedforward l)"
    by (auto simp: two_layer_args_def)
  have r1: "\<forall>c. child 0 (child 0 ?p) [4, 0] [0, c] = child 0 (child 0 ?p) [4, 0] [1, c]"
    and g1: "child 0 (child 0 ?p) [4, 1] [0] - child 0 (child 0 ?p) [4, 1] [1] = 1"
    and r2: "\<forall>c. child 0 (child 1 ?p) [1, 0] [0, c] = child 0 (child 1 ?p) [1, 0] [1, c]"
    and g2: "child 0 (child 1 ?p) [1, 1] [0] - child 0 (child 1 ?p) [1, 1] [1] = 1"
    by (simp_all add: child_def example_weights_def)
  from attention_block_shift [OF mh rb1 r1 g1 x x, of "child 0 rnd"] obtain y where
    y: "ResidualBlock_forward MultiHead_call (el_selfattn l) (child 0 rnd) [x, x, x] = Inr y"
    "shape y = [1, 1, 2]"
    "elem y [0, 0, 0] = elem x [0, 0, 0] + pair_norm 1"
    "elem y [0, 0, 1] = elem x [0, 0, 1] - pair_norm 1" by blast
  from feedforward_block_shift [OF ff rb2 r2 g2 y(2), of "child 1 rnd"] obtain z where
    z: "ResidualBlock_forward FeedForward_call (el_feedforward l) (child 1 rnd) [y] = Inr z"
    "shape z = [1, 1, 2]"
    "elem z [0, 0, 0] = elem y [0, 0, 0] + pair_norm 1"
    "elem z [0, 0, 1] = elem y [0, 0, 1] - pair_norm 1" by blast
  from y z show ?thesis by (simp add: EncoderLayer_forward_def)
qed

lemma pair_norm_1_pos: "0 < pair_norm 1"
  by (simp add: pair_norm_def add_pos_nonneg)

lemma two_layer_encoder_layers:
  "EncoderLayer_init (child 0 (child 1 example_weights)) two_layer_args
     = Inr (enc_layers two_layer_encoder ! 0)"
  "EncoderLayer_init (child 1 (child 1 example_weights)) two_layer_args
     = Inr (enc_layers two_layer_encoder ! 1)"
  using Encoder_init_nth [OF two_layer_encoder_init, of 0]
    Encoder_init_nth [OF two_layer_encoder_init, of 1]
  by (simp_all add: two_layer_args_def)

lemma two_layer_decoder_layers:
  "DecoderLayer_init (child 0 (child 1 example_weights)) two_layer_args
     = Inr (dec_layers two_layer_decoder ! 0)"
  "DecoderLayer_init (child 1 (child 1 example_weights)) two_layer_args
     = Inr (dec_layers two_layer_decoder ! 1)"
  using Decoder_init_nth [OF two_layer_decoder_init, of 0]
    Decoder_init_nth [OF two_layer_decoder_init, of 1]
  by (simp_all add: two_layer_args_def)

lemma two_layer_encoding_shapes:
  "shape (two_layer_encoding ! 0) = [1, 1, 2]" "shape (two_layer_encoding ! 1) = [1, 1, 2]"
  using two_layer_encoding by (simp_all add: all_set_conv_all_nth)

lemma two_layer_encoding_second:
  "EncoderLayer_forward (enc_layers two_layer_encoder ! 1) (child 1 (child 1 (child 0 all_kept)))
     (two_layer_encoding ! 0) = Inr (two_layer_encoding ! 1)"
proof -
  from two_layer_encoding Encoder_forward_iff [of two_layer_encoder "child 0 all_kept"
      example_tokens two_layer_encoding]
  obtain x0 where
    p: "\<forall>i<2. encoder_prefix (child 1 (child 0 all_kept)) (enc_layers two_layer_encoder) (Suc i) x0
           = Inr (two_layer_encoding ! i)"
    by auto
  from p [rule_format, of 0] p [rule_format, of 1] show ?thesis
    by (simp add: numeral_2_eq_2)
qed

lemma two_layer_encoding_elems:
  "elem (two_layer_encoding ! 1) [0, 0, 0] = elem (two_layer_encoding ! 0) [0, 0, 0] + 2 * pair_norm 1 \<and>
   elem (two_layer_encoding ! 1) [0, 0, 1] = elem (two_layer_encoding ! 0) [0, 0, 1] - 2 * pair_norm 1"
  using two_layer_EncoderLayer_forward [OF two_layer_encoder_layers(2) two_layer_encoding_shapes(1),
      of "child 1 (child 1 (child 0 all_kept))"]
    two_layer_encoding_second
  by auto

lemma two_layer_encoding_differ: "two_layer_encoding ! 0 \<noteq> two_layer_encoding ! 1"
  using two_layer_encoding_elems pair_norm_1_pos by auto

lemma two_layer_layers_differ:
  "enc_layers two_layer_encoder ! 0 \<noteq> enc_layers two_layer_encoder ! 1"
proof -
  from EncoderLayer_init_modules [OF two_layer_encoder_layers(1)] obtain att mh where
    m0: "MultiHead_init (child 0 (child 0 (child 0 (child 1 example_weights)))) att 2 2 2 = Inr mh"
    "ResidualBlock_init mh 2 0 = Inr (el_selfattn (enc_layers two_layer_encoder ! 0))"
    by (auto simp: two_layer_args_def)
  from EncoderLayer_init_modules [OF two_layer_encoder_layers(2)] obtain att' mh' where
    m1: "MultiHead_init (child 0 (child 0 (child 1 (child 1 example_weights)))) att' 2 2 2 = Inr mh'"
    "ResidualBlock_init mh' 2 0 = Inr (el_selfattn (enc_layers two_layer_encoder ! 1))"
    by (auto simp: two_layer_args_def)
  have "elem (weight (mh_wo mh)) [0, 0] = 6" "elem (weight (mh_wo mh')) [0, 0] = 7"
    using MultiHead_init_projections [OF m0(1)] MultiHead_init_projections [OF m1(1)]
    by (simp_all add: child_def example_weights_def)
  moreover have "rb_layer (el_selfattn (enc_layers two_layer_encoder ! 0)) = mh"
    "rb_layer (el_selfattn (enc_layers two_layer_encoder ! 1)) = mh'"
    using ResidualBlock_init_fields [OF m0(2)] ResidualBlock_init_fields [OF m1(2)] by simp_all
  ultimately show ?thesis by auto
qed

text \<open>The decoder of the two-layer model: every block but the cross-attention of the first
  layer adds the same pair to its input, and that cross-attention adds a pair that depends
  on the encoding it is given. So the result of \<open>Decoder.forward\<close> tells which encoding the
  first layer was paired with.\<close>

lemma fold_heads_pair:
  assumes "shape x = [1, 1, 2]"
  shows "\<exists>f. fold_heads 2 x = Inr f \<and> shape f = [2, 1, 1] \<and>
           elem f [0, 0, 0] = elem x [0, 0, 0] \<and> elem f [1, 0, 0] = elem x [0, 0, 1]"
  using assms
  by (simp add: fold_heads_def split_dim_def combine_dims_def dim_def wrap_dim_def Let_def)

lemma unfold_heads_pair:
  assumes "shape x = [2, 1, 1]"
  shows "\<exists>u. and_then (split_dim 0 2 x) (combine_dims (-1) 1) = Inr u \<and> shape u = [1, 1, 2] \<and>
           elem u [0, 0, 0] = elem x [0, 0, 0] \<and> elem u [0, 0, 1] = elem x [1, 0, 0]"
  using assms
  by (simp add: split_dim_def combine_dims_def dim_def wrap_dim_def Let_def)

lemma Attention_forward_single_key:
  assumes q: "shape query = [B, 1, D]" and k: "shape key = [B, 1, D]"
    and v: "shape val = [B, 1, Dv]"
    and d: "att_dropout a = \<lparr>drop_p = 0, drop_training = True\<rparr>"
  shows "\<exists>out. Attention_forward a rnd query key val = Inr out \<and> shape out = [B, 1, Dv] \<and>
           (\<forall>b c. b < B \<longrightarrow> elem out [b, 0, c] = elem val [b, 0, c])"
proof -
  from Attention_forward_scaled [OF q k, of a rnd] obtain dp where
    dp: "shape dp = [B, 1, 1]"
    and fw: "Attention_forward a rnd query key val =
              matmul (Dropout_forward (att_dropout a) (child 0 rnd)
                        (softmax (map_tensor (\<lambda>x. xdiv x (att_scale a))
                           (if att_causal a then causal_mask 2 1 dp else map_tensor Fin dp))))
                     val"
    by blast
  define s where "s = map_tensor (\<lambda>x. xdiv x (att_scale a))
                           (if att_causal a then causal_mask 2 1 dp else map_tensor Fin dp)"
  have ss: "shape s = [B, 1, 1]" by (simp add: s_def map_tensor_def causal_mask_def dp)
  have pos: "0 < xexp (elem s [b, 0, 0])" for b
    by (simp add: s_def map_tensor_def causal_mask_def xdiv_def xexp_def)
  have w: "elem (softmax s) [b, 0, 0] = 1" for b
    unfolding softmax_3 [OF ss] using pos [of b] by simp
  have dw: "Dropout_forward (att_dropout a) r (softmax s) = softmax s" for r
    by (simp add: Dropout_forward_def d)
  have sw: "shape (softmax s) = [B, 1, 1]" by (simp add: softmax_def ss)
  from matmul_3 [OF sw v] obtain out where
    out: "matmul (softmax s) val = Inr out" "shape out = [B, 1, Dv]"
    "\<And>b i c. b < B \<Longrightarrow> elem out [b, i, c] = (\<Sum>j<1. elem (softmax s) [b, i, j] * elem val [b, j, c])"
    by blast
  have "elem out [b, 0, c] = elem val [b, 0, c]" if "b < B" for b c
    using out(3) [OF that, of 0 c] w [of b] by simp
  with out(1,2) fw show ?thesis by (simp add: s_def [symmetric] dw)
qed

lemma Linear_forward_pair:
  assumes x: "shape x = [1, 1, 2]" and i: "in_features l = 2" and o: "out_features l = 2"
  shows "\<exists>y. Linear_forward l x = Inr y \<and> shape y = [1, 1, 2] \<and>
           (\<forall>r. elem y [0, 0, r] =
                  elem x [0, 0, 0] * elem (weight l) [r, 0] + elem x [0, 0, 1] * elem (weight l) [r, 1]
                  + elem (bias l) [r])"
  using assms by (simp add: Linear_forward_def numeral_2_eq_2)

lemma DecoderLayer_init_cross:
  assumes "DecoderLayer_init init a = Inr l"
  shows "\<exists>mh.
     MultiHead_init (child 0 (child 1 init))
       \<lparr>att_scale = sqrt (real_of_int (arg_d_model a)),
        att_dropout = \<lparr>drop_p = arg_drop_ratio a, drop_training = True\<rparr>, att_causal = False\<rparr>
       (arg_d_model a) (arg_d_model a) (arg_n_heads a) = Inr mh \<and>
     ResidualBlock_init mh (arg_d_model a) (arg_drop_ratio a) = Inr (dl_attention l)"
  using assms
  by (auto simp: DecoderLayer_init_def Attention_init_def Dropout_init_def and_then_eq_Inr
      split: if_splits)

lemma cross_attention_pair:
  assumes mh: "MultiHead_init p att 2 2 2 = Inr mh"
    and ad: "att_dropout att = \<lparr>drop_p = 0, drop_training = True\<rparr>"
    and wv: "\<forall>r c. p [3, 0] [r, c] = 1 + real (r * c)" and bv: "\<forall>r. p [3, 1] [r] = 2 - real r"
    and wo: "\<forall>r c. p [4, 0] [r, c] = 1 + real (r * c)" and bo: "\<forall>r. p [4, 1] [r] = 2 - real r"
    and x: "shape x = [1, 1, 2]" and e: "shape e = [1, 1, 2]"
  shows "\<exists>y. MultiHead_forward mh rnd x e e = Inr y \<and> shape y = [1, 1, 2] \<and>
           elem y [0, 0, 0] - elem y [0, 0, 1] = - elem e [0, 0, 0] - 2 * elem e [0, 0, 1]"
proof -
  note f = MultiHead_init_fields [OF mh] and g = MultiHead_init_projections [OF mh]
  from f have nh: "mh_n_heads mh = 2" and at: "mh_attention mh = att" by simp_all
  from Linear_forward_shape [of x "[1, 1]" "mh_wq mh"] x f
  obtain q1 where q1: "Linear_forward (mh_wq mh) x = Inr q1" "shape q1 = [1, 1, 2]" by auto
  from Linear_forward_shape [of e "[1, 1]" "mh_wk mh"] e f
  obtain k1 where k1: "Linear_forward (mh_wk mh) e = Inr k1" "shape k1 = [1, 1, 2]" by auto
  from Linear_forward_pair [OF e, of "mh_wv mh"] f
  obtain v1 where v1: "Linear_forward (mh_wv mh) e = Inr v1" "shape v1 = [1, 1, 2]"
    and v1e: "\<And>r. elem v1 [0, 0, r] =
        elem e [0, 0, 0] * elem (weight (mh_wv mh)) [r, 0]
        + elem e [0, 0, 1] * elem (weight (mh_wv mh)) [r, 1] + elem (bias (mh_wv mh)) [r]"
    by auto
  from fold_heads_pair [OF q1(2)] obtain q2 where
    q2: "fold_heads 2 q1 = Inr q2" "shape q2 = [2, 1, 1]" by blast
  from fold_heads_pair [OF k1(2)] obtain k2 where
    k2: "fold_heads 2 k1 = Inr k2" "shape k2 = [2, 1, 1]" by blast
  from fold_heads_pair [OF v1(2)] obtain v2 where
    v2: "fold_heads 2 v1 = Inr v2" "shape v2 = [2, 1, 1]"
    "elem v2 [0, 0, 0] = elem v1 [0, 0, 0]" "elem v2 [1, 0, 0] = elem v1 [0, 0, 1]" by blast
  from Attention_forward_single_key [OF q2(2) k2(2) v2(2) ad, of "child 0 rnd"] obtain o1 where
    o1: "Attention_forward att (child 0 rnd) q2 k2 v2 = Inr o1" "shape o1 = [2, 1, 1]"
    and o1e: "\<And>b c. b < 2 \<Longrightarrow> elem o1 [b, 0, c] = elem v2 [b, 0, c]" by blast
  from unfold_heads_pair [OF o1(2)] obtain o2 where
    o2: "and_then (split_dim 0 2 o1) (combine_dims (-1) 1) = Inr o2" "shape o2 = [1, 1, 2]"
    "elem o2 [0, 0, 0] = elem o1 [0, 0, 0]" "elem o2 [0, 0, 1] = elem o1 [1, 0, 0]" by blast
  from o2(1) obtain o15 where o15: "split_dim 0 2 o1 = Inr o15" "combine_dims (-1) 1 o15 = Inr o2"
    by (auto simp: and_then_eq_Inr)
  from Linear_forward_pair [OF o2(2), of "mh_wo mh"] f
  obtain y where y: "Linear_forward (mh_wo mh) o2 = Inr y" "shape y = [1, 1, 2]"
    and ye: "\<And>r. elem y [0, 0, r] =
        elem o2 [0, 0, 0] * elem (weight (mh_wo mh)) [r, 0]
        + elem o2 [0, 0, 1] * elem (weight (mh_wo mh)) [r, 1] + elem (bias (mh_wo mh)) [r]"
    by auto
  have run: "MultiHead_forward mh rnd x e e = Inr y"
    by (simp add: MultiHead_forward_def nh at q1 k1 v1 q2 k2 v2 o1 o15 y)
  define a where "a = elem e [0, 0, 0]"
  define b where "b = elem e [0, 0, 1]"
  have h0: "elem o2 [0, 0, 0] = a + b + 2"
    using o2(3) o1e [of 0 0] v2(3) v1e [of 0] g wv bv by (simp add: a_def b_def)
  have h1: "elem o2 [0, 0, 1] = a + 2 * b + 1"
    using o2(4) o1e [of 1 0] v2(4) v1e [of 1] g wv bv by (simp add: a_def b_def)
  have y0: "elem y [0, 0, 0] = (a + b + 2) + (a + 2 * b + 1) + 2"
    using ye [of 0] g wo bo h0 h1 by simp
  have y1: "elem y [0, 0, 1] = (a + b + 2) + 2 * (a + 2 * b + 1) + 1"
    using ye [of 1] g wo bo h0 h1 by simp
  have "elem y [0, 0, 0] - elem y [0, 0, 1] = - a - 2 * b"
    unfolding y0 y1 by simp
  with run y(2) show ?thesis by (simp add: a_def b_def)
qed

lemma pair_norm_inj:
  assumes "pair_norm a = pair_norm b"
  shows "a = b"
proof -
  define k where "k = 1 / sqrt 2"
  define e :: real where "e = 1 / 10 ^ 6"
  have k: "0 < k" by (simp add: k_def)
  have e: "0 < e" by (simp add: e_def)
  have s: "sqrt (x\<^sup>2 / 2) = \<bar>x\<bar> * k" for x :: real
    by (simp add: real_sqrt_divide k_def)
  have da: "0 < \<bar>a\<bar> * k + e" and db: "0 < \<bar>b\<bar> * k + e"
    using k e by (simp_all add: add_nonneg_pos)
  then have nz: "\<bar>a\<bar> * k + e \<noteq> 0" "\<bar>b\<bar> * k + e \<noteq> 0" by simp_all
  from assms have "(a / 2) / (\<bar>a\<bar> * k + e) = (b / 2) / (\<bar>b\<bar> * k + e)"
    by (simp only: pair_norm_def s e_def)
  with frac_eq_eq [OF nz, of "a / 2" "b / 2"]
  have "a / 2 * (\<bar>b\<bar> * k + e) = b / 2 * (\<bar>a\<bar> * k + e)" by blast
  then have cm: "a * (\<bar>b\<bar> * k + e) = b * (\<bar>a\<bar> * k + e)" by simp
  show ?thesis
  proof (cases "0 \<le> a")
    case True
    show ?thesis
    proof (cases "0 \<le> b")
      case True
      with \<open>0 \<le> a\<close> cm have "a * e = b * e" by (simp add: algebra_simps)
      with e show ?thesis by simp
    next
      case False
      then have "b * (\<bar>a\<bar> * k + e) < 0" using da by (simp add: mult_neg_pos)
      moreover have "0 \<le> a * (\<bar>b\<bar> * k + e)" using True db by simp
      ultimately show ?thesis using cm by simp
    qed
  next
    case False
    show ?thesis
    proof (cases "0 \<le> b")
      case True
      from False have "a * (\<bar>b\<bar> * k + e) < 0" using db by (simp add: mult_neg_pos)
      moreover have "0 \<le> b * (\<bar>a\<bar> * k + e)" using True da by simp
      ultimately show ?thesis using cm by simp
    next
      case b: False
      with False cm have "a * e = b * e" by (simp add: algebra_simps)
      with e show ?thesis by simp
    qed
  qed
qed

lemma two_layer_DecoderLayer_first:
  assumes l: "DecoderLayer_init (child 0 (child 1 example_weights)) two_layer_args = Inr l"
    and x: "shape x = [1, 1, 2]" and e: "shape e = [1, 1, 2]"
  shows "\<exists>y. DecoderLayer_forward l rnd x e = Inr y \<and> shape y = [1, 1, 2] \<and>
     elem y [0, 0, 0] = elem x [0, 0, 0] + 2 * pair_norm 1
        + pair_norm (- elem e [0, 0, 0] - 2 * elem e [0, 0, 1]) \<and>
     elem y [0, 0, 1] = elem x [0, 0, 1] - 2 * pair_norm 1
        - pair_norm (- elem e [0, 0, 0] - 2 * elem e [0, 0, 1])"
proof -
  let ?p = "child 0 (child 1 example_weights)"
  let ?att = "\<lparr>att_scale = sqrt (real_of_int 2),
        att_dropout = \<lparr>drop_p = 0, drop_training = True\<rparr>, att_causal = False\<rparr>"
  from DecoderLayer_init_modules [OF l] obtain att mh ff where
    mh: "MultiHead_init (child 0 (child 0 ?p)) att 2 2 2 = Inr mh"
    and rb1: "ResidualBlock_init mh 2 0 = Inr (dl_selfattn l)"
    and ff: "FeedForward_init (child 0 (child 2 ?p)) 2 2 0 = Inr ff"
    and rb3: "ResidualBlock_init ff 2 0 = Inr (dl_feedforward l)"
    by (auto simp: two_layer_args_def)
  from DecoderLayer_init_cross [OF l] obtain mh2 where
    mh2: "MultiHead_init (child 0 (child 1 ?p)) ?att 2 2 2 = Inr mh2"
    and rb2: "ResidualBlock_init mh2 2 0 = Inr (dl_attention l)"
    by (auto simp: two_layer_args_def)
  have r1: "\<forall>c. child 0 (child 0 ?p) [4, 0] [0, c] = child 0 (child 0 ?p) [4, 0] [1, c]"
    and g1: "child 0 (child 0 ?p) [4, 1] [0] - child 0 (child 0 ?p) [4, 1] [1] = 1"
    and r3: "\<forall>c. child 0 (child 2 ?p) [1, 0] [0, c] = child 0 (child 2 ?p) [1, 0] [1, c]"
    and g3: "child 0 (child 2 ?p) [1, 1] [0] - child 0 (child 2 ?p) [1, 1] [1] = 1"
    by (simp_all add: child_def example_weights_def)
  have wv: "\<forall>r c. child 0 (child 1 ?p) [3, 0] [r, c] = 1 + real (r * c)"
    and bv: "\<forall>r. child 0 (child 1 ?p) [3, 1] [r] = 2 - real r"
    and wo: "\<forall>r c. child 0 (child 1 ?p) [4, 0] [r, c] = 1 + real (r * c)"
    and bo: "\<forall>r. child 0 (child 1 ?p) [4, 1] [r] = 2 - real r"
    by (simp_all add: child_def example_weights_def)
  have ad: "att_dropout ?att = \<lparr>drop_p = 0, drop_training = True\<rparr>" by simp
  from attention_block_shift [OF mh rb1 r1 g1 x x, of "child 0 rnd"] obtain y1 where
    y1: "ResidualBlock_forward MultiHead_call (dl_selfattn l) (child 0 rnd) [x, x, x] = Inr y1"
    "shape y1 = [1, 1, 2]"
    "elem y1 [0, 0, 0] = elem x [0, 0, 0] + pair_norm 1"
    "elem y1 [0, 0, 1] = elem x [0, 0, 1] - pair_norm 1" by blast
  from cross_attention_pair [OF mh2 ad wv bv wo bo y1(2) e, of "child 0 (child 1 rnd)"]
  obtain c where
    c: "MultiHead_forward mh2 (child 0 (child 1 rnd)) y1 e e = Inr c" "shape c = [1, 1, 2]"
    "elem c [0, 0, 0] - elem c [0, 0, 1] = - elem e [0, 0, 0] - 2 * elem e [0, 0, 1]" by blast
  have "rb_layer (dl_attention l) = mh2" using ResidualBlock_init_fields [OF rb2] by simp
  then have call: "MultiHead_call (rb_layer (dl_attention l)) (child 0 (child 1 rnd)) [y1, e, e]
      = Inr c"
    using c(1) by (simp add: MultiHead_call_def)
  from ResidualBlock_forward_pair [where call = MultiHead_call and rb = "dl_attention l"
      and rnd = "child 1 rnd" and ?x0.0 = y1 and xs = "[e, e]" and y = c and layer = mh2]
    call c(2) y1(2) rb2
  obtain y2 where
    y2: "ResidualBlock_forward MultiHead_call (dl_attention l) (child 1 rnd) [y1, e, e] = Inr y2"
    "shape y2 = [1, 1, 2]"
    "elem y2 [0, 0, 0] = elem y1 [0, 0, 0] + pair_norm (elem c [0, 0, 0] - elem c [0, 0, 1])"
    "elem y2 [0, 0, 1] = elem y1 [0, 0, 1] - pair_norm (elem c [0, 0, 0] - elem c [0, 0, 1])"
    by blast
  from feedforward_block_shift [OF ff rb3 r3 g3 y2(2), of "child 2 rnd"] obtain y3 where
    y3: "ResidualBlock_forward FeedForward_call (dl_feedforward l) (child 2 rnd) [y2] = Inr y3"
    "shape y3 = [1, 1, 2]"
    "elem y3 [0, 0, 0] = elem y2 [0, 0, 0] + pair_norm 1"
    "elem y3 [0, 0, 1] = elem y2 [0, 0, 1] - pair_norm 1" by blast
  from y1 y2 y3 c(3) show ?thesis by (simp add: DecoderLayer_forward_def)
qed

lemma two_layer_DecoderLayer_second:
  assumes l: "DecoderLayer_init (child 1 (child 1 example_weights)) two_layer_args = Inr l"
    and x: "shape x = [1, 1, 2]" and e: "shape e = [1, 1, 2]"
  shows "\<exists>y. DecoderLayer_forward l rnd x e = Inr y \<and> shape y = [1, 1, 2] \<and>
     elem y [0, 0, 0] = elem x [0, 0, 0] + 3 * pair_norm 1 \<and>
     elem y [0, 0, 1] = elem x [0, 0, 1] - 3 * pair_norm 1"
proof -
  let ?p = "child 1 (child 1 example_weights)"
  from DecoderLayer_init_modules [OF l] obtain att mh att2 mh2 ff where
    mh: "MultiHead_init (child 0 (child 0 ?p)) att 2 2 2 = Inr mh"
    and rb1: "ResidualBlock_init mh 2 0 = Inr (dl_selfattn l)"
    and mh2: "MultiHead_init (child 0 (child 1 ?p)) att2 2 2 2 = Inr mh2"
    and rb2: "ResidualBlock_init mh2 2 0 = Inr (dl_attention l)"
    and ff: "FeedForward_init (child 0 (child 2 ?p)) 2 2 0 = Inr ff"
    and rb3: "ResidualBlock_init ff 2 0 = Inr (dl_feedforward l)"
    by (auto simp: two_layer_args_def)
  have r1: "\<forall>c. child 0 (child 0 ?p) [4, 0] [0, c] = child 0 (child 0 ?p) [4, 0] [1, c]"
    and g1: "child 0 (child 0 ?p) [4, 1] [0] - child 0 (child 0 ?p) [4, 1] [1] = 1"
    and r2: "\<forall>c. child 0 (child 1 ?p) [4, 0] [0, c] = child 0 (child 1 ?p) [4, 0] [1, c]"
    and g2: "child 0 (child 1 ?p) [4, 1] [0] - child 0 (child 1 ?p) [4, 1] [1] = 1"
    and r3: "\<forall>c. child 0 (child 2 ?p) [1, 0] [0, c] = child 0 (child 2 ?p) [1, 0] [1, c]"
    and g3: "child 0 (child 2 ?p) [1, 1] [0] - child 0 (child 2 ?p) [1, 1] [1] = 1"
    by (simp_all add: child_def example_weights_def)
  from attention_block_shift [OF mh rb1 r1 g1 x x, of "child 0 rnd"] obtain y1 where
    y1: "ResidualBlock_forward MultiHead_call (dl_selfattn l) (child 0 rnd) [x, x, x] = Inr y1"
    "shape y1 = [1, 1, 2]"
    "elem y1 [0, 0, 0] = elem x [0, 0, 0] + pair_norm 1"
    "elem y1 [0, 0, 1] = elem x [0, 0, 1] - pair_norm 1" by blast
  from attention_block_shift [OF mh2 rb2 r2 g2 y1(2) e, of "child 1 rnd"] obtain y2 where
    y2: "ResidualBlock_forward MultiHead_call (dl_attention l) (child 1 rnd) [y1, e, e] = Inr y2"
    "shape y2 = [1, 1, 2]"
    "elem y2 [0, 0, 0] = elem y1 [0, 0, 0] + pair_norm 1"
    "elem y2 [0, 0, 1] = elem y1 [0, 0, 1] - pair_norm 1" by blast
  from feedforward_block_shift [OF ff rb3 r3 g3 y2(2), of "child 2 rnd"] obtain y3 where
    y3: "ResidualBlock_forward FeedForward_call (dl_feedforward l) (child 2 rnd) [y2] = Inr y3"
    "shape y3 = [1, 1, 2]"
    "elem y3 [0, 0, 0] = elem y2 [0, 0, 0] + pair_norm 1"
    "elem y3 [0, 0, 1] = elem y2 [0, 0, 1] - pair_norm 1" by blast
  from y1 y2 y3 show ?thesis by (simp add: DecoderLayer_forward_def)
qed

lemma two_layer_decoder_run:
  assumes ea: "shape ea = [1, 1, 2]" and eb: "shape eb = [1, 1, 2]"
  shows "\<exists>h out.
     embed_tokens (dec_out two_layer_decoder) (dec_d_model two_layer_decoder)
       (dec_dropout two_layer_decoder) (child 2 (child 1 all_kept)) example_tokens = Inr h \<and>
     Decoder_forward two_layer_decoder (child 1 all_kept) example_tokens [ea, eb] = Inr out \<and>
     elem out [0, 0, 0] = elem h [0, 0, 0] + 5 * pair_norm 1
        + pair_norm (- elem ea [0, 0, 0] - 2 * elem ea [0, 0, 1])"
proof -
  note f = Decoder_init_fields [OF two_layer_decoder_init]
  have w: "shape (weight (dec_out two_layer_decoder)) = [2, 2]"
    using f by (simp add: two_layer_field_out)
  from embed_tokens_shape [where out = "dec_out two_layer_decoder" and V = 2 and D = 2
      and d_model = "dec_d_model two_layer_decoder" and x = example_tokens and bs = "[1]" and T = 1
      and dropout = "dec_dropout two_layer_decoder" and rnd = "child 2 (child 1 all_kept)"]
    w f example_tokens_in_vocabulary
  obtain h where h: "embed_tokens (dec_out two_layer_decoder) (dec_d_model two_layer_decoder)
       (dec_dropout two_layer_decoder) (child 2 (child 1 all_kept)) example_tokens = Inr h"
    "shape h = [1, 1, 2]"
    by (auto simp: two_layer_args_def)
  from two_layer_DecoderLayer_first [OF two_layer_decoder_layers(1) h(2) ea,
      of "child 0 (child 1 (child 1 all_kept))"]
  obtain y where y: "DecoderLayer_forward (dec_layers two_layer_decoder ! 0)
        (child 0 (child 1 (child 1 all_kept))) h ea = Inr y" "shape y = [1, 1, 2]"
    "elem y [0, 0, 0] = elem h [0, 0, 0] + 2 * pair_norm 1
        + pair_norm (- elem ea [0, 0, 0] - 2 * elem ea [0, 0, 1])" by blast
  from two_layer_DecoderLayer_second [OF two_layer_decoder_layers(2) y(2) eb,
      of "child 1 (child 1 (child 1 all_kept))"]
  obtain z where z: "DecoderLayer_forward (dec_layers two_layer_decoder ! 1)
        (child 1 (child 1 (child 1 all_kept))) y eb = Inr z"
    "elem z [0, 0, 0] = elem y [0, 0, 0] + 3 * pair_norm 1" by blast
  have len: "length (dec_layers two_layer_decoder) = 2" using f by (simp add: two_layer_args_def)
  have "Decoder_forward two_layer_decoder (child 1 all_kept) example_tokens [ea, eb] = Inr z"
    using h(1) y(1) z(1) len
    by (simp add: Decoder_forward_prefix numeral_2_eq_2)
  with h(1) y(3) z(2) show ?thesis by simp
qed

lemma list_of_two: "length xs = 2 \<Longrightarrow> xs = [xs ! 0, xs ! 1]"
  by (cases xs; cases "tl xs") auto

lemma two_layer_encoding_list:
  "two_layer_encoding = [two_layer_encoding ! 0, two_layer_encoding ! 1]"
  using two_layer_encoding by (intro list_of_two) simp

lemma two_layer_pairing_matters:
  "\<not> isl (Decoder_forward two_layer_decoder (child 1 all_kept) example_tokens two_layer_encoding) \<and>
   Decoder_forward two_layer_decoder (child 1 all_kept) example_tokens two_layer_encoding \<noteq>
   Decoder_forward two_layer_decoder (child 1 all_kept) example_tokens
     [two_layer_encoding ! 1, two_layer_encoding ! 1]"
proof -
  let ?e0 = "two_layer_encoding ! 0" and ?e1 = "two_layer_encoding ! 1"
  from two_layer_decoder_run [OF two_layer_encoding_shapes(1) two_layer_encoding_shapes(2)]
  obtain h out where
    a: "embed_tokens (dec_out two_layer_decoder) (dec_d_model two_layer_decoder)
       (dec_dropout two_layer_decoder) (child 2 (child 1 all_kept)) example_tokens = Inr h"
    "Decoder_forward two_layer_decoder (child 1 all_kept) example_tokens [?e0, ?e1] = Inr out"
    "elem out [0, 0, 0] = elem h [0, 0, 0] + 5 * pair_norm 1
        + pair_norm (- elem ?e0 [0, 0, 0] - 2 * elem ?e0 [0, 0, 1])" by blast
  from two_layer_decoder_run [OF two_layer_encoding_shapes(2) two_layer_encoding_shapes(2)]
  obtain h' out' where
    b: "embed_tokens (dec_out two_layer_decoder) (dec_d_model two_layer_decoder)
       (dec_dropout two_layer_decoder) (child 2 (child 1 all_kept)) example_tokens = Inr h'"
    "Decoder_forward two_layer_decoder (child 1 all_kept) example_tokens [?e1, ?e1] = Inr out'"
    "elem out' [0, 0, 0] = elem h' [0, 0, 0] + 5 * pair_norm 1
        + pair_norm (- elem ?e1 [0, 0, 0] - 2 * elem ?e1 [0, 0, 1])" by blast
  from a(1) b(1) have hh: "h' = h" by simp
  have "out \<noteq> out'"
  proof
    assume "out = out'"
    with a(3) b(3) hh have "pair_norm (- elem ?e0 [0, 0, 0] - 2 * elem ?e0 [0, 0, 1])
        = pair_norm (- elem ?e1 [0, 0, 0] - 2 * elem ?e1 [0, 0, 1])" by simp
    from pair_norm_inj [OF this] two_layer_encoding_elems have "pair_norm 1 = 0" by simp
    with pair_norm_1_pos show False by simp
  qed
  with a(2) b(2) two_layer_encoding_list show ?thesis by (metis sum.disc(2) sum.inject(2))
qed

text \<open>
  C2. For an encoder and a decoder built from the same \<open>args\<close>, \<open>Encoder.forward\<close>
  returns a list exactly when the embedding succeeds and every layer in turn succeeds;
  the list has \<open>n_layers\<close> elements, and element \<open>i\<close> is the output of layer \<open>i\<close>
  applied after the layers \<open>0 .. i - 1\<close>. Given such a list, \<open>Decoder.forward\<close> is the
  embedding followed by the \<open>n_layers\<close> decoder layers in order, layer \<open>i\<close> attending
  to element \<open>i\<close> of the list, and its result is the last hidden state alone.
\<close>

theorem Encoder_Decoder_layerwise:
  assumes enc: "Encoder_init init field a = Inr enc"
    and dec: "Decoder_init init' field' a = Inr dec"
  shows "(Encoder_forward enc rnd x = Inr encoding \<longleftrightarrow>
           (\<exists>x0. embed_tokens (enc_out enc) (enc_d_model enc) (enc_dropout enc) (child 2 rnd) x
                   = Inr x0 \<and>
                 length encoding = nat (arg_n_layers a) \<and>
                 (\<forall>i<length encoding.
                    encoder_prefix (child 1 rnd) (enc_layers enc) (Suc i) x0
                      = Inr (encoding ! i)))) \<and>
         (length encoding = nat (arg_n_layers a) \<longrightarrow>
            Decoder_forward dec rnd' y encoding =
              and_then (embed_tokens (dec_out dec) (dec_d_model dec) (dec_dropout dec)
                          (child 2 rnd') y)
                (decoder_prefix (child 1 rnd') (dec_layers dec) encoding (nat (arg_n_layers a))))"
  using Encoder_forward_iff [of enc rnd x encoding] Encoder_init_layers [OF enc]
    Decoder_forward_prefix [of dec rnd' y encoding] Decoder_init_layers [OF dec]
  by (simp del: encoder_prefix.simps decoder_prefix.simps)

text \<open>The theorem at the encoder and the decoder of two layers built from
  \<open>example_weights\<close>, and one token. The encoder returns a list of two encodings: the
  first is the output of layer 0 on the embedded token and the second the output of
  layer 1 on the first. The two layers are different modules and the two encodings
  different tensors. The decoder, given that list, runs layer 0 on the first encoding and
  then layer 1 on the second; it returns, and its result differs from the one it returns
  when both layers are given the second encoding.\<close>

theorem Encoder_Decoder_layerwise_witness:
  "Encoder_init example_weights two_layer_field two_layer_args = Inr two_layer_encoder \<and>
   Decoder_init example_weights two_layer_field two_layer_args = Inr two_layer_decoder \<and>
   Encoder_forward two_layer_encoder (child 0 all_kept) example_tokens = Inr two_layer_encoding \<and>
   length two_layer_encoding = 2 \<and>
   (\<exists>x0. embed_tokens (enc_out two_layer_encoder) (enc_d_model two_layer_encoder)
            (enc_dropout two_layer_encoder) (child 2 (child 0 all_kept)) example_tokens = Inr x0 \<and>
         EncoderLayer_forward (enc_layers two_layer_encoder ! 0)
           (child 0 (child 1 (child 0 all_kept))) x0 = Inr (two_layer_encoding ! 0) \<and>
         EncoderLayer_forward (enc_layers two_layer_encoder ! 1)
           (child 1 (child 1 (child 0 all_kept))) (two_layer_encoding ! 0)
           = Inr (two_layer_encoding ! 1)) \<and>
   enc_layers two_layer_encoder ! 0 \<noteq> enc_layers two_layer_encoder ! 1 \<and>
   two_layer_encoding ! 0 \<noteq> two_layer_encoding ! 1 \<and>
   Decoder_forward two_layer_decoder (child 1 all_kept) example_tokens two_layer_encoding =
     and_then (embed_tokens (dec_out two_layer_decoder) (dec_d_model two_layer_decoder)
                 (dec_dropout two_layer_decoder) (child 2 (child 1 all_kept)) example_tokens)
       (\<lambda>h. and_then (DecoderLayer_forward (dec_layers two_layer_decoder ! 0)
                         (child 0 (child 1 (child 1 all_kept))) h (two_layer_encoding ! 0))
              (\<lambda>h. DecoderLayer_forward (dec_layers two_layer_decoder ! 1)
                      (child 1 (child 1 (child 1 all_kept))) h (two_layer_encoding ! 1))) \<and>
   \<not> isl (Decoder_forward two_layer_decoder (child 1 all_kept) example_tokens
            two_layer_encoding) \<and>
   Decoder_forward two_layer_decoder (child 1 all_kept) example_tokens two_layer_encoding \<noteq>
     Decoder_forward two_layer_decoder (child 1 all_kept) example_tokens
       [two_layer_encoding ! 1, two_layer_encoding ! 1]"
proof -
  have n: "nat (arg_n_layers two_layer_args) = 2" by (simp add: two_layer_args_def)
  note t = Encoder_Decoder_layerwise [OF two_layer_encoder_init two_layer_decoder_init,
      of "child 0 all_kept" example_tokens two_layer_encoding "child 1 all_kept" example_tokens,
      unfolded n]
  from t two_layer_encoding obtain x0 where
    x0: "embed_tokens (enc_out two_layer_encoder) (enc_d_model two_layer_encoder)
            (enc_dropout two_layer_encoder) (child 2 (child 0 all_kept)) example_tokens = Inr x0"
    and p: "\<forall>i<length two_layer_encoding.
              encoder_prefix (child 1 (child 0 all_kept)) (enc_layers two_layer_encoder) (Suc i) x0
                = Inr (two_layer_encoding ! i)"
    by blast
  from p [rule_format, of 0] two_layer_encoding
  have e0: "EncoderLayer_forward (enc_layers two_layer_encoder ! 0)
           (child 0 (child 1 (child 0 all_kept))) x0 = Inr (two_layer_encoding ! 0)"
    by simp
  from p [rule_format, of 1] two_layer_encoding e0
  have e1: "EncoderLayer_forward (enc_layers two_layer_encoder ! 1)
           (child 1 (child 1 (child 0 all_kept))) (two_layer_encoding ! 0)
           = Inr (two_layer_encoding ! 1)"
    by simp
  have d: "Decoder_forward two_layer_decoder (child 1 all_kept) example_tokens two_layer_encoding =
     and_then (embed_tokens (dec_out two_layer_decoder) (dec_d_model two_layer_decoder)
                 (dec_dropout two_layer_decoder) (child 2 (child 1 all_kept)) example_tokens)
       (decoder_prefix (child 1 (child 1 all_kept)) (dec_layers two_layer_decoder)
          two_layer_encoding 2)"
    using t two_layer_encoding by simp
  have "decoder_prefix r ls es 2 =
          (\<lambda>h. and_then (DecoderLayer_forward (ls ! 0) (child 0 r) h (es ! 0))
                  (\<lambda>h. DecoderLayer_forward (ls ! 1) (child 1 r) h (es ! 1)))"
    for r ls es
    by (rule ext) (simp add: numeral_2_eq_2)
  with d have d2: "Decoder_forward two_layer_decoder (child 1 all_kept) example_tokens
        two_layer_encoding =
     and_then (embed_tokens (dec_out two_layer_decoder) (dec_d_model two_layer_decoder)
                 (dec_dropout two_layer_decoder) (child 2 (child 1 all_kept)) example_tokens)
       (\<lambda>h. and_then (DecoderLayer_forward (dec_layers two_layer_decoder ! 0)
                         (child 0 (child 1 (child 1 all_kept))) h (two_layer_encoding ! 0))
              (\<lambda>h. DecoderLayer_forward (dec_layers two_layer_decoder ! 1)
                      (child 1 (child 1 (child 1 all_kept))) h (two_layer_encoding ! 1)))"
    by simp
  have len: "length two_layer_encoding = 2" using two_layer_encoding by simp
  have steps: "\<exists>x0. embed_tokens (enc_out two_layer_encoder) (enc_d_model two_layer_encoder)
            (enc_dropout two_layer_encoder) (child 2 (child 0 all_kept)) example_tokens = Inr x0 \<and>
         EncoderLayer_forward (enc_layers two_layer_encoder ! 0)
           (child 0 (child 1 (child 0 all_kept))) x0 = Inr (two_layer_encoding ! 0) \<and>
         EncoderLayer_forward (enc_layers two_layer_encoder ! 1)
           (child 1 (child 1 (child 0 all_kept))) (two_layer_encoding ! 0)
           = Inr (two_layer_encoding ! 1)"
    using x0 e0 e1 by blast
  from two_layer_encoder_init two_layer_decoder_init two_layer_encoding len steps
    two_layer_layers_differ two_layer_encoding_differ d2 two_layer_pairing_matters
  show ?thesis by blast
qed

end
